theory Spec2Isabelle
  imports Main "HOL-Library.Word"
begin

section \<open>Bytes, errors and outcomes\<close>

text \<open>
  The Go client lives in \<^verbatim>\<open>wormhole/dial_js.go\<close>, the browser client in
  \<^verbatim>\<open>web/ww.js\<close>. A Go \<^verbatim>\<open>[]byte\<close> is a list of 8-bit words, a Go
  \<^verbatim>\<open>string\<close> that travels as a text frame is a \<^typ>\<open>string\<close>.
\<close>

type_synonym byte = "8 word"
type_synonym bytes = "byte list"

text \<open>
  The error values of the package (\<^verbatim>\<open>ErrBadVersion\<close>, \<^verbatim>\<open>ErrBadKey\<close>,
  \<^verbatim>\<open>ErrNoSuchSlot\<close>, \<^verbatim>\<open>ErrTimedOut\<close>), the close error of the websocket
  library (\<^verbatim>\<open>websocket.CloseError{Code, Reason}\<close>) and the errors of the other
  libraries the code passes through unchanged.
\<close>

datatype error =
    ErrBadVersion
  | ErrBadKey
  | ErrNoSuchSlot
  | ErrTimedOut
  | CloseError int string
  | CorruptInputError
  | ErrUnexpectedEOF
  | EOF
  | ErrClosed
  | OtherError string

text \<open>
  What a call does: it returns a value (\<open>Ok\<close>), returns a non-nil Go error
  (\<open>Err\<close>), panics, or blocks forever on a read that nothing answers.
\<close>

datatype 'a outcome = Ok 'a | Err error | Panic string | Blocked

text \<open>\<^verbatim>\<open>if err != nil { return err }\<close>: the rest runs only after a normal return.\<close>

fun andThen :: "'a outcome \<times> 's \<Rightarrow> ('a \<Rightarrow> 's \<Rightarrow> 'b outcome \<times> 's) \<Rightarrow> 'b outcome \<times> 's" where
  "andThen (Ok x, s) f = f x s"
| "andThen (Err e, s) f = (Err e, s)"
| "andThen (Panic m, s) f = (Panic m, s)"
| "andThen (Blocked, s) f = (Blocked, s)"

text \<open>
  What the code does with a non-nil \<^verbatim>\<open>err\<close> before it returns: \<open>h\<close> gets the
  error and the state; everything else passes through.
\<close>

fun on_error :: "'a outcome \<times> 's \<Rightarrow> (error \<Rightarrow> 's \<Rightarrow> 'a outcome \<times> 's) \<Rightarrow> 'a outcome \<times> 's" where
  "on_error (Err e, s) h = h e s"
| "on_error (Ok x, s) h = (Ok x, s)"
| "on_error (Panic m, s) h = (Panic m, s)"
| "on_error (Blocked, s) h = (Blocked, s)"

subsection \<open>Protocol constants\<close>

text \<open>\<^verbatim>\<open>const ( CloseNoSuchSlot = 4000 + iota; CloseSlotTimedOut; ... )\<close>\<close>

definition CloseNoSuchSlot :: int where "CloseNoSuchSlot = 4000 + 0"
definition CloseSlotTimedOut :: int where "CloseSlotTimedOut = 4000 + 1"
definition CloseNoMoreSlots :: int where "CloseNoMoreSlots = 4000 + 2"
definition CloseWrongProto :: int where "CloseWrongProto = 4000 + 3"
definition ClosePeerHungUp :: int where "ClosePeerHungUp = 4000 + 4"
definition CloseBadKey :: int where "CloseBadKey = 4000 + 5"

text \<open>\<^verbatim>\<open>websocket.StatusNormalClosure\<close> of the websocket library.\<close>

definition StatusNormalClosure :: int where "StatusNormalClosure = 1000"

text \<open>\<^verbatim>\<open>const ( sideNone = iota; sideNew; sideJoin )\<close>\<close>

definition sideNone :: int where "sideNone = 0"
definition sideNew :: int where "sideNew = 1"
definition sideJoin :: int where "sideJoin = 2"

text \<open>
  \<^verbatim>\<open>websocket.CloseStatus(err)\<close>: the code of a close error, and \<open>-1\<close> for nil
  and for every other error.
\<close>

fun CloseStatus :: "error option \<Rightarrow> int" where
  "CloseStatus (Some (CloseError code reason)) = code"
| "CloseStatus _ = - 1"

section \<open>Library models\<close>

subsection \<open>encoding/base64, URLEncoding\<close>

text \<open>
  \<^verbatim>\<open>base64.URLEncoding\<close> is RFC 4648's URL-safe alphabet with \<^verbatim>\<open>=\<close> padding.
  Its decoder skips carriage returns and line feeds, wants whole four-character
  quanta and accepts padding in the last quantum only. The library is not part of the
  repository: this is its documented behaviour. The offset a
  \<^verbatim>\<open>CorruptInputError\<close> carries is left out.
\<close>

definition encodeURL :: string where
  "encodeURL = ''ABCDEFGHIJKLMNOPQRSTUVWXYZabcdefghijklmnopqrstuvwxyz0123456789-_''"

definition padChar :: char where "padChar = CHR ''=''"

fun index_of :: "'a list \<Rightarrow> 'a \<Rightarrow> nat option" where
  "index_of [] y = None"
| "index_of (x # xs) y = (if x = y then Some 0 else map_option Suc (index_of xs y))"

definition b64_value :: "char \<Rightarrow> nat option" where
  "b64_value ch = index_of encodeURL ch"

definition b64_char :: "nat \<Rightarrow> char" where
  "b64_char i = encodeURL ! i"

fun encode_quanta :: "bytes \<Rightarrow> string" where
  "encode_quanta [] = []"
| "encode_quanta [a] =
     (let n = unat a * 16 in [b64_char (n div 64), b64_char (n mod 64), padChar, padChar])"
| "encode_quanta [a, b] =
     (let n = unat a * 1024 + unat b * 4
      in [b64_char (n div 4096), b64_char (n div 64 mod 64), b64_char (n mod 64), padChar])"
| "encode_quanta (a # b # c # rest) =
     (let n = unat a * 65536 + unat b * 256 + unat c
      in [b64_char (n div 262144), b64_char (n div 4096 mod 64),
          b64_char (n div 64 mod 64), b64_char (n mod 64)] @ encode_quanta rest)"

definition base64_EncodeToString :: "bytes \<Rightarrow> string" where
  "base64_EncodeToString src = encode_quanta src"

fun decode_quanta :: "string \<Rightarrow> error + bytes" where
  "decode_quanta [] = Inr []"
| "decode_quanta (a # b # c # d # rest) =
     (case (b64_value a, b64_value b) of
        (Some v0, Some v1) \<Rightarrow>
          if c = padChar \<and> d = padChar \<and> rest = []
          then Inr [of_nat ((v0 * 64 + v1) div 16)]
          else (case b64_value c of
                  None \<Rightarrow> Inl CorruptInputError
                | Some v2 \<Rightarrow>
                    if d = padChar \<and> rest = []
                    then (let n = (v0 * 64 + v1) * 64 + v2
                          in Inr [of_nat (n div 1024), of_nat (n div 4)])
                    else (case b64_value d of
                            None \<Rightarrow> Inl CorruptInputError
                          | Some v3 \<Rightarrow>
                              (let n = ((v0 * 64 + v1) * 64 + v2) * 64 + v3
                               in case decode_quanta rest of
                                    Inl e \<Rightarrow> Inl e
                                  | Inr bs \<Rightarrow>
                                      Inr (of_nat (n div 65536) # of_nat (n div 256)
                                           # of_nat n # bs))))
      | _ \<Rightarrow> Inl CorruptInputError)"
| "decode_quanta _ = Inl CorruptInputError"

definition base64_DecodeString :: "string \<Rightarrow> error + bytes" where
  "base64_DecodeString s =
     decode_quanta (filter (\<lambda>ch. ch \<noteq> CHR 0x0D \<and> ch \<noteq> CHR 0x0A) s)"

subsection \<open>io.ReadFull\<close>

text \<open>
  \<^verbatim>\<open>io.ReadFull(r, buf)\<close> with the reader given as the bytes it will still
  deliver: the error, the bytes read into the buffer, and the rest of the reader.
\<close>

definition io_ReadFull :: "bytes \<Rightarrow> nat \<Rightarrow> error option \<times> bytes \<times> bytes" where
  "io_ReadFull src n =
     (if n \<le> length src then (None, take n src, drop n src)
      else if src = [] then (Some EOF, [], [])
      else (Some ErrUnexpectedEOF, src, []))"

subsection \<open>The websocket\<close>

text \<open>
  A connection of \<^verbatim>\<open>nhooyr.io/websocket\<close>, seen from this peer: \<open>ws_in\<close> is what
  its reads will return, in order (a frame of the counterpart, or the error that ends
  the connection, a close frame among them); \<open>ws_out\<close> is what this peer has done
  on it. A read on a connection on which nothing more arrives blocks: the code reads
  with \<^verbatim>\<open>context.TODO()\<close>, which has no deadline. An error closes the
  connection, as the library documents.
\<close>

datatype ws_event = Frame string | Failure error

datatype ws_action = Sent string | Closed int string

record websocket =
  ws_in :: "ws_event list"
  ws_out :: "ws_action list"
  ws_closed :: bool

definition ws_Read :: "websocket \<Rightarrow> string outcome \<times> websocket" where
  "ws_Read w =
     (if ws_closed w then (Err ErrClosed, w)
      else case ws_in w of
             [] \<Rightarrow> (Blocked, w)
           | Frame buf # rest \<Rightarrow> (Ok buf, w\<lparr>ws_in := rest\<rparr>)
           | Failure e # rest \<Rightarrow> (Err e, w\<lparr>ws_in := rest, ws_closed := True\<rparr>))"

definition ws_Write :: "websocket \<Rightarrow> string \<Rightarrow> unit outcome \<times> websocket" where
  "ws_Write w msg =
     (if ws_closed w then (Err ErrClosed, w)
      else (Ok (), w\<lparr>ws_out := ws_out w @ [Sent msg]\<rparr>))"

definition ws_Close :: "websocket \<Rightarrow> int \<Rightarrow> string \<Rightarrow> unit outcome \<times> websocket" where
  "ws_Close w code reason =
     (if ws_closed w then (Err ErrClosed, w)
      else (Ok (), w\<lparr>ws_out := ws_out w @ [Closed code reason], ws_closed := True\<rparr>))"

subsection \<open>WebRTC values\<close>

record session_description =
  sd_type :: string
  sd_sdp :: string

record ice_candidate_init =
  ci_candidate :: string
  ci_sdpMid :: "string option"
  ci_sdpMLineIndex :: "nat option"
  ci_usernameFragment :: string

text \<open>The values the code hands to \<^verbatim>\<open>json.Marshal\<close> as \<^verbatim>\<open>interface{}\<close>.\<close>

datatype jvalue = JDescription session_description | JCandidate ice_candidate_init

text \<open>\<^verbatim>\<open>webrtc.ICECandidateInit{}\<close>, the zero value: the empty-candidate sentinel.\<close>

definition ICECandidateInit_zero :: ice_candidate_init where
  "ICECandidateInit_zero =
     \<lparr>ci_candidate = [], ci_sdpMid = None, ci_sdpMLineIndex = None, ci_usernameFragment = []\<rparr>"

text \<open>
  A local candidate, by its SDP attribute value. \<^verbatim>\<open>ICECandidate.ToJSON\<close> of the
  WebRTC library prefixes it with \<^verbatim>\<open>candidate:\<close>.
\<close>

type_synonym ice_candidate = string

definition ToJSON :: "ice_candidate \<Rightarrow> ice_candidate_init" where
  "ToJSON cand =
     \<lparr>ci_candidate = ''candidate:'' @ cand, ci_sdpMid = None, ci_sdpMLineIndex = Some 0,
      ci_usernameFragment = []\<rparr>"

record peer_connection =
  on_ice_candidate :: bool
  ice_events :: "ice_candidate option list list"
  local_description :: "session_description option"
  remote_description :: "session_description option"
  remote_candidates :: "ice_candidate_init list"

text \<open>The fields of \<^verbatim>\<open>url.URL\<close> the code touches; \<open>u_Host\<close> stands for the rest.\<close>

record url =
  u_Scheme :: string
  u_Host :: string
  u_Path :: string
  u_Fragment :: string

record ice_server =
  is_URLs :: "string list"
  is_Username :: string
  is_Credential :: string

subsection \<open>The libraries taken as parameters\<close>

text \<open>
  NaCl secretbox, HKDF, CPace, \<^verbatim>\<open>encoding/json\<close> and the operations of the peer
  connection are libraries outside the repository. The model takes them as the fields
  of one record and every theorem holds for all of them.
\<close>

record lib =
  secretbox_Seal :: "bytes \<Rightarrow> bytes \<Rightarrow> bytes \<Rightarrow> bytes"
  secretbox_Open :: "bytes \<Rightarrow> bytes \<Rightarrow> bytes \<Rightarrow> bytes option"
  hkdf_New_sha256 :: "bytes \<Rightarrow> bytes \<Rightarrow> bytes \<Rightarrow> bytes"
  cpace_Start :: "string \<Rightarrow> string \<times> string \<times> bytes \<Rightarrow> error + (bytes \<times> bytes)"
  cpace_Exchange :: "string \<Rightarrow> string \<times> string \<times> bytes \<Rightarrow> bytes \<Rightarrow> error + (bytes \<times> bytes)"
  cpace_Finish :: "bytes \<Rightarrow> bytes \<Rightarrow> error + bytes"
  json_Marshal :: "jvalue \<Rightarrow> error + bytes"
  json_Unmarshal_description :: "bytes \<Rightarrow> error + session_description"
  json_Unmarshal_candidate :: "bytes \<Rightarrow> error + ice_candidate_init"
  pc_CreateOffer :: "peer_connection \<Rightarrow> error + session_description"
  pc_CreateAnswer :: "peer_connection \<Rightarrow> error + session_description"
  pc_SetLocalDescription :: "peer_connection \<Rightarrow> session_description \<Rightarrow> error option"
  pc_SetRemoteDescription :: "peer_connection \<Rightarrow> session_description \<Rightarrow> error option"
  pc_AddICECandidate :: "peer_connection \<Rightarrow> ice_candidate_init \<Rightarrow> error option"
  pc_CreateDataChannel :: "peer_connection \<Rightarrow> error option"
  NewPeerConnection :: "ice_server list \<Rightarrow> error + peer_connection"
  json_Unmarshal_init :: "string \<Rightarrow> error + (string \<times> ice_server list)"
  url_Parse :: "string \<Rightarrow> error + url"
  url_String :: "url \<Rightarrow> string"
  websocket_Dial :: "string \<Rightarrow> string list \<Rightarrow> error + websocket"
  crand_Reader :: bytes

section \<open>The Go client\<close>

subsection \<open>Sealed frames\<close>

definition slice_bounds :: string where
  "slice_bounds = ''runtime error: slice bounds out of range''"

text \<open>
  \<^verbatim>\<open>readEncJSON(ws, key, v)\<close>. The target \<^verbatim>\<open>v\<close> decides what
  \<^verbatim>\<open>json.Unmarshal\<close> builds, so the model takes the decoder of the target's type.
  \<^verbatim>\<open>encrypted[:24]\<close> and \<^verbatim>\<open>encrypted[24:]\<close> are slice expressions with no
  length check before them: on a buffer of fewer than 24 bytes one of the two panics
  (the first when the capacity is below 24, the second otherwise).
\<close>

definition readEncJSON ::
  "lib \<Rightarrow> (bytes \<Rightarrow> error + 'a) \<Rightarrow> websocket \<Rightarrow> bytes \<Rightarrow> 'a outcome \<times> websocket" where
  "readEncJSON L unmarshal w k =
     andThen (ws_Read w) (\<lambda>buf w.
       case base64_DecodeString buf of
         Inl e \<Rightarrow> (Err e, w)
       | Inr encrypted \<Rightarrow>
           if length encrypted < 24 then (Panic slice_bounds, w)
           else (let nonce = take 24 encrypted
                 in case secretbox_Open L (drop 24 encrypted) nonce k of
                      None \<Rightarrow> (Err ErrBadKey, w)
                    | Some jsonmsg \<Rightarrow>
                        (case unmarshal jsonmsg of
                           Inl e \<Rightarrow> (Err e, w)
                         | Inr v \<Rightarrow> (Ok v, w))))"

text \<open>
  \<^verbatim>\<open>writeEncJSON(ws, key, v)\<close>, with \<^verbatim>\<open>crypto/rand.Reader\<close> as the bytes it
  will deliver: \<^verbatim>\<open>secretbox.Seal(nonce[:], jsonmsg, &nonce, key)\<close> appends the box
  to the nonce.
\<close>

definition writeEncJSON ::
  "lib \<Rightarrow> websocket \<Rightarrow> bytes \<Rightarrow> jvalue \<Rightarrow> bytes \<Rightarrow> unit outcome \<times> websocket \<times> bytes" where
  "writeEncJSON L w k v rnd =
     (case json_Marshal L v of
        Inl e \<Rightarrow> (Err e, w, rnd)
      | Inr jsonmsg \<Rightarrow>
          (case io_ReadFull rnd 24 of
             (Some e, nonce, rnd') \<Rightarrow> (Err e, w, rnd')
           | (None, nonce, rnd') \<Rightarrow>
               (case ws_Write w (base64_EncodeToString (nonce @ secretbox_Seal L jsonmsg nonce k)) of
                  (r, w') \<Rightarrow> (r, w', rnd'))))"

definition readBase64 :: "websocket \<Rightarrow> bytes outcome \<times> websocket" where
  "readBase64 w =
     andThen (ws_Read w) (\<lambda>buf w.
       case base64_DecodeString buf of
         Inl e \<Rightarrow> (Err e, w)
       | Inr p \<Rightarrow> (Ok p, w))"

definition writeBase64 :: "websocket \<Rightarrow> bytes \<Rightarrow> unit outcome \<times> websocket" where
  "writeBase64 w p = ws_Write w (base64_EncodeToString p)"

subsection \<open>The Wormhole\<close>

text \<open>
  Ghost observations, in the order they happen: the HKDF derivation of the key has
  completed, \<^verbatim>\<open>writeEncJSON\<close> was called with a value (and whether its frame went
  out), \<^verbatim>\<open>readEncJSON\<close> was called. They record calls and steer nothing.
\<close>

datatype event = KeyDerived | SealedWrite jvalue bool | SealedRead

text \<open>
  \<^verbatim>\<open>type Wormhole struct\<close>. A channel of \<^verbatim>\<open>struct{}\<close> that is only ever
  closed is the flag "closed". \<open>spawned\<close> says that a goroutine running
  \<^verbatim>\<open>handleRemoteCandidates\<close> has been started and has not returned; \<open>crand\<close> is
  what \<^verbatim>\<open>crypto/rand.Reader\<close> will deliver; \<open>trace\<close> is the ghost record.
\<close>

record wormhole =
  pc :: "peer_connection option"
  ws :: websocket
  side :: int
  key :: bytes
  Slot :: string
  ICEServers :: "ice_server list"
  localCandidate :: bool
  remoteCandidate :: bool
  spawned :: bool
  crand :: bytes
  trace :: "event list"

definition nil_dereference :: string where
  "nil_dereference = ''runtime error: invalid memory address or nil pointer dereference''"

text \<open>A websocket operation on \<^verbatim>\<open>c.ws\<close>.\<close>

definition on_ws ::
  "(websocket \<Rightarrow> 'a outcome \<times> websocket) \<Rightarrow> wormhole \<Rightarrow> 'a outcome \<times> wormhole" where
  "on_ws f c = (case f (ws c) of (r, w') \<Rightarrow> (r, c\<lparr>ws := w'\<rparr>))"

text \<open>The calls \<^verbatim>\<open>readEncJSON(c.ws, &c.key, &v)\<close> and \<^verbatim>\<open>writeEncJSON(c.ws, &c.key, v)\<close>.\<close>

definition call_readEncJSON ::
  "lib \<Rightarrow> (bytes \<Rightarrow> error + 'a) \<Rightarrow> wormhole \<Rightarrow> 'a outcome \<times> wormhole" where
  "call_readEncJSON L unmarshal c =
     (case readEncJSON L unmarshal (ws c) (key c) of
        (r, w') \<Rightarrow> (r, c\<lparr>ws := w', trace := trace c @ [SealedRead]\<rparr>))"

definition call_writeEncJSON :: "lib \<Rightarrow> jvalue \<Rightarrow> wormhole \<Rightarrow> unit outcome \<times> wormhole" where
  "call_writeEncJSON L v c =
     (case writeEncJSON L (ws c) (key c) v (crand c) of
        (r, w', rnd') \<Rightarrow>
          (r, c\<lparr>ws := w', crand := rnd', trace := trace c @ [SealedWrite v (r = Ok ())]\<rparr>))"

text \<open>
  \<^verbatim>\<open>handleLocalCandidates(candidate)\<close>; \<open>None\<close> is the nil candidate. Logging
  is left out (\<^verbatim>\<open>Verbose\<close> is false by default).
\<close>

definition handleLocalCandidates :: "lib \<Rightarrow> ice_candidate option \<Rightarrow> wormhole \<Rightarrow> wormhole" where
  "handleLocalCandidates L candidate c =
     (case candidate of
        None \<Rightarrow>
          if localCandidate c then c
          else (case call_writeEncJSON L (JCandidate ICECandidateInit_zero) c of
                  (r, c') \<Rightarrow> c'\<lparr>localCandidate := True\<rparr>)
      | Some cand \<Rightarrow> snd (call_writeEncJSON L (JCandidate (ToJSON cand)) c))"

text \<open>
  The peer connection calls the handler registered with \<^verbatim>\<open>OnICECandidate\<close>, if
  there is one, for every candidate event. \<open>ice_events\<close> holds the events the
  gatherer will raise, in batches: \<open>callbacks\<close> stands between two statements of the
  code and lets the next batch happen there.
\<close>

definition fire :: "lib \<Rightarrow> ice_candidate option \<Rightarrow> wormhole \<Rightarrow> wormhole" where
  "fire L candidate c =
     (case pc c of
        None \<Rightarrow> c
      | Some p \<Rightarrow> if on_ice_candidate p then handleLocalCandidates L candidate c else c)"

definition callbacks :: "lib \<Rightarrow> wormhole \<Rightarrow> wormhole" where
  "callbacks L c =
     (case pc c of
        None \<Rightarrow> c
      | Some p \<Rightarrow>
          (case ice_events p of
             [] \<Rightarrow> c
           | batch # rest \<Rightarrow> fold (fire L) batch (c\<lparr>pc := Some (p\<lparr>ice_events := rest\<rparr>)\<rparr>)))"

definition callbacks_all :: "lib \<Rightarrow> wormhole \<Rightarrow> wormhole" where
  "callbacks_all L c =
     (case pc c of
        None \<Rightarrow> c
      | Some p \<Rightarrow> fold (fire L) (concat (ice_events p)) (c\<lparr>pc := Some (p\<lparr>ice_events := []\<rparr>)\<rparr>))"

text \<open>The operations of \<^verbatim>\<open>c.pc\<close>; a nil \<^verbatim>\<open>c.pc\<close> panics.\<close>

definition OnICECandidate :: "wormhole \<Rightarrow> unit outcome \<times> wormhole" where
  "OnICECandidate c =
     (case pc c of
        None \<Rightarrow> (Panic nil_dereference, c)
      | Some p \<Rightarrow> (Ok (), c\<lparr>pc := Some (p\<lparr>on_ice_candidate := True\<rparr>)\<rparr>))"

definition CreateOffer :: "lib \<Rightarrow> wormhole \<Rightarrow> session_description outcome \<times> wormhole" where
  "CreateOffer L c =
     (case pc c of
        None \<Rightarrow> (Panic nil_dereference, c)
      | Some p \<Rightarrow> (case pc_CreateOffer L p of Inl e \<Rightarrow> (Err e, c) | Inr offer \<Rightarrow> (Ok offer, c)))"

definition CreateAnswer :: "lib \<Rightarrow> wormhole \<Rightarrow> session_description outcome \<times> wormhole" where
  "CreateAnswer L c =
     (case pc c of
        None \<Rightarrow> (Panic nil_dereference, c)
      | Some p \<Rightarrow> (case pc_CreateAnswer L p of Inl e \<Rightarrow> (Err e, c) | Inr answer \<Rightarrow> (Ok answer, c)))"

definition SetLocalDescription ::
  "lib \<Rightarrow> session_description \<Rightarrow> wormhole \<Rightarrow> unit outcome \<times> wormhole" where
  "SetLocalDescription L sd c =
     (case pc c of
        None \<Rightarrow> (Panic nil_dereference, c)
      | Some p \<Rightarrow>
          (case pc_SetLocalDescription L p sd of
             Some e \<Rightarrow> (Err e, c)
           | None \<Rightarrow> (Ok (), c\<lparr>pc := Some (p\<lparr>local_description := Some sd\<rparr>)\<rparr>)))"

definition SetRemoteDescription ::
  "lib \<Rightarrow> session_description \<Rightarrow> wormhole \<Rightarrow> unit outcome \<times> wormhole" where
  "SetRemoteDescription L sd c =
     (case pc c of
        None \<Rightarrow> (Panic nil_dereference, c)
      | Some p \<Rightarrow>
          (case pc_SetRemoteDescription L p sd of
             Some e \<Rightarrow> (Err e, c)
           | None \<Rightarrow> (Ok (), c\<lparr>pc := Some (p\<lparr>remote_description := Some sd\<rparr>)\<rparr>)))"

definition AddICECandidate ::
  "lib \<Rightarrow> ice_candidate_init \<Rightarrow> wormhole \<Rightarrow> unit outcome \<times> wormhole" where
  "AddICECandidate L candidate c =
     (case pc c of
        None \<Rightarrow> (Panic nil_dereference, c)
      | Some p \<Rightarrow>
          (case pc_AddICECandidate L p candidate of
             Some e \<Rightarrow> (Err e, c)
           | None \<Rightarrow>
               (Ok (), c\<lparr>pc := Some (p\<lparr>remote_candidates := remote_candidates p @ [candidate]\<rparr>)\<rparr>)))"

subsection \<open>Remote candidates\<close>

lemma ws_in_readEncJSON:
  "readEncJSON L unmarshal w k = (Ok v, w') \<Longrightarrow> length (ws_in w') < length (ws_in w)"
  by (auto simp: readEncJSON_def ws_Read_def Let_def
      split: if_splits list.splits ws_event.splits sum.splits option.splits)

lemma ws_in_writeEncJSON:
  "writeEncJSON L w k v rnd = (r, w', rnd') \<Longrightarrow> ws_in w' = ws_in w"
  by (auto simp: writeEncJSON_def ws_Write_def
      split: sum.splits prod.splits option.splits if_splits)

lemma ws_in_handleLocalCandidates: "ws_in (ws (handleLocalCandidates L cand c)) = ws_in (ws c)"
  by (auto simp: handleLocalCandidates_def call_writeEncJSON_def
      split: option.splits prod.splits dest: ws_in_writeEncJSON)

lemma ws_in_fire: "ws_in (ws (fire L cand c)) = ws_in (ws c)"
  by (simp add: fire_def ws_in_handleLocalCandidates split: option.splits)

lemma ws_in_fold_fire: "ws_in (ws (fold (fire L) cands c)) = ws_in (ws c)"
  by (induction cands arbitrary: c) (simp_all add: ws_in_fire)

lemma ws_in_callbacks: "ws_in (ws (callbacks L c)) = ws_in (ws c)"
  by (simp add: callbacks_def ws_in_fold_fire split: option.splits list.splits)

lemma ws_in_AddICECandidate: "ws_in (ws (snd (AddICECandidate L cand c))) = ws_in (ws c)"
  by (simp add: AddICECandidate_def split: option.splits)

text \<open>
  One pass through the body of the \<^verbatim>\<open>for\<close> loop of
  \<^verbatim>\<open>handleRemoteCandidates\<close>: \<open>Some r\<close> when the pass leaves the loop (every
  error of \<^verbatim>\<open>readEncJSON\<close> and the empty candidate end it by a plain return),
  \<open>None\<close> when the loop goes round again. The error of \<^verbatim>\<open>AddICECandidate\<close>
  is dropped.
\<close>

definition handleRemoteCandidates_body ::
  "lib \<Rightarrow> wormhole \<Rightarrow> unit outcome option \<times> wormhole" where
  "handleRemoteCandidates_body L c =
     (case call_readEncJSON L (json_Unmarshal_candidate L) c of
        (Err e, c1) \<Rightarrow> (Some (Ok ()), c1)
      | (Panic m, c1) \<Rightarrow> (Some (Panic m), c1)
      | (Blocked, c1) \<Rightarrow> (Some Blocked, c1)
      | (Ok candidate, c1) \<Rightarrow>
          if ci_candidate candidate = [] then (Some (Ok ()), c1)
          else (case AddICECandidate L candidate c1 of
                  (Panic m, c2) \<Rightarrow> (Some (Panic m), c2)
                | (r, c2) \<Rightarrow> (None, callbacks L c2)))"

lemma body_decreases:
  assumes "handleRemoteCandidates_body L c = (None, c')"
  shows "length (ws_in (ws c')) < length (ws_in (ws c))"
proof -
  obtain r c1 where r: "call_readEncJSON L (json_Unmarshal_candidate L) c = (r, c1)"
    by (cases "call_readEncJSON L (json_Unmarshal_candidate L) c")
  with assms obtain v where v: "r = Ok v" and ne: "ci_candidate v \<noteq> []"
    by (cases r) (auto simp: handleRemoteCandidates_body_def split: if_splits)
  from r v have "length (ws_in (ws c1)) < length (ws_in (ws c))"
    by (auto simp: call_readEncJSON_def split: prod.splits dest: ws_in_readEncJSON)
  moreover from assms r v ne have "c' = callbacks L (snd (AddICECandidate L v c1))"
    by (auto simp: handleRemoteCandidates_body_def split: prod.splits outcome.splits)
  ultimately show ?thesis
    by (simp add: ws_in_callbacks ws_in_AddICECandidate)
qed

function handleRemoteCandidates_loop :: "lib \<Rightarrow> wormhole \<Rightarrow> unit outcome \<times> wormhole" where
  "handleRemoteCandidates_loop L c =
     (case handleRemoteCandidates_body L c of
        (Some r, c1) \<Rightarrow> (r, c1)
      | (None, c1) \<Rightarrow> handleRemoteCandidates_loop L c1)"
  by pat_completeness auto
termination
  by (relation "measure (\<lambda>(L, c). length (ws_in (ws c)))") (auto intro: body_decreases [OF sym])

declare handleRemoteCandidates_loop.simps [simp del]

text \<open>
  \<^verbatim>\<open>handleRemoteCandidates\<close>: the loop under \<^verbatim>\<open>defer close(c.remoteCandidate)\<close>.
  The deferred close runs on a return and on a panic; closing a closed channel panics.
  A loop that blocks has not returned.
\<close>

definition close_of_closed_channel :: string where
  "close_of_closed_channel = ''close of closed channel''"

definition handleRemoteCandidates :: "lib \<Rightarrow> wormhole \<Rightarrow> unit outcome \<times> wormhole" where
  "handleRemoteCandidates L c =
     (case handleRemoteCandidates_loop L c of
        (Blocked, c1) \<Rightarrow> (Blocked, c1)
      | (r, c1) \<Rightarrow>
          if remoteCandidate c1 then (Panic close_of_closed_channel, c1)
          else (r, c1\<lparr>remoteCandidate := True\<rparr>))"

text \<open>
  A frame on the wire is the empty candidate when \<^verbatim>\<open>readEncJSON\<close>, given that
  frame and the key, returns a candidate whose \<^verbatim>\<open>Candidate\<close> is empty.
\<close>

definition is_sentinel_frame :: "lib \<Rightarrow> bytes \<Rightarrow> ws_action \<Rightarrow> bool" where
  "is_sentinel_frame L k a =
     (case a of
        Sent f \<Rightarrow>
          (case fst (readEncJSON L (json_Unmarshal_candidate L)
                       \<lparr>ws_in = [Frame f], ws_out = [], ws_closed = False\<rparr> k) of
             Ok ci \<Rightarrow> ci_candidate ci = []
           | _ \<Rightarrow> False)
      | Closed code reason \<Rightarrow> False)"

text \<open>
  What the sealed candidate frames need of the libraries: \<^verbatim>\<open>secretbox.Open\<close> opens
  what \<^verbatim>\<open>secretbox.Seal\<close> sealed, and \<^verbatim>\<open>encoding/json\<close> marshals every
  candidate and reads the \<^verbatim>\<open>Candidate\<close> field back.
\<close>

definition lib_round_trip :: "lib \<Rightarrow> bool" where
  "lib_round_trip L =
     ((\<forall>m n k. secretbox_Open L (secretbox_Seal L m n k) n k = Some m) \<and>
      (\<forall>ci. \<exists>m ci'. json_Marshal L (JCandidate ci) = Inr m \<and>
                     json_Unmarshal_candidate L m = Inr ci' \<and>
                     ci_candidate ci' = ci_candidate ci))"

subsection \<open>The two roles\<close>

text \<open>\<^verbatim>\<open>cpace.NewContextInfo("", "", nil)\<close>\<close>

definition cpace_NewContextInfo :: "string \<Rightarrow> string \<Rightarrow> bytes \<Rightarrow> string \<times> string \<times> bytes" where
  "cpace_NewContextInfo ida idb ad = (ida, idb, ad)"

text \<open>
  \<^verbatim>\<open>finishNew(pass)\<close>, statement by statement. \<^verbatim>\<open>go c.handleRemoteCandidates()\<close>
  only starts the goroutine.
\<close>

definition finishNew :: "lib \<Rightarrow> string \<Rightarrow> wormhole \<Rightarrow> unit outcome \<times> wormhole" where
  "finishNew L pass c0 =
     andThen (on_ws readBase64 (callbacks L (c0\<lparr>side := sideNone\<rparr>))) (\<lambda>msgA c.
     case cpace_Exchange L pass (cpace_NewContextInfo [] [] []) msgA of
       Inl e \<Rightarrow> (Err e, c)
     | Inr (msgB, mk) \<Rightarrow>
     (case io_ReadFull (hkdf_New_sha256 L mk [] []) 32 of
        (Some e, got, rest) \<Rightarrow> (Err e, c\<lparr>key := got @ drop (length got) (key c)\<rparr>)
      | (None, got, rest) \<Rightarrow>
     andThen (on_ws (\<lambda>w. writeBase64 w msgB)
                (callbacks L (c\<lparr>key := got, trace := trace c @ [KeyDerived]\<rparr>))) (\<lambda>_ c.
     andThen (OnICECandidate (callbacks L c)) (\<lambda>_ c.
     andThen (CreateOffer L (callbacks L c)) (\<lambda>offer c.
     andThen (call_writeEncJSON L (JDescription offer) (callbacks L c)) (\<lambda>_ c.
     andThen (on_error (call_readEncJSON L (json_Unmarshal_description L) (callbacks L c))
                (\<lambda>e c. if CloseStatus (Some e) = CloseBadKey then (Err ErrBadKey, c)
                        else (Err e, c))) (\<lambda>answer c.
     andThen (SetLocalDescription L offer (callbacks L c)) (\<lambda>_ c.
     andThen (SetRemoteDescription L answer (callbacks L c)) (\<lambda>_ c.
     (Ok (), (callbacks L c)\<lparr>spawned := True\<rparr>))))))))))"

text \<open>\<^verbatim>\<open>finishJoin(pass)\<close>; it never assigns \<^verbatim>\<open>c.side\<close>.\<close>

definition finishJoin :: "lib \<Rightarrow> string \<Rightarrow> wormhole \<Rightarrow> unit outcome \<times> wormhole" where
  "finishJoin L pass c0 =
     (case cpace_Start L pass (cpace_NewContextInfo [] [] []) of
        Inl e \<Rightarrow> (Err e, c0)
      | Inr (msgA, pake) \<Rightarrow>
     andThen (on_ws (\<lambda>w. writeBase64 w msgA) (callbacks L c0)) (\<lambda>_ c.
     andThen (on_ws readBase64 (callbacks L c)) (\<lambda>msgB c.
     case cpace_Finish L pake msgB of
       Inl e \<Rightarrow> (Err e, c)
     | Inr mk \<Rightarrow>
     (case io_ReadFull (hkdf_New_sha256 L mk [] []) 32 of
        (Some e, got, rest) \<Rightarrow> (Err e, c\<lparr>key := got @ drop (length got) (key c)\<rparr>)
      | (None, got, rest) \<Rightarrow>
     andThen (OnICECandidate (callbacks L (c\<lparr>key := got, trace := trace c @ [KeyDerived]\<rparr>))) (\<lambda>_ c.
     andThen (on_error (call_readEncJSON L (json_Unmarshal_description L) (callbacks L c))
                (\<lambda>e c. if e = ErrBadKey
                        then (Err e, snd (on_ws (\<lambda>w. ws_Close w CloseBadKey ''bad key'') c))
                        else (Err e, c))) (\<lambda>offer c.
     andThen (SetRemoteDescription L offer (callbacks L c)) (\<lambda>_ c.
     andThen (CreateAnswer L (callbacks L c)) (\<lambda>answer c.
     andThen (call_writeEncJSON L (JDescription answer) (callbacks L c)) (\<lambda>_ c.
     andThen (SetLocalDescription L answer (callbacks L c)) (\<lambda>_ c.
     (Ok (), (callbacks L c)\<lparr>spawned := True\<rparr>)))))))))))"

subsection \<open>Dial and DialDataChannel\<close>

text \<open>
  While the caller waits in its \<^verbatim>\<open>select\<close>, the goroutine started by the
  handshake reads remote candidates and the gatherer raises local ones. A goroutine
  that blocks in its read stays started.
\<close>

definition background :: "lib \<Rightarrow> wormhole \<Rightarrow> unit outcome \<times> wormhole" where
  "background L c =
     (if spawned c
      then (case handleRemoteCandidates L c of
              (Blocked, c1) \<Rightarrow> (Ok (), callbacks_all L c1)
            | (Panic m, c1) \<Rightarrow> (Panic m, c1\<lparr>spawned := False\<rparr>)
            | (r, c1) \<Rightarrow> (Ok (), callbacks_all L (c1\<lparr>spawned := False\<rparr>)))
      else (Ok (), callbacks_all L c))"

text \<open>
  \<^verbatim>\<open>switch c.side { case sideNew: err = c.finishNew(pass);
  case sideJoin: err = c.finishJoin(pass) }\<close>, as both \<^verbatim>\<open>Dial\<close> and
  \<^verbatim>\<open>DialDataChannel\<close> have it.
\<close>

definition finish :: "lib \<Rightarrow> string \<Rightarrow> wormhole \<Rightarrow> unit outcome \<times> wormhole" where
  "finish L pass c =
     (if side c = sideNew then finishNew L pass c
      else if side c = sideJoin then finishJoin L pass c
      else (Ok (), c))"

text \<open>\<^verbatim>\<open>time.Second\<close>, a \<^verbatim>\<open>time.Duration\<close> in nanoseconds.\<close>

definition Second :: nat where "Second = 1000000000"

definition called_twice :: string where
  "called_twice = ''called dial twice on wormhole''"

text \<open>
  \<^verbatim>\<open>Dial(pass, pc)\<close>, for a \<^verbatim>\<open>pc\<close> that is not nil. \<open>elapsed\<close> is the time, in
  nanoseconds from the start of the \<^verbatim>\<open>select\<close>, that the candidate exchange takes
  to close both channels; the \<^verbatim>\<open>select\<close> takes \<^verbatim>\<open>done\<close> when both channels
  get closed and that happens before \<^verbatim>\<open>time.After(30 * time.Second)\<close> fires.
\<close>

definition Dial ::
  "lib \<Rightarrow> nat \<Rightarrow> string \<Rightarrow> peer_connection \<Rightarrow> wormhole \<Rightarrow> unit outcome \<times> wormhole" where
  "Dial L elapsed pass p c0 =
     (let c = c0\<lparr>pc := Some p\<rparr>
      in if side c = sideNone then (Panic called_twice, c)
         else
           andThen (finish L pass c) (\<lambda>_ c.
           andThen (background L c) (\<lambda>_ c.
             if remoteCandidate c \<and> localCandidate c \<and> elapsed < 30 * Second
             then (Ok (), snd (on_ws (\<lambda>w. ws_Close w StatusNormalClosure ''done'') c))
             else (Err ErrTimedOut,
                   snd (on_ws (\<lambda>w. ws_Close w StatusNormalClosure ''timed out'') c)))))"

datatype data_channel = DataChannel

text \<open>
  \<^verbatim>\<open>DialDataChannel(pass)\<close>. \<open>opened\<close> says when the data channel's
  \<^verbatim>\<open>OnOpen\<close> callback runs, in nanoseconds from the start of the
  \<^verbatim>\<open>select\<close>, and what \<^verbatim>\<open>Detach\<close> returns there; \<open>None\<close> when it never runs.
\<close>

definition DialDataChannel ::
  "lib \<Rightarrow> (nat \<times> error option) option \<Rightarrow> string \<Rightarrow> wormhole \<Rightarrow> data_channel outcome \<times> wormhole" where
  "DialDataChannel L opened pass c =
     (if side c = sideNone then (Panic called_twice, c)
      else case NewPeerConnection L (ICEServers c) of
             Inl e \<Rightarrow> (Err e, c\<lparr>pc := None\<rparr>)
           | Inr p \<Rightarrow>
               (case pc_CreateDataChannel L p of
                  Some e \<Rightarrow> (Err e, c\<lparr>pc := Some p\<rparr>)
                | None \<Rightarrow>
                    andThen (finish L pass (c\<lparr>pc := Some p\<rparr>)) (\<lambda>_ c.
                    andThen (background L c) (\<lambda>_ c.
                      case opened of
                        None \<Rightarrow>
                          (Err ErrTimedOut,
                           snd (on_ws (\<lambda>w. ws_Close w StatusNormalClosure ''timed out'') c))
                      | Some (t, err) \<Rightarrow>
                          if t < 30 * Second
                          then (case err of
                                  Some e \<Rightarrow> (Err e, c)
                                | None \<Rightarrow>
                                    (Ok DataChannel,
                                     snd (on_ws (\<lambda>w. ws_Close w StatusNormalClosure ''done'') c)))
                          else (Err ErrTimedOut,
                                snd (on_ws (\<lambda>w. ws_Close w StatusNormalClosure ''timed out'') c))))))"

subsection \<open>New and Join\<close>

definition Protocol :: string where "Protocol = ''4''"

definition unwrapWebsocketErr :: "error option \<Rightarrow> error option" where
  "unwrapWebsocketErr err =
     (if CloseStatus err = CloseWrongProto then Some ErrBadVersion
      else if CloseStatus err = CloseNoSuchSlot then Some ErrNoSuchSlot
      else if CloseStatus err = CloseSlotTimedOut then Some ErrTimedOut
      else err)"

definition readInitMsg ::
  "lib \<Rightarrow> websocket \<Rightarrow> (string \<times> ice_server list) outcome \<times> websocket" where
  "readInitMsg L w =
     andThen (ws_Read w) (\<lambda>buf w.
       case json_Unmarshal_init L buf of
         Inl e \<Rightarrow> (Err e, w)
       | Inr msg \<Rightarrow> (Ok msg, w))"

text \<open>
  \<^verbatim>\<open>newWormhole(sigserv, slot, side)\<close> returns \<^verbatim>\<open>(w, err)\<close>; the deferred
  function rewrites \<^verbatim>\<open>err\<close> on every return. \<open>newWormhole_body\<close> is the body
  without the deferred function.
\<close>

definition newWormhole_body :: "lib \<Rightarrow> string \<Rightarrow> string \<Rightarrow> int \<Rightarrow> wormhole outcome" where
  "newWormhole_body L sigserv slot sd =
     (case url_Parse L sigserv of
        Inl e \<Rightarrow> Err e
      | Inr u \<Rightarrow>
          (let u1 = u\<lparr>u_Scheme := (if u_Scheme u = ''http'' \<or> u_Scheme u = ''ws''
                                    then ''ws'' else ''wss'')\<rparr>;
               u2 = u1\<lparr>u_Path := u_Path u1 @ slot\<rparr>;
               u3 = u2\<lparr>u_Fragment := []\<rparr>;
               wsaddr = url_String L u3
           in case websocket_Dial L wsaddr [Protocol] of
                Inl e \<Rightarrow> Err e
              | Inr w \<Rightarrow>
                  (case readInitMsg L w of
                     (Ok (assignedSlot, iceServers), w') \<Rightarrow>
                       Ok \<lparr>pc = None, ws = w', side = sd, key = replicate 32 0,
                           Slot = assignedSlot, ICEServers = iceServers,
                           localCandidate = False, remoteCandidate = False,
                           spawned = False, crand = crand_Reader L, trace = []\<rparr>
                   | (Err e, w') \<Rightarrow> Err e
                   | (Panic m, w') \<Rightarrow> Panic m
                   | (Blocked, w') \<Rightarrow> Blocked)))"

definition newWormhole :: "lib \<Rightarrow> string \<Rightarrow> string \<Rightarrow> int \<Rightarrow> wormhole outcome" where
  "newWormhole L sigserv slot sd =
     (case newWormhole_body L sigserv slot sd of
        Err e \<Rightarrow> (case unwrapWebsocketErr (Some e) of Some e' \<Rightarrow> Err e' | None \<Rightarrow> Err e)
      | r \<Rightarrow> r)"

definition New :: "lib \<Rightarrow> string \<Rightarrow> wormhole outcome" where
  "New L sigserv = newWormhole L sigserv [] sideNew"

definition Join :: "lib \<Rightarrow> string \<Rightarrow> string \<Rightarrow> wormhole outcome" where
  "Join L sigserv slot = newWormhole L sigserv slot sideJoin"

subsection \<open>The order of the key and the sealed frames\<close>

text \<open>
  \<open>registered\<close>: \<^verbatim>\<open>c.handleLocalCandidates\<close> is the handler of \<^verbatim>\<open>c.pc\<close>.
  \<open>before_key\<close>: no sealed frame has been written or read, the key has not been
  derived, the handler is not registered and the goroutine is not started.
  \<open>keyed\<close>: the first observation is the derivation of the key and there is no
  other derivation, so that every sealed write and read comes after it.
  \<open>derived\<close>: the first observation is a derivation of the key.
\<close>

definition registered :: "wormhole \<Rightarrow> bool" where
  "registered c = (case pc c of None \<Rightarrow> False | Some p \<Rightarrow> on_ice_candidate p)"

definition before_key :: "wormhole \<Rightarrow> bool" where
  "before_key c = (trace c = [] \<and> \<not> registered c \<and> \<not> spawned c)"

definition keyed :: "wormhole \<Rightarrow> bool" where
  "keyed c = (trace c \<noteq> [] \<and> hd (trace c) = KeyDerived \<and> KeyDerived \<notin> set (tl (trace c)))"

definition derived :: "wormhole \<Rightarrow> bool" where
  "derived c = (trace c \<noteq> [] \<and> hd (trace c) = KeyDerived)"

section \<open>The browser client\<close>

text \<open>
  \<^verbatim>\<open>web/ww.js\<close>. JavaScript values are dynamically typed: \<open>jsval\<close> has the
  shapes the code can see. The functions of the \<^verbatim>\<open>webwormhole\<close> global object
  (\<^verbatim>\<open>start\<close>, \<^verbatim>\<open>exchange\<close>, \<^verbatim>\<open>finish\<close>, \<^verbatim>\<open>seal\<close>, \<^verbatim>\<open>open\<close>,
  \<^verbatim>\<open>fingerprint\<close>, \<^verbatim>\<open>encode\<close>), \<^verbatim>\<open>JSON\<close> and the browser's peer
  connection are parameters: \<open>None\<close> is a call that throws (or a promise that
  rejects).
\<close>

datatype jsval =
    JUndefined
  | JNull
  | JBool bool
  | JNum int
  | JStr string
  | JArr "jsval list"
  | JObj "(string \<times> jsval) list"

fun truthy :: "jsval \<Rightarrow> bool" where
  "truthy JUndefined = False"
| "truthy JNull = False"
| "truthy (JBool b) = b"
| "truthy (JNum n) = (n \<noteq> 0)"
| "truthy (JStr s) = (s \<noteq> [])"
| "truthy (JArr xs) = True"
| "truthy (JObj kvs) = True"

text \<open>
  Reading a property: a \<^verbatim>\<open>TypeError\<close> on \<^verbatim>\<open>undefined\<close> and
  \<^verbatim>\<open>null\<close>, \<^verbatim>\<open>undefined\<close> where the property is missing.
\<close>

fun js_get :: "jsval \<Rightarrow> string \<Rightarrow> jsval option" where
  "js_get JUndefined name = None"
| "js_get JNull name = None"
| "js_get (JObj kvs) name = Some (case map_of kvs name of Some v \<Rightarrow> v | None \<Rightarrow> JUndefined)"
| "js_get v name = Some JUndefined"

text \<open>\<^verbatim>\<open>var WormholeErrorCodes\<close>\<close>

definition closeNoSuchSlot :: int where "closeNoSuchSlot = 4000"
definition closeSlotTimedOut :: int where "closeSlotTimedOut = 4001"
definition closeNoMoreSlots :: int where "closeNoMoreSlots = 4002"
definition closeWrongProto :: int where "closeWrongProto = 4003"
definition closePeerHungUp :: int where "closePeerHungUp = 4004"
definition closeBadKey :: int where "closeBadKey = 4005"
definition closeWebRTCSuccess :: int where "closeWebRTCSuccess = 4006"
definition closeWebRTCSuccessDirect :: int where "closeWebRTCSuccessDirect = 4007"
definition closeWebRTCSuccessRelay :: int where "closeWebRTCSuccessRelay = 4008"
definition closeWebRTCFailed :: int where "closeWebRTCFailed = 4009"

datatype js_state =
    St_a
  | St_b
  | St_wait_for_pake_a
  | St_wait_for_pake_b
  | St_wait_for_pc_initialize
  | St_wait_for_webtc_offer
  | St_wait_for_webtc_answer
  | St_wait_for_candidates
  | St_wait_for_local_offer
  | St_wait_for_local_answer
  | St_error

record js_pc =
  iceConnectionState :: string
  pc_stats :: "(jsval \<times> jsval) list"
  pc_iceServers :: "jsval list"
  pc_localDescription :: "jsval option"
  pc_remoteDescription :: "jsval option"
  pc_candidates :: "jsval list"

record jslib =
  JSON_parse :: "jsval \<Rightarrow> jsval option"
  JSON_stringify :: "jsval \<Rightarrow> jsval"
  parseInt10 :: "jsval \<Rightarrow> int option"
  ww_start :: "jsval \<Rightarrow> jsval"
  ww_exchange :: "jsval \<Rightarrow> jsval \<Rightarrow> jsval \<times> jsval"
  ww_finish :: "jsval \<Rightarrow> jsval"
  ww_seal :: "jsval \<Rightarrow> jsval \<Rightarrow> jsval"
  ww_open :: "jsval \<Rightarrow> jsval \<Rightarrow> jsval"
  ww_fingerprint :: "jsval \<Rightarrow> jsval"
  ww_encode :: "int \<Rightarrow> jsval \<Rightarrow> jsval"
  new_RTCPeerConnection :: "jsval list \<Rightarrow> js_pc option"
  rtc_createOffer :: "js_pc \<Rightarrow> jsval option"
  rtc_createAnswer :: "js_pc \<Rightarrow> jsval option"
  rtc_setRemoteDescription :: "js_pc \<Rightarrow> jsval \<Rightarrow> bool"
  js_template :: "string \<Rightarrow> int \<Rightarrow> string"
  js_ToNumber :: "jsval \<Rightarrow> int option"

datatype js_ws_action = WsSend jsval | WsClose int

text \<open>Ghost observations: a call of \<^verbatim>\<open>seal\<close> or \<^verbatim>\<open>open\<close>, with the key it got.\<close>

datatype js_call = SealCall jsval | OpenCall jsval

text \<open>The functions handed to \<^verbatim>\<open>promise2.then\<close>, by the place that creates them.\<close>

datatype continuation = SendOffer | SendAnswer jsval | AddCandidate jsval

text \<open>
  \<^verbatim>\<open>class Wormhole\<close>. \<open>j_sent\<close> is what was done on \<^verbatim>\<open>this.ws\<close>;
  \<open>j_failed\<close> the reasons given to \<^verbatim>\<open>fail\<close>; \<open>j_promise2\<close> says that
  \<^verbatim>\<open>finish()\<close> has resolved the second promise and \<open>j_pending\<close> holds the
  functions waiting for that; \<open>j_thrown\<close> counts exceptions nothing caught.
\<close>

record js_wormhole =
  j_state :: js_state
  j_key :: jsval
  j_pass :: jsval
  j_slot :: "int option"
  j_pc :: "js_pc option"
  j_sent :: "js_ws_action list"
  j_failed :: "string list"
  j_resolved1 :: bool
  j_resolved3 :: "jsval option"
  j_promise2 :: bool
  j_pending :: "continuation list"
  j_thrown :: nat
  j_calls :: "js_call list"

definition js_fail :: "string \<Rightarrow> js_wormhole \<Rightarrow> js_wormhole" where
  "js_fail reason w = w\<lparr>j_failed := j_failed w @ [reason], j_state := St_error\<rparr>"

definition js_throw :: "js_wormhole \<Rightarrow> js_wormhole" where
  "js_throw w = w\<lparr>j_thrown := Suc (j_thrown w)\<rparr>"

definition ws_send :: "jsval \<Rightarrow> js_wormhole \<Rightarrow> js_wormhole" where
  "ws_send v w = w\<lparr>j_sent := j_sent w @ [WsSend v]\<rparr>"

definition ws_close :: "int \<Rightarrow> js_wormhole \<Rightarrow> js_wormhole" where
  "ws_close code w = w\<lparr>j_sent := j_sent w @ [WsClose code]\<rparr>"

text \<open>\<^verbatim>\<open>this.ws.send(webwormhole.seal(this.key, plaintext))\<close>\<close>

definition send_sealed :: "jslib \<Rightarrow> jsval \<Rightarrow> js_wormhole \<Rightarrow> js_wormhole" where
  "send_sealed J plaintext w =
     ws_send (ww_seal J (j_key w) plaintext) (w\<lparr>j_calls := j_calls w @ [SealCall (j_key w)]\<rparr>)"

text \<open>\<^verbatim>\<open>JSON.parse(webwormhole.open(this.key, m.data))\<close>\<close>

definition parse_opened :: "jslib \<Rightarrow> jsval \<Rightarrow> js_wormhole \<Rightarrow> jsval option \<times> js_wormhole" where
  "parse_opened J data w =
     (JSON_parse J (ww_open J (j_key w) data), w\<lparr>j_calls := j_calls w @ [OpenCall (j_key w)]\<rparr>)"

text \<open>
  The three statements every sealed state runs when \<^verbatim>\<open>!msg\<close>:
  \<^verbatim>\<open>this.fail("bad key"); this.ws.send(webwormhole.seal(this.key, "bye"));
  this.ws.close(WormholeErrorCodes.closeBadKey)\<close>.
\<close>

definition bad_key :: "jslib \<Rightarrow> js_wormhole \<Rightarrow> js_wormhole" where
  "bad_key J w = ws_close closeBadKey (send_sealed J (JStr ''bye'') (js_fail ''bad key'' w))"

text \<open>The bodies of the functions given to \<^verbatim>\<open>promise2.then\<close>, each run in one piece.\<close>

definition run_continuation :: "jslib \<Rightarrow> continuation \<Rightarrow> js_wormhole \<Rightarrow> js_wormhole" where
  "run_continuation J k w =
     (case j_pc w of
        None \<Rightarrow> w
      | Some p \<Rightarrow>
          if \<not> truthy (j_key w) then w
          else (case k of
                  SendOffer \<Rightarrow>
                    (case rtc_createOffer J p of
                       None \<Rightarrow> js_throw w
                     | Some offer \<Rightarrow>
                         (let w1 = send_sealed J (JSON_stringify J offer) w
                          in w1\<lparr>j_state := St_wait_for_webtc_answer,
                                j_pc := Some (p\<lparr>pc_localDescription := Some offer\<rparr>)\<rparr>))
                | SendAnswer msg \<Rightarrow>
                    if \<not> rtc_setRemoteDescription J p msg then js_throw w
                    else (let p1 = p\<lparr>pc_remoteDescription := Some msg\<rparr>
                          in case rtc_createAnswer J p1 of
                               None \<Rightarrow> js_throw (w\<lparr>j_pc := Some p1\<rparr>)
                             | Some answer \<Rightarrow>
                                 (let w1 = send_sealed J (JSON_stringify J answer) w
                                  in w1\<lparr>j_resolved3 := Some (ww_fingerprint J (j_key w1)),
                                        j_pc := Some (p1\<lparr>pc_localDescription := Some answer\<rparr>)\<rparr>))
                | AddCandidate msg \<Rightarrow>
                    w\<lparr>j_pc := Some (p\<lparr>pc_candidates := pc_candidates p @ [msg]\<rparr>)\<rparr>))"

text \<open>
  \<^verbatim>\<open>this.promise2.then(f)\<close>: \<open>f\<close> runs once the promise is resolved. Every
  call is the last statement of its handler, so a resolved promise runs it next.
\<close>

definition then_promise2 :: "jslib \<Rightarrow> continuation \<Rightarrow> js_wormhole \<Rightarrow> js_wormhole" where
  "then_promise2 J k w =
     (if j_promise2 w then run_continuation J k w else w\<lparr>j_pending := j_pending w @ [k]\<rparr>)"

text \<open>\<^verbatim>\<open>finish()\<close> resolves the second promise.\<close>

definition js_finish :: "jslib \<Rightarrow> js_wormhole \<Rightarrow> js_wormhole" where
  "js_finish J w =
     (if j_promise2 w then w
      else fold (run_continuation J) (j_pending w) (w\<lparr>j_promise2 := True, j_pending := []\<rparr>))"

text \<open>
  \<^verbatim>\<open>makePeerConnection(iceServers)\<close>; \<open>None\<close> when it throws. Its loop runs
  \<^verbatim>\<open>i\<close> from 0 while \<^verbatim>\<open>i < iceServers.length\<close> and reads
  \<^verbatim>\<open>iceServers[i]\<close>, for any value: \<open>decimal\<close> is the name of the property
  \<^verbatim>\<open>i\<close>, \<open>to_number\<close> the conversion the comparison applies to the length
  (\<open>None\<close> is \<^verbatim>\<open>NaN\<close>, and nothing is less than it; for a string, an array or
  an object it is the engine's, \<open>js_ToNumber\<close>), \<open>indexed\<close> the values the loop
  reads. A string has its characters, an array its elements, an object the
  properties it happens to have; a boolean or a number has no length.
\<close>

fun decimal :: "nat \<Rightarrow> string" where
  "decimal n =
     (if n < 10 then [char_of (48 + n)] else decimal (n div 10) @ [char_of (48 + n mod 10)])"

declare decimal.simps [simp del]

definition to_number :: "jslib \<Rightarrow> jsval \<Rightarrow> int option" where
  "to_number J v =
     (case v of
        JUndefined \<Rightarrow> None
      | JNull \<Rightarrow> Some 0
      | JBool b \<Rightarrow> Some (if b then 1 else 0)
      | JNum n \<Rightarrow> Some n
      | _ \<Rightarrow> js_ToNumber J v)"

definition indexed :: "jslib \<Rightarrow> jsval \<Rightarrow> jsval list option" where
  "indexed J v =
     (case v of
        JUndefined \<Rightarrow> None
      | JNull \<Rightarrow> None
      | JArr xs \<Rightarrow> Some xs
      | JStr s \<Rightarrow> Some (map (\<lambda>ch. JStr [ch]) s)
      | JObj kvs \<Rightarrow>
          Some (map (\<lambda>i. case map_of kvs (decimal i) of Some x \<Rightarrow> x | None \<Rightarrow> JUndefined)
                  [0..<(case map_of kvs ''length'' of
                          None \<Rightarrow> 0
                        | Some len \<Rightarrow> (case to_number J len of None \<Rightarrow> 0 | Some n \<Rightarrow> nat n))])
      | _ \<Rightarrow> Some [])"

fun normalise_servers :: "jsval list \<Rightarrow> jsval list option" where
  "normalise_servers [] = Some []"
| "normalise_servers (x # xs) =
     (case (js_get x ''URLs'', js_get x ''Username'', js_get x ''Credential'') of
        (Some u, Some n, Some c) \<Rightarrow>
          map_option (\<lambda>rest. JObj [(''urls'', u), (''username'', n), (''credential'', c)] # rest)
            (normalise_servers xs)
      | _ \<Rightarrow> None)"

definition makePeerConnection :: "jslib \<Rightarrow> jsval \<Rightarrow> js_wormhole \<Rightarrow> js_wormhole option" where
  "makePeerConnection J iceServers w =
     (case indexed J iceServers of
        None \<Rightarrow> None
      | Some xs \<Rightarrow>
          (case normalise_servers xs of
             None \<Rightarrow> None
           | Some ys \<Rightarrow> map_option (\<lambda>p. w\<lparr>j_pc := Some p\<rparr>) (new_RTCPeerConnection J ys)))"

text \<open>The \<^verbatim>\<open>onicecandidate\<close> handler that \<^verbatim>\<open>makePeerConnection\<close> installs.\<close>

definition onicecandidate :: "jslib \<Rightarrow> jsval \<Rightarrow> js_wormhole \<Rightarrow> js_wormhole" where
  "onicecandidate J candidate w =
     (if truthy candidate
      then (case js_get candidate ''candidate'' of
              None \<Rightarrow> js_throw w
            | Some cs \<Rightarrow>
                if cs \<noteq> JStr [] then
                  (if truthy (j_key w) then send_sealed J (JSON_stringify J candidate) w else w)
                else w)
      else w)"

text \<open>
  \<^verbatim>\<open>onmessage(m)\<close>, by the state; \<open>data\<close> is \<^verbatim>\<open>m.data\<close>.
  \<open>parseInt10\<close> is \<^verbatim>\<open>parseInt(x, 10)\<close> where the result is a safe integer.
\<close>

definition onmessage :: "jslib \<Rightarrow> jsval \<Rightarrow> js_wormhole \<Rightarrow> js_wormhole" where
  "onmessage J data w =
     (case j_state w of
        St_a \<Rightarrow>
          (case JSON_parse J data of
             None \<Rightarrow> js_throw w
           | Some msg \<Rightarrow>
               (case (js_get msg ''slot'', js_get msg ''iceServers'') of
                  (Some sl, Some servers) \<Rightarrow>
                    (case parseInt10 J sl of
                       None \<Rightarrow> js_fail ''invalid slot'' (w\<lparr>j_slot := None\<rparr>)
                     | Some n \<Rightarrow>
                         (case makePeerConnection J servers (w\<lparr>j_slot := Some n\<rparr>) of
                            None \<Rightarrow> js_throw (w\<lparr>j_slot := Some n\<rparr>)
                          | Some w1 \<Rightarrow>
                              w1\<lparr>j_resolved1 := True, j_state := St_wait_for_pake_a\<rparr>))
                | _ \<Rightarrow> js_throw w))
      | St_b \<Rightarrow>
          (case JSON_parse J data of
             None \<Rightarrow> js_throw w
           | Some msg \<Rightarrow>
               (case js_get msg ''iceServers'' of
                  None \<Rightarrow> js_throw w
                | Some servers \<Rightarrow>
                    (case makePeerConnection J servers w of
                       None \<Rightarrow> js_throw w
                     | Some w1 \<Rightarrow>
                         (let w2 = w1\<lparr>j_resolved1 := True\<rparr>; msgA = ww_start J (j_pass w2)
                          in if msgA = JNull \<or> msgA = JUndefined
                             then js_fail ''couldn't generate A's PAKE message'' w2
                             else (ws_send msgA w2)\<lparr>j_state := St_wait_for_pake_b\<rparr>))))
      | St_wait_for_pake_a \<Rightarrow>
          (case j_pc w of
             None \<Rightarrow> w
           | Some p \<Rightarrow>
               (case ww_exchange J (j_pass w) data of
                  (k, msgB) \<Rightarrow>
                    (let w1 = w\<lparr>j_key := k\<rparr>
                     in if \<not> truthy (j_key w1) then js_fail ''could not generate key'' w1
                        else then_promise2 J SendOffer
                               ((ws_send msgB w1)\<lparr>j_state := St_wait_for_pc_initialize\<rparr>))))
      | St_wait_for_pake_b \<Rightarrow>
          (let w1 = w\<lparr>j_key := ww_finish J data\<rparr>
           in if \<not> truthy (j_key w1) then js_fail ''could not generate key'' w1
              else w1\<lparr>j_state := St_wait_for_webtc_offer\<rparr>)
      | St_wait_for_webtc_offer \<Rightarrow>
          if \<not> truthy (j_key w) \<or> j_pc w = None then w
          else (case parse_opened J data w of
                  (None, w1) \<Rightarrow> js_throw w1
                | (Some msg, w1) \<Rightarrow>
                    if \<not> truthy msg then bad_key J w1
                    else if js_get msg ''type'' \<noteq> Some (JStr ''offer'')
                    then js_fail ''unexpected message'' w1
                    else then_promise2 J (SendAnswer msg) (w1\<lparr>j_state := St_wait_for_candidates\<rparr>))
      | St_wait_for_webtc_answer \<Rightarrow>
          (case j_pc w of
             None \<Rightarrow> w
           | Some p \<Rightarrow>
               if \<not> truthy (j_key w) then w
               else (case parse_opened J data w of
                       (None, w1) \<Rightarrow> js_throw w1
                     | (Some msg, w1) \<Rightarrow>
                         if \<not> truthy msg then bad_key J w1
                         else if js_get msg ''type'' \<noteq> Some (JStr ''answer'')
                         then js_fail ''unexpected message'' w1
                         else w1\<lparr>j_pc := Some (p\<lparr>pc_remoteDescription := Some msg\<rparr>),
                                 j_resolved3 := Some (ww_fingerprint J (j_key w1)),
                                 j_state := St_wait_for_candidates\<rparr>))
      | St_wait_for_candidates \<Rightarrow>
          if \<not> truthy (j_key w) \<or> j_pc w = None then w
          else (case parse_opened J data w of
                  (None, w1) \<Rightarrow> js_throw w1
                | (Some msg, w1) \<Rightarrow>
                    if \<not> truthy msg then bad_key J w1
                    else then_promise2 J (AddCandidate msg) w1)
      | St_wait_for_pc_initialize \<Rightarrow> js_fail ''unexpected message'' w
      | St_wait_for_local_offer \<Rightarrow> js_fail ''unexpected message'' w
      | St_wait_for_local_answer \<Rightarrow> js_fail ''unexpected message'' w
      | St_error \<Rightarrow> w)"

definition onerror :: "js_wormhole \<Rightarrow> js_wormhole" where
  "onerror w = js_fail ''could not connect to signalling server'' w"

text \<open>
  \<^verbatim>\<open>onclose(e)\<close>, with \<^verbatim>\<open>e.code\<close> and \<^verbatim>\<open>e.reason\<close>; \<open>js_template\<close>
  builds the text \<^verbatim>\<open>websocket session closed: ${e.reason} (${e.code})\<close>.
\<close>

definition onclose :: "jslib \<Rightarrow> int \<Rightarrow> string \<Rightarrow> js_wormhole \<Rightarrow> js_wormhole" where
  "onclose J code reason w =
     (if code = 4000 then js_fail ''no such slot'' w
      else if code = 4001 then js_fail ''timed out'' w
      else if code = 4002 then js_fail ''could not get slot'' w
      else if code = 4003 then js_fail ''wrong protocol version, must update'' w
      else if code = 4004 \<or> code = 1001 then w
      else js_fail (js_template J reason code) w)"

text \<open>
  \<^verbatim>\<open>connType()\<close>, called with a peer connection: the candidate type of the
  local candidate of the first succeeded pair; \<open>None\<close> when reading it throws.
\<close>

definition connType :: "js_pc \<Rightarrow> jsval option" where
  "connType p =
     (case find (\<lambda>st. js_get st ''type'' = Some (JStr ''candidate-pair'')
                      \<and> js_get st ''state'' = Some (JStr ''succeeded''))
             (map snd (pc_stats p)) of
        None \<Rightarrow> None
      | Some selected \<Rightarrow>
          (case js_get selected ''localCandidateId'' of
             None \<Rightarrow> None
           | Some lid \<Rightarrow>
               (case map_of (pc_stats p) lid of
                  None \<Rightarrow> None
                | Some st \<Rightarrow> js_get st ''candidateType'')))"

text \<open>\<^verbatim>\<open>close()\<close>\<close>

definition js_close :: "js_wormhole \<Rightarrow> js_wormhole" where
  "js_close w =
     (case j_pc w of
        None \<Rightarrow> w
      | Some p \<Rightarrow>
          if iceConnectionState p = ''connected'' then
            (case connType p of
               None \<Rightarrow> js_throw w
             | Some t \<Rightarrow>
                 if t = JStr ''host'' \<or> t = JStr ''srflx'' \<or> t = JStr ''prflx''
                 then ws_close closeWebRTCSuccessDirect w
                 else if t = JStr ''relay'' then ws_close closeWebRTCSuccessRelay w
                 else ws_close closeWebRTCSuccess w)
          else if iceConnectionState p = ''failed'' then ws_close closeWebRTCFailed w
          else w)"

text \<open>
  A run of the browser client: the events its handlers are called with, in the order
  they happen.
\<close>

datatype js_input =
    Message jsval
  | IceCandidate jsval
  | Finish
  | CloseEvent int string
  | ErrorEvent
  | CallClose

fun js_step :: "jslib \<Rightarrow> js_input \<Rightarrow> js_wormhole \<Rightarrow> js_wormhole" where
  "js_step J (Message data) w = onmessage J data w"
| "js_step J (IceCandidate c) w = (if j_pc w = None then w else onicecandidate J c w)"
| "js_step J Finish w = js_finish J w"
| "js_step J (CloseEvent code reason) w = onclose J code reason w"
| "js_step J ErrorEvent w = onerror w"
| "js_step J CallClose w = js_close w"

text \<open>
  The object the constructor leaves: state \<^verbatim>\<open>"a"\<close> for an empty code and
  \<^verbatim>\<open>"b"\<close> otherwise, no key, no peer connection, nothing sent.
\<close>

definition js_new :: "js_state \<Rightarrow> jsval \<Rightarrow> js_wormhole" where
  "js_new st pass =
     \<lparr>j_state = st, j_key = JUndefined, j_pass = pass, j_slot = None, j_pc = None,
      j_sent = [], j_failed = [], j_resolved1 = False, j_resolved3 = None,
      j_promise2 = False, j_pending = [], j_thrown = 0, j_calls = []\<rparr>"

text \<open>
  The key a recorded call of \<^verbatim>\<open>seal\<close> or \<^verbatim>\<open>open\<close> got; \<open>keyed_calls\<close>:
  every call so far got a key that is truthy, which is how the code asks whether the
  key is there.
\<close>

definition call_key :: "js_call \<Rightarrow> jsval" where
  "call_key k = (case k of SealCall x \<Rightarrow> x | OpenCall x \<Rightarrow> x)"

definition keyed_calls :: "js_wormhole \<Rightarrow> bool" where
  "keyed_calls w = list_all (\<lambda>k. truthy (call_key k)) (j_calls w)"

section \<open>Stand-ins for the libraries\<close>

text \<open>
  Concrete libraries to run the model on: a box that prepends key and nonce and opens
  only under the same key and nonce, a key exchange whose master key is the password,
  a JSON encoding of the two payload types by a tag byte. They stand in for the real
  libraries where a theorem is applied to a concrete run, and are used nowhere else.
\<close>

definition str_bytes :: "string \<Rightarrow> bytes" where
  "str_bytes s = map (\<lambda>ch. of_nat (of_char ch)) s"

definition bytes_str :: "bytes \<Rightarrow> string" where
  "bytes_str bs = map (\<lambda>b. char_of (unat b)) bs"

definition toy_Seal :: "bytes \<Rightarrow> bytes \<Rightarrow> bytes \<Rightarrow> bytes" where
  "toy_Seal m nonce k = k @ nonce @ m"

definition toy_Open :: "bytes \<Rightarrow> bytes \<Rightarrow> bytes \<Rightarrow> bytes option" where
  "toy_Open box nonce k =
     (if take (length k) box = k \<and> take (length nonce) (drop (length k) box) = nonce
      then Some (drop (length k + length nonce) box) else None)"

definition toy_Marshal :: "jvalue \<Rightarrow> error + bytes" where
  "toy_Marshal v =
     (case v of
        JDescription sd \<Rightarrow> Inr (1 # of_nat (length (sd_type sd)) # str_bytes (sd_type sd @ sd_sdp sd))
      | JCandidate ci \<Rightarrow> Inr (2 # str_bytes (ci_candidate ci)))"

definition toy_Unmarshal_description :: "bytes \<Rightarrow> error + session_description" where
  "toy_Unmarshal_description bs =
     (case bs of
        t # n # rest \<Rightarrow>
          if t = 1 then Inr \<lparr>sd_type = bytes_str (take (unat n) rest),
                              sd_sdp = bytes_str (drop (unat n) rest)\<rparr>
          else Inl (OtherError ''json'')
      | _ \<Rightarrow> Inl (OtherError ''json''))"

definition toy_Unmarshal_candidate :: "bytes \<Rightarrow> error + ice_candidate_init" where
  "toy_Unmarshal_candidate bs =
     (case bs of
        t # rest \<Rightarrow>
          if t = 2 then Inr \<lparr>ci_candidate = bytes_str rest, ci_sdpMid = None,
                              ci_sdpMLineIndex = None, ci_usernameFragment = []\<rparr>
          else Inl (OtherError ''json'')
      | _ \<Rightarrow> Inl (OtherError ''json''))"

definition pc0 :: peer_connection where
  "pc0 = \<lparr>on_ice_candidate = False, ice_events = [], local_description = None,
          remote_description = None, remote_candidates = []\<rparr>"

definition ws0 :: websocket where
  "ws0 = \<lparr>ws_in = [], ws_out = [], ws_closed = False\<rparr>"

definition lib0 :: lib where
  "lib0 =
     \<lparr>secretbox_Seal = toy_Seal,
      secretbox_Open = toy_Open,
      hkdf_New_sha256 = (\<lambda>secret salt info. secret @ replicate 32 0),
      cpace_Start = (\<lambda>pass ctx. Inr (str_bytes ''A'', str_bytes pass)),
      cpace_Exchange = (\<lambda>pass ctx msgA. Inr (str_bytes ''B'', str_bytes pass)),
      cpace_Finish = (\<lambda>st msgB. Inr st),
      json_Marshal = toy_Marshal,
      json_Unmarshal_description = toy_Unmarshal_description,
      json_Unmarshal_candidate = toy_Unmarshal_candidate,
      pc_CreateOffer = (\<lambda>p. Inr \<lparr>sd_type = ''offer'', sd_sdp = ''o''\<rparr>),
      pc_CreateAnswer = (\<lambda>p. Inr \<lparr>sd_type = ''answer'', sd_sdp = ''a''\<rparr>),
      pc_SetLocalDescription = (\<lambda>p sd. None),
      pc_SetRemoteDescription = (\<lambda>p sd. None),
      pc_AddICECandidate = (\<lambda>p ci. None),
      pc_CreateDataChannel = (\<lambda>p. None),
      NewPeerConnection = (\<lambda>servers. Inr pc0),
      json_Unmarshal_init = (\<lambda>buf. Inr (''7'', [])),
      url_Parse = (\<lambda>s. Inr \<lparr>u_Scheme = ''https'', u_Host = s, u_Path = ''/'', u_Fragment = []\<rparr>),
      url_String = (\<lambda>u. u_Scheme u @ ''://'' @ u_Host u @ u_Path u),
      websocket_Dial = (\<lambda>addr protocols. Inr (ws0\<lparr>ws_in := [Frame ''{}'']\<rparr>)),
      crand_Reader = replicate 96 7\<rparr>"

text \<open>A wormhole as \<^verbatim>\<open>newWormhole\<close> builds it, on a given socket.\<close>

definition wormhole0 :: "int \<Rightarrow> websocket \<Rightarrow> wormhole" where
  "wormhole0 sd w =
     \<lparr>pc = None, ws = w, side = sd, key = replicate 32 0, Slot = ''7'', ICEServers = [],
      localCandidate = False, remoteCandidate = False, spawned = False,
      crand = replicate 96 7, trace = []\<rparr>"

text \<open>
  The key both stand-in peers derive from the password \<^verbatim>\<open>pw\<close>, the frame the
  counterpart seals under it, and two wormholes whose sockets hold a whole handshake of
  the counterpart: its message of the key exchange, its sealed description and the
  sealed empty candidate. \<open>gatherer0\<close> raises one candidate and then the nil
  candidate, after the handler has been registered.
\<close>

definition key0 :: bytes where "key0 = str_bytes ''pw'' @ replicate 30 0"

definition peer_frame :: "jvalue \<Rightarrow> string" where
  "peer_frame v =
     base64_EncodeToString
       (replicate 24 9 @
        toy_Seal (case toy_Marshal v of Inr m \<Rightarrow> m | Inl e \<Rightarrow> []) (replicate 24 9) key0)"

definition join0 :: wormhole where
  "join0 = wormhole0 sideJoin
     (ws0\<lparr>ws_in := [Frame (base64_EncodeToString (str_bytes ''B'')),
                     Frame (peer_frame (JDescription \<lparr>sd_type = ''offer'', sd_sdp = ''o''\<rparr>)),
                     Frame (peer_frame (JCandidate ICECandidateInit_zero))]\<rparr>)"

definition new0 :: wormhole where
  "new0 = wormhole0 sideNew
     (ws0\<lparr>ws_in := [Frame (base64_EncodeToString (str_bytes ''A'')),
                     Frame (peer_frame (JDescription \<lparr>sd_type = ''answer'', sd_sdp = ''a''\<rparr>)),
                     Frame (peer_frame (JCandidate ICECandidateInit_zero))]\<rparr>)"

definition gatherer0 :: peer_connection where
  "gatherer0 = pc0\<lparr>ice_events := [[], [], [], [], [Some ''x'', None]]\<rparr>"

text \<open>A connected browser peer connection whose succeeded pair is relayed.\<close>

definition relayed_pc :: js_pc where
  "relayed_pc =
     \<lparr>iceConnectionState = ''connected'',
      pc_stats =
        [(JStr ''pair'', JObj [(''type'', JStr ''candidate-pair''), (''state'', JStr ''succeeded''),
                               (''localCandidateId'', JStr ''local'')]),
         (JStr ''local'', JObj [(''candidateType'', JStr ''relay'')])],
      pc_iceServers = [], pc_localDescription = None, pc_remoteDescription = None,
      pc_candidates = []\<rparr>"

text \<open>
  A wormhole that holds the key and whose socket holds the counterpart's sealed empty
  candidate.
\<close>

definition trickle0 :: wormhole where
  "trickle0 = (wormhole0 sideNone
      (ws0\<lparr>ws_in := [Frame (peer_frame (JCandidate ICECandidateInit_zero))]\<rparr>))\<lparr>key := key0\<rparr>"

text \<open>
  Stand-ins for the browser's libraries. A text holding JSON is the value it denotes; a
  box is the pair of the key and the plaintext, and \<^verbatim>\<open>open\<close> gives
  \<^verbatim>\<open>null\<close> for a box sealed under another key; the key both sides derive is the
  password of the side that calls \<^verbatim>\<open>exchange\<close>, and \<^verbatim>\<open>pw\<close> on the other;
  the text of a close leaves the number out.
\<close>

definition jslib0 :: jslib where
  "jslib0 =
     \<lparr>JSON_parse = (\<lambda>v. case v of JNull \<Rightarrow> Some JNull | JObj kvs \<Rightarrow> Some (JObj kvs) | _ \<Rightarrow> None),
      JSON_stringify = (\<lambda>v. v),
      parseInt10 = (\<lambda>v. case v of JNum n \<Rightarrow> Some n | _ \<Rightarrow> None),
      ww_start = (\<lambda>pass. JStr ''A''),
      ww_exchange = (\<lambda>pass msgA. (pass, JStr ''B'')),
      ww_finish = (\<lambda>msgB. JStr ''pw''),
      ww_seal = (\<lambda>k m. JArr [k, m]),
      ww_open = (\<lambda>k box. case box of JArr [k', m] \<Rightarrow> if k' = k then m else JNull | _ \<Rightarrow> JNull),
      ww_fingerprint = (\<lambda>k. k),
      ww_encode = (\<lambda>n pass. pass),
      new_RTCPeerConnection =
        (\<lambda>servers. Some \<lparr>iceConnectionState = ''new'', pc_stats = [], pc_iceServers = servers,
                           pc_localDescription = None, pc_remoteDescription = None,
                           pc_candidates = []\<rparr>),
      rtc_createOffer = (\<lambda>p. Some (JObj [(''type'', JStr ''offer'')])),
      rtc_createAnswer = (\<lambda>p. Some (JObj [(''type'', JStr ''answer'')])),
      rtc_setRemoteDescription = (\<lambda>p d. True),
      js_template = (\<lambda>reason code. ''websocket session closed: '' @ reason),
      js_ToNumber = (\<lambda>v. None)\<rparr>"

text \<open>A joining browser client that has derived its key from the password \<^verbatim>\<open>xx\<close>.\<close>

definition js_join0 :: js_wormhole where
  "js_join0 = (js_new St_wait_for_webtc_offer (JStr ''xx''))
                \<lparr>j_key := JStr ''xx'', j_pc := Some relayed_pc\<rparr>"

text \<open>
  A run of a joining browser client: the first message, a candidate before the key, the
  counterpart's message of the key exchange, the sealed offer, \<^verbatim>\<open>finish()\<close>, and
  a candidate after the key.
\<close>

definition js_inputs0 :: "js_input list" where
  "js_inputs0 =
     [Message (JObj [(''iceServers'', JArr [])]),
      IceCandidate (JObj [(''candidate'', JStr ''c0'')]),
      Message (JStr ''B''),
      Message (JArr [JStr ''pw'', JObj [(''type'', JStr ''offer'')]]),
      Finish,
      IceCandidate (JObj [(''candidate'', JStr ''c1'')])]"

section \<open>Properties\<close>

subsection \<open>Base64 decodes what it encodes\<close>

lemma index_of_nth:
  "distinct xs \<Longrightarrow> i < length xs \<Longrightarrow> index_of xs (xs ! i) = Some i"
proof (induction xs arbitrary: i)
  case Nil
  then show ?case by simp
next
  case (Cons x xs)
  show ?case
  proof (cases i)
    case 0
    then show ?thesis by simp
  next
    case (Suc j)
    with Cons.prems have "xs ! j \<in> set xs" "x \<notin> set xs" by auto
    then have "x \<noteq> xs ! j" by auto
    with Cons Suc show ?thesis by simp
  qed
qed

lemma index_of_None: "y \<notin> set xs \<Longrightarrow> index_of xs y = None"
  by (induction xs) auto

lemma encodeURL_facts:
  "distinct encodeURL" "length encodeURL = 64" "padChar \<notin> set encodeURL"
  "CHR 0x0D \<notin> set encodeURL" "CHR 0x0A \<notin> set encodeURL"
  by (simp_all add: encodeURL_def padChar_def)

lemma b64_value_char: "i < 64 \<Longrightarrow> b64_value (b64_char i) = Some i"
  by (simp add: b64_value_def b64_char_def index_of_nth encodeURL_facts)

lemma b64_char_in: "i < 64 \<Longrightarrow> b64_char i \<in> set encodeURL"
  by (simp add: b64_char_def encodeURL_facts)

lemma b64_char_not: 
  assumes "i < 64"
  shows "b64_char i \<noteq> padChar" "b64_char i \<noteq> CHR 0x0D" "b64_char i \<noteq> CHR 0x0A"
  using b64_char_in [OF assms] encodeURL_facts by auto

lemma b64_value_pad: "b64_value padChar = None"
  by (simp add: b64_value_def index_of_None encodeURL_facts)

lemma unat_byte: "unat (a :: byte) < 256"
  using unsigned_less [of a, where ?'a = nat] by simp

lemma byte_of_nat: "(of_nat (x * 256 + unat (b :: byte)) :: byte) = b"
proof -
  have "take_bit 8 (x * 256 + unat b) = take_bit 8 (unat b)"
    by (simp add: take_bit_eq_mod)
  then have "(of_nat (x * 256 + unat b) :: byte) = of_nat (unat b)"
    by (subst word_of_nat_eq_iff) simp
  then show ?thesis by simp
qed

lemma encode_no_newline:
  "filter (\<lambda>ch. ch \<noteq> CHR 0x0D \<and> ch \<noteq> CHR 0x0A) (encode_quanta bs) = encode_quanta bs"
proof (induction bs rule: encode_quanta.induct)
  case 1
  then show ?case by simp
next
  case (2 a)
  have "unat a * 16 div 64 < 64" "unat a * 16 mod 64 < 64" using unat_byte [of a] by auto
  then show ?case by (simp add: Let_def b64_char_not padChar_def)
next
  case (3 a b)
  have "(unat a * 1024 + unat b * 4) div 4096 < 64" using unat_byte [of a] unat_byte [of b] by auto
  then show ?case by (simp add: Let_def b64_char_not padChar_def)
next
  case (4 a b c rest)
  have "(unat a * 65536 + unat b * 256 + unat c) div 262144 < 64"
    using unat_byte [of a] unat_byte [of b] unat_byte [of c] by auto
  with 4 show ?case by (simp add: Let_def b64_char_not)
qed


lemma regroup4:
  "((n div 262144 * 64 + n div 4096 mod 64) * 64 + n div 64 mod 64) * 64 + n mod 64 = (n::nat)"
proof -
  define q1 q2 q3 where "q1 = n div 64" and "q2 = q1 div 64" and "q3 = q2 div 64"
  have a: "q1 * 64 + n mod 64 = n" unfolding q1_def by simp
  have b: "q2 * 64 + q1 mod 64 = q1" unfolding q2_def by simp
  have c: "q3 * 64 + q2 mod 64 = q2" unfolding q3_def by simp
  have d: "n div 4096 = q2" "n div 262144 = q3"
    unfolding q1_def q2_def q3_def by (simp_all add: div_mult2_eq)
  show ?thesis unfolding d using a b c q1_def by simp
qed

lemma regroup3:
  "(n div 4096 * 64 + n div 64 mod 64) * 64 + n mod 64 = (n::nat)"
proof -
  define q1 q2 where "q1 = n div 64" and "q2 = q1 div 64"
  have a: "q1 * 64 + n mod 64 = n" unfolding q1_def by simp
  have b: "q2 * 64 + q1 mod 64 = q1" unfolding q2_def by simp
  have d: "n div 4096 = q2"
    unfolding q1_def q2_def by (simp_all add: div_mult2_eq)
  show ?thesis unfolding d using a b q1_def by simp
qed

lemma regroup3_normal:
  "4096 * (n div 4096) + n div 64 mod 64 * 64 + n mod 64 = (n::nat)"
  using regroup3 [of n] by (simp add: algebra_simps)

lemma bounds4:
  assumes "x < 256" "y < 256" "z < 256"
  shows "(x * 65536 + y * 256 + z) div 262144 < (64::nat)"
    "(x * 65536 + y * 256 + z) div 65536 = x"
    "(x * 65536 + y * 256 + z) div 256 = x * 256 + y"
  using assms by simp_all

lemma bounds3:
  assumes "x < 256" "y < 256"
  shows "(x * 1024 + y * 4) div 4096 < (64::nat)"
    "(x * 1024 + y * 4) div 1024 = x"
    "(x * 1024 + y * 4) div 4 = x * 256 + y"
  using assms by simp_all


lemma decode_full:
  assumes "v0 < 64" "v1 < 64" "v2 < 64" "v3 < 64"
    and "decode_quanta rest = Inr bs"
    and "m = ((v0 * 64 + v1) * 64 + v2) * 64 + v3"
  shows "decode_quanta (b64_char v0 # b64_char v1 # b64_char v2 # b64_char v3 # rest) =
         Inr (of_nat (m div 65536) # of_nat (m div 256) # of_nat m # bs)"
  using assms by (simp add: b64_value_char b64_char_not Let_def)

lemma decode_two:
  assumes "v0 < 64" "v1 < 64" "v2 < 64" and "m = (v0 * 64 + v1) * 64 + v2"
  shows "decode_quanta [b64_char v0, b64_char v1, b64_char v2, padChar] =
         Inr [of_nat (m div 1024), of_nat (m div 4)]"
  using assms by (simp add: b64_value_char b64_value_pad b64_char_not Let_def)

lemma decode_one:
  assumes "v0 < 64" "v1 < 64" and "m = v0 * 64 + v1"
  shows "decode_quanta [b64_char v0, b64_char v1, padChar, padChar] = Inr [of_nat (m div 16)]"
  using assms by (simp add: b64_value_char b64_value_pad b64_char_not Let_def)

lemma decode_encode_quanta: "decode_quanta (encode_quanta bs) = Inr bs"
proof (induction bs rule: encode_quanta.induct)
  case 1
  then show ?case by simp
next
  case (2 a)
  define n where "n = unat a * 16"
  have x: "unat a < 256" by (rule unat_byte)
  have 1: "n div 64 < 64" "n mod 64 < 64" using x unfolding n_def by auto
  have 2: "n div 16 = unat a" unfolding n_def by simp
  have e: "encode_quanta [a] = [b64_char (n div 64), b64_char (n mod 64), padChar, padChar]"
    by (simp only: encode_quanta.simps Let_def n_def)
  have "n = n div 64 * 64 + n mod 64" by (simp only: div_mult_mod_eq)
  from decode_one [OF 1 this] show ?case
    by (simp only: e 2) simp
next
  case (3 a b)
  define n where "n = unat a * 1024 + unat b * 4"
  have xy: "unat a < 256" "unat b < 256" by (rule unat_byte)+
  have 1: "n div 4096 < 64" "n div 64 mod 64 < 64" "n mod 64 < 64"
    using bounds3(1) [OF xy] unfolding n_def by auto
  have 3: "n div 1024 = unat a" "n div 4 = unat a * 256 + unat b"
    using bounds3(2,3) [OF xy] unfolding n_def by auto
  have e: "encode_quanta [a, b] =
      [b64_char (n div 4096), b64_char (n div 64 mod 64), b64_char (n mod 64), padChar]"
    by (simp only: encode_quanta.simps Let_def n_def)
  from decode_two [OF 1 regroup3 [symmetric]] show ?case
    by (simp only: e 3 byte_of_nat) simp
next
  case (4 a b c rest)
  define n where "n = unat a * 65536 + unat b * 256 + unat c"
  have xy: "unat a < 256" "unat b < 256" "unat c < 256" by (rule unat_byte)+
  have 1: "n div 262144 < 64" "n div 4096 mod 64 < 64" "n div 64 mod 64 < 64" "n mod 64 < 64"
    using bounds4(1) [OF xy] unfolding n_def by auto
  have 3: "n div 65536 = unat a" "n div 256 = unat a * 256 + unat b"
    using bounds4(2,3) [OF xy] unfolding n_def by auto
  have "n = (unat a * 256 + unat b) * 256 + unat c" unfolding n_def by simp
  then have 5: "(of_nat n :: byte) = c" by (simp only: byte_of_nat)
  have e: "encode_quanta (a # b # c # rest) =
      b64_char (n div 262144) # b64_char (n div 4096 mod 64) # b64_char (n div 64 mod 64)
        # b64_char (n mod 64) # encode_quanta rest"
    by (simp only: encode_quanta.simps Let_def n_def append_Cons append_Nil)
  from decode_full [OF 1 "4.IH" regroup4 [symmetric]] show ?case
    by (simp only: e 3 5 byte_of_nat) simp
qed

lemma base64_roundtrip [simp]: "base64_DecodeString (base64_EncodeToString bs) = Inr bs"
  by (simp add: base64_DecodeString_def base64_EncodeToString_def encode_no_newline
      decode_encode_quanta)


subsection \<open>What each operation leaves unchanged\<close>

lemma ws_Write_proj [simp]:
  "ws_in (snd (ws_Write w msg)) = ws_in w"
  "ws_closed (snd (ws_Write w msg)) = ws_closed w"
  "fst (ws_Write w msg) \<noteq> Blocked"
  "fst (ws_Write w msg) \<noteq> Panic m"
  by (simp_all add: ws_Write_def)

lemma writeEncJSON_proj [simp]:
  "ws_in (fst (snd (writeEncJSON L w k v rnd))) = ws_in w"
  "ws_closed (fst (snd (writeEncJSON L w k v rnd))) = ws_closed w"
  "fst (writeEncJSON L w k v rnd) \<noteq> Blocked"
  "fst (writeEncJSON L w k v rnd) \<noteq> Panic m"
  by (simp_all add: writeEncJSON_def split_beta split: sum.splits option.splits)

lemma call_writeEncJSON_proj [simp]:
  "side (snd (call_writeEncJSON L v c)) = side c"
  "key (snd (call_writeEncJSON L v c)) = key c"
  "pc (snd (call_writeEncJSON L v c)) = pc c"
  "localCandidate (snd (call_writeEncJSON L v c)) = localCandidate c"
  "remoteCandidate (snd (call_writeEncJSON L v c)) = remoteCandidate c"
  "spawned (snd (call_writeEncJSON L v c)) = spawned c"
  "ws_in (ws (snd (call_writeEncJSON L v c))) = ws_in (ws c)"
  "ws_closed (ws (snd (call_writeEncJSON L v c))) = ws_closed (ws c)"
  "trace (snd (call_writeEncJSON L v c)) =
     trace c @ [SealedWrite v (fst (call_writeEncJSON L v c) = Ok ())]"
  "fst (call_writeEncJSON L v c) \<noteq> Blocked"
  "fst (call_writeEncJSON L v c) \<noteq> Panic m"
  by (simp_all add: call_writeEncJSON_def split_beta)

lemma handleLocalCandidates_proj [simp]:
  "side (handleLocalCandidates L e c) = side c"
  "key (handleLocalCandidates L e c) = key c"
  "pc (handleLocalCandidates L e c) = pc c"
  "remoteCandidate (handleLocalCandidates L e c) = remoteCandidate c"
  "spawned (handleLocalCandidates L e c) = spawned c"
  "ws_in (ws (handleLocalCandidates L e c)) = ws_in (ws c)"
  "ws_closed (ws (handleLocalCandidates L e c)) = ws_closed (ws c)"
  "localCandidate c \<Longrightarrow> localCandidate (handleLocalCandidates L e c)"
  by (simp_all add: handleLocalCandidates_def split_beta split: option.splits)

lemma fire_proj [simp]:
  "side (fire L e c) = side c"
  "key (fire L e c) = key c"
  "pc (fire L e c) = pc c"
  "remoteCandidate (fire L e c) = remoteCandidate c"
  "spawned (fire L e c) = spawned c"
  "ws_in (ws (fire L e c)) = ws_in (ws c)"
  "ws_closed (ws (fire L e c)) = ws_closed (ws c)"
  "localCandidate c \<Longrightarrow> localCandidate (fire L e c)"
  by (simp_all add: fire_def split: option.splits)

lemma fold_fire_proj [simp]:
  "side (fold (fire L) es c) = side c"
  "key (fold (fire L) es c) = key c"
  "pc (fold (fire L) es c) = pc c"
  "remoteCandidate (fold (fire L) es c) = remoteCandidate c"
  "spawned (fold (fire L) es c) = spawned c"
  "ws_in (ws (fold (fire L) es c)) = ws_in (ws c)"
  "ws_closed (ws (fold (fire L) es c)) = ws_closed (ws c)"
  "localCandidate c \<Longrightarrow> localCandidate (fold (fire L) es c)"
  by (induction es arbitrary: c) simp_all

lemma callbacks_proj [simp]:
  "side (callbacks L c) = side c"
  "key (callbacks L c) = key c"
  "remoteCandidate (callbacks L c) = remoteCandidate c"
  "spawned (callbacks L c) = spawned c"
  "ws_in (ws (callbacks L c)) = ws_in (ws c)"
  "ws_closed (ws (callbacks L c)) = ws_closed (ws c)"
  "localCandidate c \<Longrightarrow> localCandidate (callbacks L c)"
  "(pc (callbacks L c) = None) = (pc c = None)"
  by (simp_all add: callbacks_def split: option.splits list.splits)

lemma callbacks_all_proj [simp]:
  "side (callbacks_all L c) = side c"
  "key (callbacks_all L c) = key c"
  "remoteCandidate (callbacks_all L c) = remoteCandidate c"
  "spawned (callbacks_all L c) = spawned c"
  "ws_in (ws (callbacks_all L c)) = ws_in (ws c)"
  "ws_closed (ws (callbacks_all L c)) = ws_closed (ws c)"
  "localCandidate c \<Longrightarrow> localCandidate (callbacks_all L c)"
  by (simp_all add: callbacks_all_def split: option.splits)


lemma andThen_fst_snd:
  "andThen m f =
     (case fst m of Ok x \<Rightarrow> f x (snd m) | Err e \<Rightarrow> (Err e, snd m)
                  | Panic p \<Rightarrow> (Panic p, snd m) | Blocked \<Rightarrow> (Blocked, snd m))"
  by (cases m; cases "fst m") auto

lemma on_error_fst_snd:
  "on_error m h = (case fst m of Err e \<Rightarrow> h e (snd m) | _ \<Rightarrow> m)"
  by (cases m; cases "fst m") auto

lemma ws_ops_proj [simp]:
  "ws_in (snd (ws_Close w code reason)) = ws_in w"
  "ws_closed (snd (ws_Close w code reason))"
  "ws_closed w \<Longrightarrow> ws_closed (snd (ws_Read w))"
  "ws_closed w \<Longrightarrow> ws_closed (snd (readBase64 w))"
  "ws_closed (snd (writeBase64 w p)) = ws_closed w"
  "ws_in (snd (writeBase64 w p)) = ws_in w"
  by (simp_all add: ws_Close_def ws_Read_def readBase64_def writeBase64_def andThen_fst_snd
      split: list.splits ws_event.splits outcome.splits sum.splits)

lemma readEncJSON_proj [simp]:
  "ws_out (snd (readEncJSON L u w k)) = ws_out w"
  "ws_closed w \<Longrightarrow> ws_closed (snd (readEncJSON L u w k))"
  "ws_closed w \<Longrightarrow> fst (readEncJSON L u w k) = Err ErrClosed"
  by (simp_all add: readEncJSON_def ws_Read_def andThen_fst_snd Let_def
      split: list.splits ws_event.splits outcome.splits sum.splits option.splits)

lemma on_ws_proj [simp]:
  "side (snd (on_ws f c)) = side c"
  "key (snd (on_ws f c)) = key c"
  "pc (snd (on_ws f c)) = pc c"
  "localCandidate (snd (on_ws f c)) = localCandidate c"
  "remoteCandidate (snd (on_ws f c)) = remoteCandidate c"
  "spawned (snd (on_ws f c)) = spawned c"
  "trace (snd (on_ws f c)) = trace c"
  "crand (snd (on_ws f c)) = crand c"
  "ws (snd (on_ws f c)) = snd (f (ws c))"
  "fst (on_ws f c) = fst (f (ws c))"
  by (simp_all add: on_ws_def split_beta)

lemma call_readEncJSON_proj [simp]:
  "side (snd (call_readEncJSON L u c)) = side c"
  "key (snd (call_readEncJSON L u c)) = key c"
  "pc (snd (call_readEncJSON L u c)) = pc c"
  "localCandidate (snd (call_readEncJSON L u c)) = localCandidate c"
  "remoteCandidate (snd (call_readEncJSON L u c)) = remoteCandidate c"
  "spawned (snd (call_readEncJSON L u c)) = spawned c"
  "crand (snd (call_readEncJSON L u c)) = crand c"
  "trace (snd (call_readEncJSON L u c)) = trace c @ [SealedRead]"
  "ws_out (ws (snd (call_readEncJSON L u c))) = ws_out (ws c)"
  "ws_closed (ws c) \<Longrightarrow> ws_closed (ws (snd (call_readEncJSON L u c)))"
  by (simp_all add: call_readEncJSON_def split_beta)

lemma pc_ops_proj [simp]:
  "side (snd (OnICECandidate c)) = side c"
  "key (snd (OnICECandidate c)) = key c"
  "ws (snd (OnICECandidate c)) = ws c"
  "trace (snd (OnICECandidate c)) = trace c"
  "crand (snd (OnICECandidate c)) = crand c"
  "localCandidate (snd (OnICECandidate c)) = localCandidate c"
  "remoteCandidate (snd (OnICECandidate c)) = remoteCandidate c"
  "spawned (snd (OnICECandidate c)) = spawned c"
  "(pc (snd (OnICECandidate c)) = None) = (pc c = None)"
  "side (snd (CreateOffer L c)) = side c"
  "key (snd (CreateOffer L c)) = key c"
  "ws (snd (CreateOffer L c)) = ws c"
  "trace (snd (CreateOffer L c)) = trace c"
  "crand (snd (CreateOffer L c)) = crand c"
  "localCandidate (snd (CreateOffer L c)) = localCandidate c"
  "remoteCandidate (snd (CreateOffer L c)) = remoteCandidate c"
  "spawned (snd (CreateOffer L c)) = spawned c"
  "(pc (snd (CreateOffer L c)) = None) = (pc c = None)"
  "side (snd (CreateAnswer L c)) = side c"
  "key (snd (CreateAnswer L c)) = key c"
  "ws (snd (CreateAnswer L c)) = ws c"
  "trace (snd (CreateAnswer L c)) = trace c"
  "crand (snd (CreateAnswer L c)) = crand c"
  "localCandidate (snd (CreateAnswer L c)) = localCandidate c"
  "remoteCandidate (snd (CreateAnswer L c)) = remoteCandidate c"
  "spawned (snd (CreateAnswer L c)) = spawned c"
  "(pc (snd (CreateAnswer L c)) = None) = (pc c = None)"
  "side (snd (SetLocalDescription L sd c)) = side c"
  "key (snd (SetLocalDescription L sd c)) = key c"
  "ws (snd (SetLocalDescription L sd c)) = ws c"
  "trace (snd (SetLocalDescription L sd c)) = trace c"
  "crand (snd (SetLocalDescription L sd c)) = crand c"
  "localCandidate (snd (SetLocalDescription L sd c)) = localCandidate c"
  "remoteCandidate (snd (SetLocalDescription L sd c)) = remoteCandidate c"
  "spawned (snd (SetLocalDescription L sd c)) = spawned c"
  "(pc (snd (SetLocalDescription L sd c)) = None) = (pc c = None)"
  "side (snd (SetRemoteDescription L sd c)) = side c"
  "key (snd (SetRemoteDescription L sd c)) = key c"
  "ws (snd (SetRemoteDescription L sd c)) = ws c"
  "trace (snd (SetRemoteDescription L sd c)) = trace c"
  "crand (snd (SetRemoteDescription L sd c)) = crand c"
  "localCandidate (snd (SetRemoteDescription L sd c)) = localCandidate c"
  "remoteCandidate (snd (SetRemoteDescription L sd c)) = remoteCandidate c"
  "spawned (snd (SetRemoteDescription L sd c)) = spawned c"
  "(pc (snd (SetRemoteDescription L sd c)) = None) = (pc c = None)"
  "side (snd (AddICECandidate L ci c)) = side c"
  "key (snd (AddICECandidate L ci c)) = key c"
  "ws (snd (AddICECandidate L ci c)) = ws c"
  "trace (snd (AddICECandidate L ci c)) = trace c"
  "crand (snd (AddICECandidate L ci c)) = crand c"
  "localCandidate (snd (AddICECandidate L ci c)) = localCandidate c"
  "remoteCandidate (snd (AddICECandidate L ci c)) = remoteCandidate c"
  "spawned (snd (AddICECandidate L ci c)) = spawned c"
  "(pc (snd (AddICECandidate L ci c)) = None) = (pc c = None)"
  by (simp_all add: OnICECandidate_def CreateOffer_def CreateAnswer_def SetLocalDescription_def
      SetRemoteDescription_def AddICECandidate_def split: option.splits sum.splits)

lemma andThen_Panic:
  "(fst (andThen m f) = Panic x) =
     (fst m = Panic x \<or> (\<exists>a. fst m = Ok a \<and> fst (f a (snd m)) = Panic x))"
  by (cases m; cases "fst m") auto

lemma on_error_Panic:
  "(fst (on_error m h) = Panic x) =
     (fst m = Panic x \<or> (\<exists>e. fst m = Err e \<and> fst (h e (snd m)) = Panic x))"
  by (cases m; cases "fst m") auto

lemma on_error_inv:
  assumes "P (snd m)" and "\<And>e. fst m = Err e \<Longrightarrow> P (snd (h e (snd m)))"
  shows "P (snd (on_error m h))"
  using assms by (cases m; cases "fst m") auto

lemma andThen_inv:
  assumes "P (snd m)" and "\<And>x. fst m = Ok x \<Longrightarrow> P (snd (f x (snd m)))"
  shows "P (snd (andThen m f))"
  using assms by (cases m; cases "fst m") auto


subsection \<open>The loop of handleRemoteCandidates\<close>

lemma loop_rule_aux:
  "(\<forall>c. I c \<longrightarrow>
      (fst (handleRemoteCandidates_body L c) = None \<longrightarrow> I (snd (handleRemoteCandidates_body L c))) \<and>
      (\<forall>r. fst (handleRemoteCandidates_body L c) = Some r \<longrightarrow>
           Q r (snd (handleRemoteCandidates_body L c)))) \<Longrightarrow>
   I c \<Longrightarrow> Q (fst (handleRemoteCandidates_loop L c)) (snd (handleRemoteCandidates_loop L c))"
proof (induction L c rule: handleRemoteCandidates_loop.induct)
  case (1 L c)
  note H = "1.prems"(1)
  obtain r c1 where b: "handleRemoteCandidates_body L c = (r, c1)"
    by (cases "handleRemoteCandidates_body L c")
  show ?case
  proof (cases r)
    case None
    have "I c1" using H "1.prems"(2) b None by fastforce
    have "Q (fst (handleRemoteCandidates_loop L c1)) (snd (handleRemoteCandidates_loop L c1))"
      by (rule "1.IH" [OF b [symmetric] None H \<open>I c1\<close>])
    moreover have "handleRemoteCandidates_loop L c = handleRemoteCandidates_loop L c1"
      by (subst handleRemoteCandidates_loop.simps) (simp add: b None)
    ultimately show ?thesis by simp
  next
    case (Some x)
    have "Q x c1" using H "1.prems"(2) b Some by fastforce
    moreover have "handleRemoteCandidates_loop L c = (x, c1)"
      by (subst handleRemoteCandidates_loop.simps) (simp add: b Some)
    ultimately show ?thesis by simp
  qed
qed

lemma loop_rule:
  assumes "I c"
    and "\<And>c. I c \<Longrightarrow> fst (handleRemoteCandidates_body L c) = None \<Longrightarrow>
           I (snd (handleRemoteCandidates_body L c))"
    and "\<And>c r. I c \<Longrightarrow> fst (handleRemoteCandidates_body L c) = Some r \<Longrightarrow>
           Q r (snd (handleRemoteCandidates_body L c))"
  shows "Q (fst (handleRemoteCandidates_loop L c)) (snd (handleRemoteCandidates_loop L c))"
  by (rule loop_rule_aux [where I = I]) (use assms in blast)+


lemma body_proj [simp]:
  "side (snd (handleRemoteCandidates_body L c)) = side c"
  "key (snd (handleRemoteCandidates_body L c)) = key c"
  "remoteCandidate (snd (handleRemoteCandidates_body L c)) = remoteCandidate c"
  "spawned (snd (handleRemoteCandidates_body L c)) = spawned c"
  "localCandidate c \<Longrightarrow> localCandidate (snd (handleRemoteCandidates_body L c))"
  "ws_closed (ws c) \<Longrightarrow> ws_closed (ws (snd (handleRemoteCandidates_body L c)))"
  by (simp_all add: handleRemoteCandidates_body_def split_beta split: outcome.splits)

lemma loop_proj [simp]:
  "side (snd (handleRemoteCandidates_loop L c)) = side c"
  "key (snd (handleRemoteCandidates_loop L c)) = key c"
  "remoteCandidate (snd (handleRemoteCandidates_loop L c)) = remoteCandidate c"
  "spawned (snd (handleRemoteCandidates_loop L c)) = spawned c"
proof -
  show "side (snd (handleRemoteCandidates_loop L c)) = side c"
    by (rule loop_rule [where I = "\<lambda>x. side x = side c" and Q = "\<lambda>r x. side x = side c"])
       simp_all
  show "key (snd (handleRemoteCandidates_loop L c)) = key c"
    by (rule loop_rule [where I = "\<lambda>x. key x = key c" and Q = "\<lambda>r x. key x = key c"])
       simp_all
  show "remoteCandidate (snd (handleRemoteCandidates_loop L c)) = remoteCandidate c"
    by (rule loop_rule [where I = "\<lambda>x. remoteCandidate x = remoteCandidate c"
          and Q = "\<lambda>r x. remoteCandidate x = remoteCandidate c"])
       simp_all
  show "spawned (snd (handleRemoteCandidates_loop L c)) = spawned c"
    by (rule loop_rule [where I = "\<lambda>x. spawned x = spawned c" and Q = "\<lambda>r x. spawned x = spawned c"])
       simp_all
qed

lemma loop_closed [simp]:
  "ws_closed (ws c) \<Longrightarrow> ws_closed (ws (snd (handleRemoteCandidates_loop L c)))"
  by (rule loop_rule [where I = "\<lambda>x. ws_closed (ws x)" and Q = "\<lambda>r x. ws_closed (ws x)"])
     simp_all

lemma loop_local [simp]:
  "localCandidate c \<Longrightarrow> localCandidate (snd (handleRemoteCandidates_loop L c))"
  by (rule loop_rule [where I = "\<lambda>x. localCandidate x" and Q = "\<lambda>r x. localCandidate x"])
     simp_all

lemma handleRemoteCandidates_proj [simp]:
  "side (snd (handleRemoteCandidates L c)) = side c"
  "key (snd (handleRemoteCandidates L c)) = key c"
  "spawned (snd (handleRemoteCandidates L c)) = spawned c"
  "ws_closed (ws c) \<Longrightarrow> ws_closed (ws (snd (handleRemoteCandidates L c)))"
  "localCandidate c \<Longrightarrow> localCandidate (snd (handleRemoteCandidates L c))"
  by (simp_all add: handleRemoteCandidates_def split_beta split: outcome.splits)

lemma background_proj [simp]:
  "side (snd (background L c)) = side c"
  "key (snd (background L c)) = key c"
  "ws_closed (ws c) \<Longrightarrow> ws_closed (ws (snd (background L c)))"
  by (simp_all add: background_def split_beta split: outcome.splits)

lemma finishNew_side [simp]: "side (snd (finishNew L pass c)) = sideNone"
  unfolding finishNew_def
  by (intro allI impI conjI andThen_inv [where P = "\<lambda>s. side s = sideNone"]
            on_error_inv [where P = "\<lambda>s. side s = sideNone"]
      | simp split: sum.splits option.splits prod.splits)+

lemma finishJoin_side [simp]: "side (snd (finishJoin L pass c)) = side c"
  unfolding finishJoin_def
  by (intro allI impI conjI andThen_inv [where P = "\<lambda>s. side s = side c"]
            on_error_inv [where P = "\<lambda>s. side s = side c"]
      | simp split: sum.splits option.splits prod.splits)+

lemma Dial_side:
  "side (snd (Dial L elapsed pass p c)) = (if side c = sideNew then sideNone else side c)"
  by (simp add: Dial_def finish_def andThen_fst_snd split_beta Let_def sideNew_def sideNone_def
      sideJoin_def split: outcome.splits)


subsection \<open>Sealed frames\<close>

lemma decode_AAAA: "base64_DecodeString ''AAAA'' = Inr [0, 0, 0]"
  by (simp add: base64_DecodeString_def b64_value_def encodeURL_def padChar_def)

text \<open>
  C2. A text frame whose base64url payload is shorter than 24 bytes does not make
  \<^verbatim>\<open>readEncJSON\<close> return \<^verbatim>\<open>ErrBadKey\<close>: on the frame \<^verbatim>\<open>AAAA\<close> (three zero
  bytes) the slice expression panics, under every key and every library.
\<close>

theorem readEncJSON_short_frame_panics:
  "fst (readEncJSON L unmarshal
          \<lparr>ws_in = [Frame ''AAAA''], ws_out = [], ws_closed = False\<rparr> k) = Panic slice_bounds"
  by (simp add: readEncJSON_def ws_Read_def decode_AAAA)

text \<open>
  C3. Seal and open are inverse. For every key and every value that
  \<^verbatim>\<open>json.Marshal\<close> encodes, \<^verbatim>\<open>writeEncJSON\<close> takes the next 24 bytes of
  \<^verbatim>\<open>crypto/rand\<close> as the nonce and writes one text frame, the base64url encoding
  of the nonce followed by the secretbox of the JSON under that nonce and key; and
  \<^verbatim>\<open>readEncJSON\<close> under the same key, on a socket whose next frame is that
  frame, returns the value the JSON decodes to. The hypotheses on the libraries are
  their round trips at this one point: the box opens under the nonce and key that
  sealed it, and the decoder gives back \<open>x\<close> from the encoding of \<open>v\<close>. Base64 is
  the model's own and its round trip is proved above.
\<close>

theorem seal_open_roundtrip:
  assumes "json_Marshal L v = Inr jsonmsg"
    and "24 \<le> length rnd"
    and "\<not> ws_closed w"
    and "secretbox_Open L (secretbox_Seal L jsonmsg (take 24 rnd) k) (take 24 rnd) k = Some jsonmsg"
    and "unmarshal jsonmsg = Inr x"
    and "\<not> ws_closed w'"
  shows "writeEncJSON L w k v rnd =
           (Ok (),
            w\<lparr>ws_out := ws_out w @
               [Sent (base64_EncodeToString
                        (take 24 rnd @ secretbox_Seal L jsonmsg (take 24 rnd) k))]\<rparr>,
            drop 24 rnd) \<and>
         readEncJSON L unmarshal
           (w'\<lparr>ws_in := Frame (base64_EncodeToString
                                  (take 24 rnd @ secretbox_Seal L jsonmsg (take 24 rnd) k)) # rest\<rparr>) k =
           (Ok x, w'\<lparr>ws_in := rest\<rparr>)"
  using assms
  by (simp add: writeEncJSON_def io_ReadFull_def ws_Write_def readEncJSON_def ws_Read_def)

text \<open>The round trip on the stand-in libraries, for the empty candidate.\<close>

theorem seal_open_roundtrip_witness:
  "writeEncJSON lib0 ws0 key0 (JCandidate ICECandidateInit_zero) (replicate 24 7) =
     (Ok (), ws0\<lparr>ws_out := [Sent (base64_EncodeToString
                   (replicate 24 7 @ toy_Seal [2] (replicate 24 7) key0))]\<rparr>, []) \<and>
   readEncJSON lib0 toy_Unmarshal_candidate
     (ws0\<lparr>ws_in := [Frame (base64_EncodeToString
                   (replicate 24 7 @ toy_Seal [2] (replicate 24 7) key0))]\<rparr>) key0 =
     (Ok ICECandidateInit_zero, ws0\<lparr>ws_in := []\<rparr>)"
  using seal_open_roundtrip [of lib0 "JCandidate ICECandidateInit_zero" "[2]" "replicate 24 7"
      ws0 key0 toy_Unmarshal_candidate ICECandidateInit_zero ws0 "[]"]
  by (simp add: lib0_def toy_Marshal_def toy_Open_def toy_Seal_def toy_Unmarshal_candidate_def
      ICECandidateInit_zero_def ws0_def str_bytes_def bytes_str_def key0_def)

subsection \<open>Close codes\<close>

text \<open>
  C6, as the claim states it, fails: \<^verbatim>\<open>Join\<close> on a server that closes with 4004
  (peer hung up) returns the close error itself, and \<^verbatim>\<open>unwrapWebsocketErr\<close>
  leaves a close error with code 4005 (bad key) as it is.
\<close>

theorem Join_passes_peer_hung_up_through:
  "Join (lib0\<lparr>websocket_Dial := \<lambda>addr protocols. Inl (CloseError ClosePeerHungUp ''peer hung up'')\<rparr>)
        ''h'' ''7'' = Err (CloseError ClosePeerHungUp ''peer hung up'') \<and>
   unwrapWebsocketErr (Some (CloseError CloseBadKey ''bad key'')) =
     Some (CloseError CloseBadKey ''bad key'')"
  by (simp add: Join_def newWormhole_def newWormhole_body_def lib0_def unwrapWebsocketErr_def
      ClosePeerHungUp_def CloseBadKey_def CloseWrongProto_def CloseNoSuchSlot_def
      CloseSlotTimedOut_def)

text \<open>
  C6, amended. \<^verbatim>\<open>newWormhole\<close> (that is, \<^verbatim>\<open>New\<close> and \<^verbatim>\<open>Join\<close>) returns
  \<^verbatim>\<open>ErrBadVersion\<close> for an error with close status 4003, \<^verbatim>\<open>ErrNoSuchSlot\<close> for
  4000 and \<^verbatim>\<open>ErrTimedOut\<close> for 4001, and returns every other error unchanged,
  the close codes 4002, 4004 and 4005 among them. The browser client's
  \<^verbatim>\<open>onclose\<close> fails with a message of its own for 4000, 4001, 4002 and 4003,
  does nothing for 4004 and 1001, and fails with the generic text for every other
  code, 4005 among them.
\<close>

theorem close_codes_translated:
  "newWormhole L sigserv slot sd =
     (case newWormhole_body L sigserv slot sd of
        Err e \<Rightarrow>
          Err (if CloseStatus (Some e) = 4003 then ErrBadVersion
               else if CloseStatus (Some e) = 4000 then ErrNoSuchSlot
               else if CloseStatus (Some e) = 4001 then ErrTimedOut
               else e)
      | r \<Rightarrow> r) \<and>
   j_failed (onclose J code reason w) =
     j_failed w @
       (if code = 4000 then [''no such slot'']
        else if code = 4001 then [''timed out'']
        else if code = 4002 then [''could not get slot'']
        else if code = 4003 then [''wrong protocol version, must update'']
        else if code = 4004 \<or> code = 1001 then []
        else [js_template J reason code])"
  by (simp add: newWormhole_def unwrapWebsocketErr_def onclose_def js_fail_def
      CloseWrongProto_def CloseNoSuchSlot_def CloseSlotTimedOut_def split: outcome.splits)


subsection \<open>Calling Dial twice\<close>

text \<open>The definitions a concrete run unfolds.\<close>

lemmas run_defs =
  Dial_def finish_def wormhole0_def ws0_def sideNew_def sideNone_def sideJoin_def finishNew_def
  finishJoin_def on_ws_def readBase64_def ws_Read_def ws_Close_def callbacks_def
  callbacks_all_def fire_def handleLocalCandidates_def pc0_def lib0_def
  cpace_NewContextInfo_def io_ReadFull_def writeBase64_def ws_Write_def OnICECandidate_def
  CreateOffer_def CreateAnswer_def SetLocalDescription_def SetRemoteDescription_def
  AddICECandidate_def call_writeEncJSON_def writeEncJSON_def toy_Marshal_def
  toy_Unmarshal_description_def toy_Unmarshal_candidate_def toy_Seal_def toy_Open_def
  call_readEncJSON_def readEncJSON_def str_bytes_def bytes_str_def
  background_def handleRemoteCandidates_def handleRemoteCandidates_loop.simps
  handleRemoteCandidates_body_def key0_def peer_frame_def join0_def new0_def gatherer0_def
  ICECandidateInit_zero_def ToJSON_def Second_def Let_def


lemma panic_names [simp]:
  "slice_bounds \<noteq> called_twice" "nil_dereference \<noteq> called_twice"
  "close_of_closed_channel \<noteq> called_twice"
  by (simp_all add: slice_bounds_def called_twice_def nil_dereference_def close_of_closed_channel_def)

lemma no_guard_panic [simp]:
  "fst (readBase64 w) \<noteq> Panic m"
  "fst (writeBase64 w p) \<noteq> Panic m"
  "fst (ws_Close w code reason) \<noteq> Panic m"
  "fst (readEncJSON L u w k) \<noteq> Panic called_twice"
  "fst (call_readEncJSON L u c) \<noteq> Panic called_twice"
  "fst (OnICECandidate c) \<noteq> Panic called_twice"
  "fst (CreateOffer L c) \<noteq> Panic called_twice"
  "fst (CreateAnswer L c) \<noteq> Panic called_twice"
  "fst (SetLocalDescription L sd c) \<noteq> Panic called_twice"
  "fst (SetRemoteDescription L sd c) \<noteq> Panic called_twice"
  "fst (AddICECandidate L ci c) \<noteq> Panic called_twice"
  by (simp_all add: readBase64_def writeBase64_def ws_Close_def ws_Read_def ws_Write_def
      readEncJSON_def call_readEncJSON_def andThen_fst_snd split_beta Let_def
      OnICECandidate_def CreateOffer_def CreateAnswer_def SetLocalDescription_def
      SetRemoteDescription_def AddICECandidate_def
      split: list.splits ws_event.splits outcome.splits sum.splits option.splits)

lemma finishNew_no_guard_panic [simp]: "fst (finishNew L pass c) \<noteq> Panic called_twice"
  unfolding finishNew_def
  by (simp add: andThen_Panic on_error_Panic split_beta split: sum.splits option.splits)

lemma finishJoin_no_guard_panic [simp]: "fst (finishJoin L pass c) \<noteq> Panic called_twice"
  unfolding finishJoin_def
  by (simp add: andThen_Panic on_error_Panic split_beta split: sum.splits option.splits)

lemma finish_no_guard_panic [simp]: "fst (finish L pass c) \<noteq> Panic called_twice"
  by (simp add: finish_def)

lemma finish_side [simp]:
  "side (snd (finish L pass c)) = (if side c = sideNew then sideNone else side c)"
  by (simp add: finish_def sideNew_def sideNone_def sideJoin_def)

lemma body_no_guard_panic:
  "fst (handleRemoteCandidates_body L c) \<noteq> Some (Panic called_twice)"
proof -
  have "fst (AddICECandidate L v c') = Panic m \<Longrightarrow> m \<noteq> called_twice" for v c' m
    using no_guard_panic(11) [of L v c'] by auto
  moreover have "fst (call_readEncJSON L u c') = Panic m \<Longrightarrow> m \<noteq> called_twice" for u c' m
    using no_guard_panic(5) [of L u c'] by auto
  ultimately show ?thesis
    by (auto simp: handleRemoteCandidates_body_def split_beta split: outcome.splits if_splits)
qed

lemma loop_no_guard_panic [simp]: "fst (handleRemoteCandidates_loop L c) \<noteq> Panic called_twice"
  by (rule loop_rule [where I = "\<lambda>x. True" and Q = "\<lambda>r x. r \<noteq> Panic called_twice"])
     (use body_no_guard_panic in auto)

lemma handleRemoteCandidates_no_guard_panic [simp]:
  "fst (handleRemoteCandidates L c) \<noteq> Panic called_twice"
  using loop_no_guard_panic [of L c]
  by (auto simp: handleRemoteCandidates_def split_beta split: outcome.splits)

lemma background_no_guard_panic [simp]: "fst (background L c) \<noteq> Panic called_twice"
  using handleRemoteCandidates_no_guard_panic [of L c]
  by (auto simp: background_def split_beta split: outcome.splits)

lemma Dial_guard: "(fst (Dial L elapsed pass p c) = Panic called_twice) = (side c = sideNone)"
  by (simp add: Dial_def andThen_Panic Let_def)

lemma DialDataChannel_guard:
  "(fst (DialDataChannel L opened pass c) = Panic called_twice) = (side c = sideNone)"
  by (simp add: DialDataChannel_def andThen_Panic Let_def split_beta
      split: sum.splits option.splits)


lemma andThen_Ok:
  "(fst (andThen m f) = Ok y) = (\<exists>a. fst m = Ok a \<and> fst (f a (snd m)) = Ok y)"
  by (cases m; cases "fst m") auto

lemma andThen_Ok_snd:
  "fst m = Ok a \<Longrightarrow> andThen m f = f a (snd m)"
  by (cases m) auto

lemma andThen_Err_fst: "fst m = Err e \<Longrightarrow> fst (andThen m f) = Err e"
  by (cases m) auto

lemma closed_write [simp]:
  "ws_closed w \<Longrightarrow> fst (writeBase64 w p) = Err ErrClosed"
  "ws_closed w \<Longrightarrow> fst (ws_Write w msg) = Err ErrClosed"
  by (simp_all add: writeBase64_def ws_Write_def)

lemma DialDataChannel_side:
  "side (snd (DialDataChannel L opened pass c)) =
     (if side c = sideNew \<and>
         (\<exists>q. NewPeerConnection L (ICEServers c) = Inr q \<and> pc_CreateDataChannel L q = None)
      then sideNone else side c)"
  by (simp add: DialDataChannel_def andThen_fst_snd split_beta sideNew_def sideNone_def
      split: outcome.splits sum.splits option.splits)

lemma Dial_Ok_closed:
  "fst (Dial L elapsed pass p c) = Ok () \<Longrightarrow> ws_closed (ws (snd (Dial L elapsed pass p c)))"
  by (auto simp: Dial_def Let_def andThen_Ok andThen_Ok_snd split: if_splits)

lemma DialDataChannel_Ok_closed:
  "fst (DialDataChannel L opened pass c) = Ok d \<Longrightarrow>
     ws_closed (ws (snd (DialDataChannel L opened pass c)))"
  by (auto simp: DialDataChannel_def Let_def andThen_Ok andThen_Ok_snd
      split: if_splits sum.splits option.splits prod.splits)

lemma finishJoin_closed: "ws_closed (ws c) \<Longrightarrow> \<exists>e. fst (finishJoin L pass c) = Err e"
  by (auto simp: finishJoin_def andThen_Err_fst split: sum.splits)

lemma finish_closed_Join:
  "side c = sideJoin \<Longrightarrow> ws_closed (ws c) \<Longrightarrow> \<exists>e. fst (finish L pass c) = Err e"
  using finishJoin_closed [of c L pass] by (simp add: finish_def sideNew_def sideJoin_def)

lemma Dial_closed_Join:
  "side c = sideJoin \<Longrightarrow> ws_closed (ws c) \<Longrightarrow> \<exists>e. fst (Dial L elapsed pass p c) = Err e"
  using finish_closed_Join [of "c\<lparr>pc := Some p\<rparr>" L pass]
  by (auto simp: Dial_def Let_def sideNone_def sideJoin_def andThen_Err_fst)

lemma DialDataChannel_closed_Join:
  "side c = sideJoin \<Longrightarrow> ws_closed (ws c) \<Longrightarrow> \<exists>e. fst (DialDataChannel L opened pass c) = Err e"
proof (cases "NewPeerConnection L (ICEServers c)")
  case (Inl e)
  assume "side c = sideJoin"
  with Inl show ?thesis by (simp add: DialDataChannel_def sideNone_def sideJoin_def)
next
  case (Inr q)
  assume a: "side c = sideJoin" "ws_closed (ws c)"
  show ?thesis
  proof (cases "pc_CreateDataChannel L q")
    case None
    from a finish_closed_Join [of "c\<lparr>pc := Some q\<rparr>" L pass] obtain e
      where "fst (finish L pass (c\<lparr>pc := Some q\<rparr>)) = Err e" by auto
    with a Inr None show ?thesis
      by (simp add: DialDataChannel_def sideNone_def sideJoin_def andThen_Err_fst)
  next
    case (Some e)
    with a Inr show ?thesis by (simp add: DialDataChannel_def sideNone_def sideJoin_def)
  qed
qed


lemma join0_run: "fst (Dial lib0 0 ''pw'' gatherer0 join0) = Ok ()"
  by (simp add: run_defs)

lemma new0_run: "fst (Dial lib0 0 ''pw'' gatherer0 new0) = Ok ()"
  by (simp add: run_defs)

text \<open>
  C10. \<^verbatim>\<open>Dial\<close> and \<^verbatim>\<open>DialDataChannel\<close> raise the panic
  \<^verbatim>\<open>called dial twice on wormhole\<close> exactly when \<^verbatim>\<open>c.side\<close> is
  \<^verbatim>\<open>sideNone\<close> on entry. \<^verbatim>\<open>finishNew\<close> sets the side to \<^verbatim>\<open>sideNone\<close>
  first, so on a wormhole made by \<^verbatim>\<open>New\<close> every call after a call that reached
  the handshake raises it. \<^verbatim>\<open>finishJoin\<close> never assigns the side, so on a
  wormhole made by \<^verbatim>\<open>Join\<close> no later call raises it; and after a first call
  that returned without error the socket is closed, so a second call returns an error
  and does not panic at all.
\<close>

theorem dial_twice:
  "((fst (Dial L elapsed pass p c) = Panic called_twice) = (side c = sideNone)) \<and>
   ((fst (DialDataChannel L opened pass c) = Panic called_twice) = (side c = sideNone)) \<and>
   (side c = sideNew \<longrightarrow>
      fst (Dial L elapsed' pass' p' (snd (Dial L elapsed pass p c))) = Panic called_twice \<and>
      fst (DialDataChannel L opened' pass' (snd (Dial L elapsed pass p c))) = Panic called_twice) \<and>
   (side c = sideNew \<longrightarrow>
    NewPeerConnection L (ICEServers c) = Inr q \<longrightarrow> pc_CreateDataChannel L q = None \<longrightarrow>
      fst (Dial L elapsed' pass' p' (snd (DialDataChannel L opened pass c))) = Panic called_twice \<and>
      fst (DialDataChannel L opened' pass' (snd (DialDataChannel L opened pass c))) =
        Panic called_twice) \<and>
   (side c = sideJoin \<longrightarrow>
      fst (Dial L elapsed' pass' p' (snd (Dial L elapsed pass p c))) \<noteq> Panic called_twice \<and>
      fst (DialDataChannel L opened' pass' (snd (Dial L elapsed pass p c))) \<noteq> Panic called_twice \<and>
      fst (Dial L elapsed' pass' p' (snd (DialDataChannel L opened pass c))) \<noteq> Panic called_twice \<and>
      fst (DialDataChannel L opened' pass' (snd (DialDataChannel L opened pass c))) \<noteq>
        Panic called_twice) \<and>
   (side c = sideJoin \<longrightarrow> fst (Dial L elapsed pass p c) = Ok () \<longrightarrow>
      (\<exists>e. fst (Dial L elapsed' pass' p' (snd (Dial L elapsed pass p c))) = Err e) \<and>
      (\<exists>e. fst (DialDataChannel L opened' pass' (snd (Dial L elapsed pass p c))) = Err e)) \<and>
   (side c = sideJoin \<longrightarrow> fst (DialDataChannel L opened pass c) = Ok d \<longrightarrow>
      (\<exists>e. fst (Dial L elapsed' pass' p' (snd (DialDataChannel L opened pass c))) = Err e) \<and>
      (\<exists>e. fst (DialDataChannel L opened' pass' (snd (DialDataChannel L opened pass c))) = Err e))"
proof -
  have neq: "sideJoin \<noteq> sideNone" "sideJoin \<noteq> sideNew"
    by (simp_all add: sideJoin_def sideNone_def sideNew_def)
  have j1: "side c = sideJoin \<Longrightarrow> fst (Dial L elapsed pass p c) = Ok () \<Longrightarrow>
      (\<exists>e. fst (Dial L elapsed' pass' p' (snd (Dial L elapsed pass p c))) = Err e) \<and>
      (\<exists>e. fst (DialDataChannel L opened' pass' (snd (Dial L elapsed pass p c))) = Err e)"
    using Dial_closed_Join [of "snd (Dial L elapsed pass p c)" L elapsed' pass' p']
      DialDataChannel_closed_Join [of "snd (Dial L elapsed pass p c)" L opened' pass']
      Dial_Ok_closed [of L elapsed pass p c] neq
    by (simp add: Dial_side)
  have j2: "side c = sideJoin \<Longrightarrow> fst (DialDataChannel L opened pass c) = Ok d \<Longrightarrow>
      (\<exists>e. fst (Dial L elapsed' pass' p' (snd (DialDataChannel L opened pass c))) = Err e) \<and>
      (\<exists>e. fst (DialDataChannel L opened' pass' (snd (DialDataChannel L opened pass c))) = Err e)"
    using Dial_closed_Join [of "snd (DialDataChannel L opened pass c)" L elapsed' pass' p']
      DialDataChannel_closed_Join [of "snd (DialDataChannel L opened pass c)" L opened' pass']
      DialDataChannel_Ok_closed [of L opened pass c d] neq
    by (simp add: DialDataChannel_side)
  show ?thesis
    using j1 j2 neq
    by (simp add: Dial_guard DialDataChannel_guard Dial_side DialDataChannel_side)
qed

text \<open>Two completed first calls on the stand-in libraries, one for each side.\<close>

theorem dial_twice_witness:
  "fst (Dial lib0 0 ''pw'' pc0 (snd (Dial lib0 0 ''pw'' gatherer0 new0))) = Panic called_twice \<and>
   (\<exists>e. fst (Dial lib0 0 ''pw'' pc0 (snd (Dial lib0 0 ''pw'' gatherer0 join0))) = Err e)"
  using dial_twice [of lib0 0 "''pw''" gatherer0 new0 None 0 "''pw''" pc0 None pc0 DataChannel]
    dial_twice [of lib0 0 "''pw''" gatherer0 join0 None 0 "''pw''" pc0 None pc0 DataChannel]
    join0_run
  by (simp add: new0_def join0_def wormhole0_def)



subsection \<open>The 30-second deadline\<close>

lemma andThen_Err:
  "(fst (andThen m f) = Err e) =
     (fst m = Err e \<or> (\<exists>a. fst m = Ok a \<and> fst (f a (snd m)) = Err e))"
  by (cases m; cases "fst m") auto

lemma andThen_Blocked:
  "(fst (andThen m f) = Blocked) =
     (fst m = Blocked \<or> (\<exists>a. fst m = Ok a \<and> fst (f a (snd m)) = Blocked))"
  by (cases m; cases "fst m") auto

text \<open>
  C7, as the claim states it, fails in its last part: with no counterpart,
  \<^verbatim>\<open>Dial\<close> on the initiator's side is still inside \<^verbatim>\<open>finishNew\<close>, blocked
  in the read of the first message, and the 30-second timer has not been started. It
  does not return while nothing arrives; when the server closes the slot with 4001 it
  returns the close error itself, not \<^verbatim>\<open>ErrTimedOut\<close>.
\<close>

theorem Dial_without_counterpart:
  "fst (Dial lib0 (31 * Second) ''pw'' pc0 (wormhole0 sideNew ws0)) = Blocked \<and>
   fst (Dial lib0 (31 * Second) ''pw'' pc0
          (wormhole0 sideNew
             (ws0\<lparr>ws_in := [Failure (CloseError CloseSlotTimedOut ''timed out'')]\<rparr>))) =
     Err (CloseError CloseSlotTimedOut ''timed out'')"
  by (simp add: run_defs)

text \<open>
  C7, amended. Once \<^verbatim>\<open>finishNew\<close> or \<^verbatim>\<open>finishJoin\<close> has returned without
  error, \<^verbatim>\<open>Dial\<close> returns \<^verbatim>\<open>ErrTimedOut\<close> after closing the websocket with
  \<^verbatim>\<open>StatusNormalClosure\<close> and reason \<^verbatim>\<open>timed out\<close> whenever the two candidate
  channels are not both closed, or get closed only after more than 30 seconds; and
  \<^verbatim>\<open>DialDataChannel\<close> does the same whenever the data channel does not open
  within 30 seconds. No deadline covers the handshake itself: while it blocks,
  \<^verbatim>\<open>Dial\<close> blocks, and an error it returns is returned unchanged. (Both ready
  at exactly 30 seconds is left open: the \<^verbatim>\<open>select\<close> may take either.)
\<close>

theorem Dial_deadline:
  "(side c \<noteq> sideNone \<longrightarrow>
    finish L pass (c\<lparr>pc := Some p\<rparr>) = (Ok (), c1) \<longrightarrow>
    background L c1 = (Ok (), c2) \<longrightarrow>
    \<not> (remoteCandidate c2 \<and> localCandidate c2) \<or> 30 * Second < elapsed \<longrightarrow>
      Dial L elapsed pass p c =
        (Err ErrTimedOut, c2\<lparr>ws := snd (ws_Close (ws c2) StatusNormalClosure ''timed out'')\<rparr>)) \<and>
   (side c \<noteq> sideNone \<longrightarrow>
    NewPeerConnection L (ICEServers c) = Inr q \<longrightarrow>
    pc_CreateDataChannel L q = None \<longrightarrow>
    finish L pass (c\<lparr>pc := Some q\<rparr>) = (Ok (), c1) \<longrightarrow>
    background L c1 = (Ok (), c2) \<longrightarrow>
    opened = None \<or> (\<exists>t err. opened = Some (t, err) \<and> 30 * Second < t) \<longrightarrow>
      DialDataChannel L opened pass c =
        (Err ErrTimedOut, c2\<lparr>ws := snd (ws_Close (ws c2) StatusNormalClosure ''timed out'')\<rparr>)) \<and>
   (\<not> ws_closed w \<longrightarrow>
      snd (ws_Close w StatusNormalClosure ''timed out'') =
        w\<lparr>ws_out := ws_out w @ [Closed 1000 ''timed out''], ws_closed := True\<rparr>) \<and>
   (side c \<noteq> sideNone \<longrightarrow> fst (finish L pass (c\<lparr>pc := Some p\<rparr>)) = Blocked \<longrightarrow>
      fst (Dial L elapsed pass p c) = Blocked) \<and>
   (side c \<noteq> sideNone \<longrightarrow> fst (finish L pass (c\<lparr>pc := Some p\<rparr>)) = Err e \<longrightarrow>
      fst (Dial L elapsed pass p c) = Err e)"
  by (auto simp: Dial_def DialDataChannel_def Let_def on_ws_def split_beta ws_Close_def
      StatusNormalClosure_def andThen_Blocked andThen_Err)


text \<open>A handshake on the stand-in libraries that completes, but only after 31 seconds.\<close>

lemma new0_finish: "fst (finish lib0 ''pw'' (new0\<lparr>pc := Some gatherer0\<rparr>)) = Ok ()"
  by (simp add: run_defs)

lemma new0_background:
  "fst (background lib0 (snd (finish lib0 ''pw'' (new0\<lparr>pc := Some gatherer0\<rparr>)))) = Ok ()"
  by (simp add: run_defs)

theorem Dial_deadline_witness:
  "30 * Second < 31 * Second \<and>
   fst (Dial lib0 (31 * Second) ''pw'' gatherer0 new0) = Err ErrTimedOut"
  using Dial_deadline [where c = new0 and L = lib0 and pass = "''pw''" and p = gatherer0
      and ?c1.0 = "snd (finish lib0 ''pw'' (new0\<lparr>pc := Some gatherer0\<rparr>))"
      and ?c2.0 = "snd (background lib0 (snd (finish lib0 ''pw'' (new0\<lparr>pc := Some gatherer0\<rparr>))))"
      and elapsed = "31 * Second" and q = pc0 and opened = None and w = ws0
      and e = ErrClosed]
    new0_finish new0_background
  by (simp add: prod_eq_iff new0_def wormhole0_def sideNew_def sideNone_def Second_def)


subsection \<open>The close status on success\<close>

text \<open>
  C8, as the claim states it, fails for the Go client: a completed \<^verbatim>\<open>Dial\<close>
  closes the socket with 1000 and reason \<^verbatim>\<open>done\<close>, whatever the candidate pair.
\<close>

theorem Dial_closes_with_normal_closure:
  "fst (Dial lib0 0 ''pw'' gatherer0 new0) = Ok () \<and>
   last (ws_out (ws (snd (Dial lib0 0 ''pw'' gatherer0 new0)))) = Closed 1000 ''done''"
  by (simp add: run_defs StatusNormalClosure_def)

lemma on_ws_snd: "snd (on_ws f c) = c\<lparr>ws := snd (f (ws c))\<rparr>"
  by (simp add: on_ws_def split_beta)

lemma ws_Close_snd:
  "snd (ws_Close w code reason) =
     (if ws_closed w then w
      else w\<lparr>ws_out := ws_out w @ [Closed code reason], ws_closed := True\<rparr>)"
  by (simp add: ws_Close_def)

lemma Dial_Ok_state:
  assumes "fst (Dial L elapsed pass p c) = Ok ()"
  shows "snd (Dial L elapsed pass p c) =
           (let s = snd (background L (snd (finish L pass (c\<lparr>pc := Some p\<rparr>))))
            in s\<lparr>ws := snd (ws_Close (ws s) StatusNormalClosure ''done'')\<rparr>)"
proof -
  from assms have ns: "side c \<noteq> sideNone" by (auto simp: Dial_def Let_def)
  obtain r1 c1 where f: "finish L pass (c\<lparr>pc := Some p\<rparr>) = (r1, c1)" by fastforce
  obtain r2 c2 where b: "background L c1 = (r2, c2)" by fastforce
  from assms ns f have r1: "r1 = Ok ()" by (cases r1) (auto simp: Dial_def Let_def)
  from assms ns f r1 b have r2: "r2 = Ok ()" by (cases r2) (auto simp: Dial_def Let_def)
  from assms ns f r1 b r2 show ?thesis
    by (auto simp: Dial_def Let_def on_ws_snd split: if_splits)
qed

lemma DialDataChannel_Ok_state:
  assumes "fst (DialDataChannel L opened pass c) = Ok d"
    and q: "NewPeerConnection L (ICEServers c) = Inr q"
  shows "snd (DialDataChannel L opened pass c) =
           (let s = snd (background L (snd (finish L pass (c\<lparr>pc := Some q\<rparr>))))
            in s\<lparr>ws := snd (ws_Close (ws s) StatusNormalClosure ''done'')\<rparr>)"
proof -
  from assms have ns: "side c \<noteq> sideNone" by (auto simp: DialDataChannel_def)
  from assms ns q have dc: "pc_CreateDataChannel L q = None"
    by (cases "pc_CreateDataChannel L q") (auto simp: DialDataChannel_def)
  obtain r1 c1 where f: "finish L pass (c\<lparr>pc := Some q\<rparr>) = (r1, c1)" by fastforce
  obtain r2 c2 where b: "background L c1 = (r2, c2)" by fastforce
  from assms ns q dc f have r1: "r1 = Ok ()" by (cases r1) (auto simp: DialDataChannel_def)
  from assms ns q dc f r1 b have r2: "r2 = Ok ()"
    by (cases r2) (auto simp: DialDataChannel_def)
  from assms ns q dc f r1 b r2 show ?thesis
    by (auto simp: DialDataChannel_def Let_def on_ws_snd split: if_splits option.splits)
qed

lemma js_close_connected:
  assumes "j_pc jw = Some jp" "iceConnectionState jp = ''connected''" "connType jp = Some t"
  shows "js_close jw =
        jw\<lparr>j_sent := j_sent jw @
           [WsClose (if t = JStr ''host'' \<or> t = JStr ''srflx'' \<or> t = JStr ''prflx'' then 4007
                     else if t = JStr ''relay'' then 4008 else 4006)]\<rparr>"
  using assms
  by (simp add: js_close_def ws_close_def closeWebRTCSuccessDirect_def
      closeWebRTCSuccessRelay_def closeWebRTCSuccess_def)

lemma js_close_failed:
  assumes "j_pc jw = Some jp" "iceConnectionState jp = ''failed''"
  shows "js_close jw = jw\<lparr>j_sent := j_sent jw @ [WsClose 4009]\<rparr>"
  using assms by (simp add: js_close_def ws_close_def closeWebRTCFailed_def)

text \<open>
  C8, amended. The Go client, when \<^verbatim>\<open>Dial\<close> or \<^verbatim>\<open>DialDataChannel\<close> returns
  without error, has as its last act called
  \<^verbatim>\<open>c.ws.Close(websocket.StatusNormalClosure, "done")\<close> on the state the candidate
  exchange left, whatever the candidate pair: a socket still open is closed with status
  1000 and reason \<^verbatim>\<open>done\<close>, a socket already closed is left as it is. The browser
  client's \<^verbatim>\<open>close()\<close>, on a peer connection whose \<^verbatim>\<open>iceConnectionState\<close> is
  \<^verbatim>\<open>connected\<close> and whose \<^verbatim>\<open>connType()\<close> returns \<open>t\<close>, closes the socket
  with 4007 when \<open>t\<close> is \<^verbatim>\<open>host\<close>, \<^verbatim>\<open>srflx\<close> or \<^verbatim>\<open>prflx\<close>, with 4008
  when it is \<^verbatim>\<open>relay\<close> and with 4006 otherwise; on a failed connection it closes
  with 4009.
\<close>

theorem close_status_on_success:
  "(fst (Dial L elapsed pass p c) = Ok () \<longrightarrow>
      snd (Dial L elapsed pass p c) =
        (let s = snd (background L (snd (finish L pass (c\<lparr>pc := Some p\<rparr>))))
         in s\<lparr>ws := snd (ws_Close (ws s) StatusNormalClosure ''done'')\<rparr>)) \<and>
   (fst (DialDataChannel L opened pass c) = Ok d \<longrightarrow>
    NewPeerConnection L (ICEServers c) = Inr q \<longrightarrow>
      snd (DialDataChannel L opened pass c) =
        (let s = snd (background L (snd (finish L pass (c\<lparr>pc := Some q\<rparr>))))
         in s\<lparr>ws := snd (ws_Close (ws s) StatusNormalClosure ''done'')\<rparr>)) \<and>
   snd (ws_Close w StatusNormalClosure ''done'') =
     (if ws_closed w then w
      else w\<lparr>ws_out := ws_out w @ [Closed 1000 ''done''], ws_closed := True\<rparr>) \<and>
   (j_pc jw = Some jp \<longrightarrow> iceConnectionState jp = ''connected'' \<longrightarrow> connType jp = Some t \<longrightarrow>
      js_close jw =
        jw\<lparr>j_sent := j_sent jw @
           [WsClose (if t = JStr ''host'' \<or> t = JStr ''srflx'' \<or> t = JStr ''prflx'' then 4007
                     else if t = JStr ''relay'' then 4008 else 4006)]\<rparr>) \<and>
   (j_pc jw = Some jp \<longrightarrow> iceConnectionState jp = ''failed'' \<longrightarrow>
      js_close jw = jw\<lparr>j_sent := j_sent jw @ [WsClose 4009]\<rparr>)"
  using Dial_Ok_state [of L elapsed pass p c] DialDataChannel_Ok_state [of L opened pass c d q]
    js_close_connected [of jw jp t] js_close_failed [of jw jp]
  by (simp add: ws_Close_snd StatusNormalClosure_def)

text \<open>A relayed browser connection, and a completed Go handshake of a joiner.\<close>

lemma join0_background_open:
  "\<not> ws_closed (ws (snd (background lib0 (snd (finish lib0 ''pw'' (join0\<lparr>pc := Some gatherer0\<rparr>))))))"
  by (simp add: run_defs)

theorem close_status_on_success_witness:
  "j_sent (js_close ((js_new St_wait_for_candidates JNull)\<lparr>j_pc := Some relayed_pc\<rparr>)) =
     [WsClose 4008] \<and>
   ws_out (ws (snd (Dial lib0 0 ''pw'' gatherer0 join0))) =
     ws_out (ws (snd (background lib0 (snd (finish lib0 ''pw'' (join0\<lparr>pc := Some gatherer0\<rparr>))))))
       @ [Closed 1000 ''done'']"
  using close_status_on_success [where L = lib0 and elapsed = 0 and pass = "''pw''"
      and p = gatherer0 and c = join0 and opened = None and d = DataChannel
      and w = "ws (snd (background lib0 (snd (finish lib0 ''pw'' (join0\<lparr>pc := Some gatherer0\<rparr>)))))"
      and jw = "(js_new St_wait_for_candidates JNull)\<lparr>j_pc := Some relayed_pc\<rparr>"
      and jp = relayed_pc and t = "JStr ''relay''"]
    join0_run join0_background_open
  by (simp add: js_new_def relayed_pc_def connType_def Let_def)

subsection \<open>The session key\<close>

lemma readBase64_Ok:
  assumes "fst (readBase64 w) = Ok p"
  shows "\<exists>f rest. ws_in w = Frame f # rest \<and> base64_DecodeString f = Inr p"
  using assms
  by (auto simp: readBase64_def ws_Read_def andThen_fst_snd
      split: if_splits list.splits ws_event.splits sum.splits outcome.splits)

lemma finishNew_Ok_key:
  assumes "fst (finishNew L pass c) = Ok ()"
  shows "\<exists>f rest msgA msgB mk.
           ws_in (ws c) = Frame f # rest \<and> base64_DecodeString f = Inr msgA \<and>
           cpace_Exchange L pass (cpace_NewContextInfo [] [] []) msgA = Inr (msgB, mk) \<and>
           32 \<le> length (hkdf_New_sha256 L mk [] []) \<and>
           key (snd (finishNew L pass c)) = take 32 (hkdf_New_sha256 L mk [] [])"
proof -
  let ?c0 = "callbacks L (c\<lparr>side := sideNone\<rparr>)"
  obtain r cA where rd: "on_ws readBase64 ?c0 = (r, cA)" by fastforce
  from assms rd obtain msgA where r: "r = Ok msgA"
    by (cases r) (auto simp: finishNew_def)
  from rd r have "fst (readBase64 (ws ?c0)) = Ok msgA"
    using on_ws_proj(10) [of readBase64 ?c0] by simp
  from readBase64_Ok [OF this] obtain f rest
    where fr: "ws_in (ws c) = Frame f # rest" "base64_DecodeString f = Inr msgA" by auto
  from assms rd r obtain msgB mk
    where ex: "cpace_Exchange L pass (cpace_NewContextInfo [] [] []) msgA = Inr (msgB, mk)"
    by (cases "cpace_Exchange L pass (cpace_NewContextInfo [] [] []) msgA")
       (auto simp: finishNew_def)
  from assms rd r ex have len: "32 \<le> length (hkdf_New_sha256 L mk [] [])"
    by (auto simp: finishNew_def io_ReadFull_def split: if_splits)
  have "key (snd (finishNew L pass c)) = take 32 (hkdf_New_sha256 L mk [] [])"
    unfolding finishNew_def
    apply (simp add: rd r ex io_ReadFull_def len)
    apply (intro allI impI conjI
        andThen_inv [where P = "\<lambda>s. key s = take 32 (hkdf_New_sha256 L mk [] [])"]
        on_error_inv [where P = "\<lambda>s. key s = take 32 (hkdf_New_sha256 L mk [] [])"]
        | simp)+
    done
  with fr ex len show ?thesis by blast
qed

lemma finishJoin_Ok_key:
  assumes "fst (finishJoin L pass c) = Ok ()"
  shows "\<exists>f rest msgA st msgB mk.
           cpace_Start L pass (cpace_NewContextInfo [] [] []) = Inr (msgA, st) \<and>
           ws_in (ws c) = Frame f # rest \<and> base64_DecodeString f = Inr msgB \<and>
           cpace_Finish L st msgB = Inr mk \<and>
           32 \<le> length (hkdf_New_sha256 L mk [] []) \<and>
           key (snd (finishJoin L pass c)) = take 32 (hkdf_New_sha256 L mk [] [])"
proof -
  from assms obtain msgA st
    where st: "cpace_Start L pass (cpace_NewContextInfo [] [] []) = Inr (msgA, st)"
    by (cases "cpace_Start L pass (cpace_NewContextInfo [] [] [])") (auto simp: finishJoin_def)
  let ?c0 = "callbacks L c"
  obtain r0 cW where wr: "on_ws (\<lambda>w. writeBase64 w msgA) ?c0 = (r0, cW)" by fastforce
  from assms st wr have r0: "r0 = Ok ()" by (cases r0) (auto simp: finishJoin_def)
  obtain r cA where rd: "on_ws readBase64 (callbacks L cW) = (r, cA)" by fastforce
  from assms st wr r0 rd obtain msgB where r: "r = Ok msgB"
    by (cases r) (auto simp: finishJoin_def)
  from rd r have "fst (readBase64 (ws (callbacks L cW))) = Ok msgB"
    using on_ws_proj(10) [of readBase64 "callbacks L cW"] by simp
  from readBase64_Ok [OF this] obtain f rest
    where "ws_in (ws cW) = Frame f # rest" and dec: "base64_DecodeString f = Inr msgB" by auto
  moreover from wr have "ws_in (ws cW) = ws_in (ws c)"
    using on_ws_proj(9) [of "\<lambda>w. writeBase64 w msgA" ?c0] by simp
  ultimately have fr: "ws_in (ws c) = Frame f # rest" by simp
  from assms st wr r0 rd r obtain mk where fi: "cpace_Finish L st msgB = Inr mk"
    by (cases "cpace_Finish L st msgB") (auto simp: finishJoin_def)
  from assms st wr r0 rd r fi have len: "32 \<le> length (hkdf_New_sha256 L mk [] [])"
    by (auto simp: finishJoin_def io_ReadFull_def split: if_splits)
  have "key (snd (finishJoin L pass c)) = take 32 (hkdf_New_sha256 L mk [] [])"
    unfolding finishJoin_def
    apply (simp add: st wr r0 rd r fi io_ReadFull_def len)
    apply (intro allI impI conjI
        andThen_inv [where P = "\<lambda>s. key s = take 32 (hkdf_New_sha256 L mk [] [])"]
        on_error_inv [where P = "\<lambda>s. key s = take 32 (hkdf_New_sha256 L mk [] [])"]
        | simp)+
    done
  with st fr dec fi len show ?thesis by blast
qed

text \<open>
  C4: when \<^verbatim>\<open>finishNew\<close> and \<^verbatim>\<open>finishJoin\<close> return nil, each has set the key to
  the first 32 bytes of HKDF-SHA256 of its master key with empty salt and empty info:
  the initiator's master key is what \<^verbatim>\<open>cpace.Exchange\<close> gave for the first frame
  it read, the joiner's is what \<^verbatim>\<open>Finish\<close> gave for the first frame it read. Both
  keys are 32 bytes long, and equal master keys give equal keys.
\<close>

theorem session_keys_agree:
  assumes "fst (finishNew L passA cA) = Ok ()" and "fst (finishJoin L passB cB) = Ok ()"
  shows "\<exists>mkA mkB.
           (\<exists>f rest msgA msgB. ws_in (ws cA) = Frame f # rest \<and> base64_DecodeString f = Inr msgA \<and>
              cpace_Exchange L passA (cpace_NewContextInfo [] [] []) msgA = Inr (msgB, mkA)) \<and>
           (\<exists>f rest msgA st msgB. cpace_Start L passB (cpace_NewContextInfo [] [] []) = Inr (msgA, st) \<and>
              ws_in (ws cB) = Frame f # rest \<and> base64_DecodeString f = Inr msgB \<and>
              cpace_Finish L st msgB = Inr mkB) \<and>
           key (snd (finishNew L passA cA)) = take 32 (hkdf_New_sha256 L mkA [] []) \<and>
           key (snd (finishJoin L passB cB)) = take 32 (hkdf_New_sha256 L mkB [] []) \<and>
           length (key (snd (finishNew L passA cA))) = 32 \<and>
           length (key (snd (finishJoin L passB cB))) = 32 \<and>
           (mkA = mkB \<longrightarrow> key (snd (finishNew L passA cA)) = key (snd (finishJoin L passB cB)))"
proof -
  from finishNew_Ok_key [OF assms(1)] obtain f rest msgA msgB mkA where
    a: "ws_in (ws cA) = Frame f # rest" "base64_DecodeString f = Inr msgA"
      "cpace_Exchange L passA (cpace_NewContextInfo [] [] []) msgA = Inr (msgB, mkA)"
      "32 \<le> length (hkdf_New_sha256 L mkA [] [])"
      "key (snd (finishNew L passA cA)) = take 32 (hkdf_New_sha256 L mkA [] [])" by blast
  from finishJoin_Ok_key [OF assms(2)] obtain f' rest' msgA' st msgB' mkB where
    b: "cpace_Start L passB (cpace_NewContextInfo [] [] []) = Inr (msgA', st)"
      "ws_in (ws cB) = Frame f' # rest'" "base64_DecodeString f' = Inr msgB'"
      "cpace_Finish L st msgB' = Inr mkB"
      "32 \<le> length (hkdf_New_sha256 L mkB [] [])"
      "key (snd (finishJoin L passB cB)) = take 32 (hkdf_New_sha256 L mkB [] [])" by blast
  have "length (key (snd (finishNew L passA cA))) = 32"
       "length (key (snd (finishJoin L passB cB))) = 32"
    using a(4,5) b(5,6) by simp_all
  with a b show ?thesis by (intro exI [of _ mkA] exI [of _ mkB]) auto
qed

lemma new0_finishNew: "fst (finishNew lib0 ''pw'' (new0\<lparr>pc := Some gatherer0\<rparr>)) = Ok ()"
  by (simp add: run_defs)

lemma join0_finishJoin: "fst (finishJoin lib0 ''pw'' (join0\<lparr>pc := Some gatherer0\<rparr>)) = Ok ()"
  by (simp add: run_defs)

lemma lib0_fields:
  "hkdf_New_sha256 lib0 = (\<lambda>secret salt info. secret @ replicate 32 0)"
  "cpace_Start lib0 = (\<lambda>pass ctx. Inr (str_bytes ''A'', str_bytes pass))"
  "cpace_Exchange lib0 = (\<lambda>pass ctx msgA. Inr (str_bytes ''B'', str_bytes pass))"
  "cpace_Finish lib0 = (\<lambda>st msgB. Inr st)"
  by (simp_all add: lib0_def)

theorem session_keys_agree_witness:
  "key (snd (finishNew lib0 ''pw'' (new0\<lparr>pc := Some gatherer0\<rparr>))) = key0 \<and>
   key (snd (finishJoin lib0 ''pw'' (join0\<lparr>pc := Some gatherer0\<rparr>))) = key0"
  using session_keys_agree [OF new0_finishNew join0_finishJoin]
  by (auto simp: lib0_fields key0_def str_bytes_def)

subsection \<open>The end of the candidate streams\<close>

lemma write_state:
  assumes "\<not> ws_closed (ws c)" "24 \<le> length (crand c)" "json_Marshal L v = Inr m"
  shows "call_writeEncJSON L v c =
           (Ok (), c\<lparr>ws := (ws c)\<lparr>ws_out := ws_out (ws c) @
                        [Sent (base64_EncodeToString
                                 (take 24 (crand c) @
                                  secretbox_Seal L m (take 24 (crand c)) (key c)))]\<rparr>,
                     crand := drop 24 (crand c),
                     trace := trace c @ [SealedWrite v True]\<rparr>)"
  using assms
  by (simp add: call_writeEncJSON_def writeEncJSON_def io_ReadFull_def ws_Write_def)

lemma first_nil:
  assumes "\<not> localCandidate c" "\<not> ws_closed (ws c)" "24 \<le> length (crand c)"
    and "json_Marshal L (JCandidate ICECandidateInit_zero) = Inr m"
  shows "handleLocalCandidates L None c =
           c\<lparr>ws := (ws c)\<lparr>ws_out := ws_out (ws c) @
                  [Sent (base64_EncodeToString
                           (take 24 (crand c) @
                            secretbox_Seal L m (take 24 (crand c)) (key c)))]\<rparr>,
             crand := drop 24 (crand c),
             trace := trace c @ [SealedWrite (JCandidate ICECandidateInit_zero) True],
             localCandidate := True\<rparr>"
  using assms(1) write_state [OF assms(2,3,4)] by (simp add: handleLocalCandidates_def)

lemma nil_again: "localCandidate c \<Longrightarrow> handleLocalCandidates L None c = c"
  by (simp add: handleLocalCandidates_def)

lemma nils_again: "localCandidate c \<Longrightarrow> fold (handleLocalCandidates L) (replicate n None) c = c"
  by (induction n) (simp_all add: nil_again)

lemma candidates_keep:
  "localCandidate (fold (handleLocalCandidates L) (map Some cands) c) = localCandidate c"
  "ws_closed (ws (fold (handleLocalCandidates L) (map Some cands) c)) = ws_closed (ws c)"
  "key (fold (handleLocalCandidates L) (map Some cands) c) = key c"
  by (induction cands arbitrary: c) (simp_all add: handleLocalCandidates_def)

lemma candidates_crand:
  "length (crand c) - 24 * length cands \<le>
     length (crand (fold (handleLocalCandidates L) (map Some cands) c))"
proof (induction cands arbitrary: c)
  case Nil
  then show ?case by simp
next
  case (Cons a cands)
  have "length (crand c) - 24 \<le> length (crand (handleLocalCandidates L (Some a) c))"
    by (simp add: handleLocalCandidates_def call_writeEncJSON_def writeEncJSON_def io_ReadFull_def
        split_beta split: sum.splits)
  with Cons [of "handleLocalCandidates L (Some a) c"] show ?case by simp
qed

lemma completion:
  assumes "\<not> localCandidate c" "\<not> ws_closed (ws c)"
    and "24 * (length cands + 1) \<le> length (crand c)"
    and "json_Marshal L (JCandidate ICECandidateInit_zero) = Inr m"
  shows "fold (handleLocalCandidates L) (map Some cands @ None # replicate n None) c =
           (let s = fold (handleLocalCandidates L) (map Some cands) c
            in s\<lparr>ws := (ws s)\<lparr>ws_out := ws_out (ws s) @
                      [Sent (base64_EncodeToString
                               (take 24 (crand s) @
                                secretbox_Seal L m (take 24 (crand s)) (key c)))]\<rparr>,
                 crand := drop 24 (crand s),
                 trace := trace s @ [SealedWrite (JCandidate ICECandidateInit_zero) True],
                 localCandidate := True\<rparr>)"
proof -
  let ?s = "fold (handleLocalCandidates L) (map Some cands) c"
  from assms(3) candidates_crand [of c cands L] have r: "24 \<le> length (crand ?s)" by simp
  have "handleLocalCandidates L None ?s =
      ?s\<lparr>ws := (ws ?s)\<lparr>ws_out := ws_out (ws ?s) @
                      [Sent (base64_EncodeToString
                               (take 24 (crand ?s) @
                                secretbox_Seal L m (take 24 (crand ?s)) (key ?s)))]\<rparr>,
                 crand := drop 24 (crand ?s),
                 trace := trace ?s @ [SealedWrite (JCandidate ICECandidateInit_zero) True],
                 localCandidate := True\<rparr>"
    by (rule first_nil) (use assms r in \<open>simp_all add: candidates_keep\<close>)
  moreover have "fold (handleLocalCandidates L) (map Some cands @ None # replicate n None) c =
      fold (handleLocalCandidates L) (replicate n None) (handleLocalCandidates L None ?s)"
    by (simp only: fold_append fold_Cons o_apply)
  moreover have "localCandidate (handleLocalCandidates L None ?s)"
    by (simp add: handleLocalCandidates_def split_beta)
  ultimately show ?thesis
    by (simp only: nils_again candidates_keep Let_def)
qed

lemma frame_reads_back:
  assumes "lib_round_trip L" "length n = 24" "json_Marshal L (JCandidate ci) = Inr m"
  shows "is_sentinel_frame L k (Sent (base64_EncodeToString (n @ secretbox_Seal L m n k))) =
           (ci_candidate ci = [])"
proof -
  from assms(1,3) obtain ci' where "json_Unmarshal_candidate L m = Inr ci'"
      "ci_candidate ci' = ci_candidate ci"
    unfolding lib_round_trip_def by (metis sum.inject(2))
  moreover from assms(1) have "secretbox_Open L (secretbox_Seal L m n k) n k = Some m"
    unfolding lib_round_trip_def by blast
  ultimately show ?thesis
    using assms(2) by (simp add: is_sentinel_frame_def readEncJSON_def ws_Read_def)
qed

lemma step_count:
  assumes "lib_round_trip L" "\<not> ws_closed (ws c)" "24 \<le> length (crand c)"
  shows "length (filter (is_sentinel_frame L (key c)) (ws_out (ws (handleLocalCandidates L e c)))) =
           (if e = None \<and> \<not> localCandidate c then 1 else 0) +
           length (filter (is_sentinel_frame L (key c)) (ws_out (ws c)))"
proof (cases e)
  case None
  from assms(1) obtain m where m: "json_Marshal L (JCandidate ICECandidateInit_zero) = Inr m"
    unfolding lib_round_trip_def by blast
  show ?thesis
  proof (cases "localCandidate c")
    case True
    with None show ?thesis by (simp add: nil_again)
  next
    case False
    from assms(3) have "length (take 24 (crand c)) = 24" by simp
    from frame_reads_back [OF assms(1) this m, of "key c"] None False
      first_nil [OF False assms(2,3) m]
    show ?thesis by (simp add: ICECandidateInit_zero_def)
  qed
next
  case (Some cand)
  from assms(1) obtain m where m: "json_Marshal L (JCandidate (ToJSON cand)) = Inr m"
    unfolding lib_round_trip_def by blast
  from assms(3) have "length (take 24 (crand c)) = 24" by simp
  from frame_reads_back [OF assms(1) this m, of "key c"] Some write_state [OF assms(2,3) m]
  show ?thesis by (simp add: handleLocalCandidates_def ToJSON_def)
qed

lemma step_keeps:
  "ws_closed (ws (handleLocalCandidates L e c)) = ws_closed (ws c)"
  "key (handleLocalCandidates L e c) = key c"
  "length (crand c) - 24 \<le> length (crand (handleLocalCandidates L e c))"
  "localCandidate (handleLocalCandidates L e c) = (localCandidate c \<or> e = None)"
  by (cases e; simp add: handleLocalCandidates_def call_writeEncJSON_def writeEncJSON_def
      io_ReadFull_def split_beta split: sum.splits)+

lemma run_count:
  "lib_round_trip L \<Longrightarrow> \<not> ws_closed (ws c) \<Longrightarrow> 24 * length es \<le> length (crand c) \<Longrightarrow>
     length (filter (is_sentinel_frame L (key c))
               (ws_out (ws (fold (handleLocalCandidates L) es c)))) =
       (if None \<in> set es \<and> \<not> localCandidate c then 1 else 0) +
       length (filter (is_sentinel_frame L (key c)) (ws_out (ws c)))"
proof (induction es arbitrary: c)
  case Nil
  then show ?case by simp
next
  case (Cons e es)
  let ?c1 = "handleLocalCandidates L e c"
  from Cons.prems(3) have r: "24 \<le> length (crand c)" by simp
  from Cons.prems(3) step_keeps(3) [of c L e] have r1: "24 * length es \<le> length (crand ?c1)"
    by simp
  from Cons.prems(2) have o1: "\<not> ws_closed (ws ?c1)" by (simp add: step_keeps)
  from Cons.IH [OF Cons.prems(1) o1 r1] step_count [OF Cons.prems(1,2) r, of e]
  show ?case by (auto simp: step_keeps)
qed


lemma readEncJSON_next_frame:
  assumes "\<not> ws_closed w" "ws_in w = Frame f # rest"
  shows "readEncJSON L u w k =
           (fst (readEncJSON L u \<lparr>ws_in = [Frame f], ws_out = [], ws_closed = False\<rparr> k),
            w\<lparr>ws_in := rest\<rparr>)"
  using assms
  by (simp add: readEncJSON_def ws_Read_def Let_def split: sum.splits option.splits)

lemma sentinel_frame_ends_reading:
  assumes "\<not> ws_closed (ws c)" "ws_in (ws c) = Frame f # rest"
    and "is_sentinel_frame L (key c) (Sent f)" "\<not> remoteCandidate c"
  shows "handleRemoteCandidates L c =
           (Ok (), c\<lparr>ws := (ws c)\<lparr>ws_in := rest\<rparr>, trace := trace c @ [SealedRead],
                     remoteCandidate := True\<rparr>)"
proof -
  from assms(3) obtain ci where
    "fst (readEncJSON L (json_Unmarshal_candidate L)
            \<lparr>ws_in = [Frame f], ws_out = [], ws_closed = False\<rparr> (key c)) = Ok ci"
    "ci_candidate ci = []"
    by (auto simp: is_sentinel_frame_def split: outcome.splits)
  with readEncJSON_next_frame [OF assms(1,2), of L "json_Unmarshal_candidate L" "key c"]
  have "handleRemoteCandidates_body L c =
      (Some (Ok ()), c\<lparr>ws := (ws c)\<lparr>ws_in := rest\<rparr>, trace := trace c @ [SealedRead]\<rparr>)"
    by (simp add: handleRemoteCandidates_body_def call_readEncJSON_def)
  then have "handleRemoteCandidates_loop L c =
      (Ok (), c\<lparr>ws := (ws c)\<lparr>ws_in := rest\<rparr>, trace := trace c @ [SealedRead]\<rparr>)"
    by (subst handleRemoteCandidates_loop.simps) simp
  with assms(4) show ?thesis by (simp add: handleRemoteCandidates_def)
qed

lemma body_no_Err: "fst (handleRemoteCandidates_body L c) \<noteq> Some (Err e)"
  by (simp add: handleRemoteCandidates_body_def split_beta split: outcome.splits)

lemma loop_no_Err: "fst (handleRemoteCandidates_loop L c) \<noteq> Err e"
  by (rule loop_rule [where I = "\<lambda>x. True" and Q = "\<lambda>r x. r \<noteq> Err e"])
     (use body_no_Err in auto)

lemma handleRemoteCandidates_no_Err: "fst (handleRemoteCandidates L c) \<noteq> Err e"
  using loop_no_Err [of L c e]
  by (auto simp: handleRemoteCandidates_def split_beta split: outcome.splits)

text \<open>
  C9. A nil candidate that comes when \<^verbatim>\<open>localCandidate\<close> is closed changes
  nothing. When the gatherer raises candidates and then reports completion, once or
  more, on an open socket, the run is the run of the candidates followed by one sealed
  write of \<^verbatim>\<open>webrtc.ICECandidateInit{}\<close>: its frame is the last one on the socket
  and \<^verbatim>\<open>localCandidate\<close> is closed. Over any sequence of callbacks the number of
  frames on the socket that \<^verbatim>\<open>readEncJSON\<close> reads as the empty candidate grows
  by exactly one if the sequence has a nil candidate and \<^verbatim>\<open>localCandidate\<close> was
  open, and by none otherwise; the frame of the sealed empty candidate is such a frame.
  When the next frame on the socket is such a frame, \<^verbatim>\<open>handleRemoteCandidates\<close>
  reads it and nothing more, adds no candidate, closes \<^verbatim>\<open>remoteCandidate\<close> and
  returns. It never yields an error: the function has no result.
\<close>

theorem candidate_trickle_ends:
  "(localCandidate c \<longrightarrow> handleLocalCandidates L None c = c) \<and>
   (\<not> localCandidate c \<longrightarrow> \<not> ws_closed (ws c) \<longrightarrow>
    24 * (length cands + 1) \<le> length (crand c) \<longrightarrow>
    json_Marshal L (JCandidate ICECandidateInit_zero) = Inr m \<longrightarrow>
      fold (handleLocalCandidates L) (map Some cands @ None # replicate n None) c =
        (let s = fold (handleLocalCandidates L) (map Some cands) c
         in s\<lparr>ws := (ws s)\<lparr>ws_out := ws_out (ws s) @
                   [Sent (base64_EncodeToString
                            (take 24 (crand s) @
                             secretbox_Seal L m (take 24 (crand s)) (key c)))]\<rparr>,
              crand := drop 24 (crand s),
              trace := trace s @ [SealedWrite (JCandidate ICECandidateInit_zero) True],
              localCandidate := True\<rparr>)) \<and>
   (lib_round_trip L \<longrightarrow> \<not> ws_closed (ws c) \<longrightarrow> 24 * length es \<le> length (crand c) \<longrightarrow>
      length (filter (is_sentinel_frame L (key c))
                (ws_out (ws (fold (handleLocalCandidates L) es c)))) =
        (if None \<in> set es \<and> \<not> localCandidate c then 1 else 0) +
        length (filter (is_sentinel_frame L (key c)) (ws_out (ws c)))) \<and>
   (lib_round_trip L \<longrightarrow> length nonce = 24 \<longrightarrow>
    json_Marshal L (JCandidate ICECandidateInit_zero) = Inr m \<longrightarrow>
      is_sentinel_frame L k (Sent (base64_EncodeToString (nonce @ secretbox_Seal L m nonce k)))) \<and>
   (\<not> ws_closed (ws r) \<longrightarrow> ws_in (ws r) = Frame f # rest \<longrightarrow>
    is_sentinel_frame L (key r) (Sent f) \<longrightarrow> \<not> remoteCandidate r \<longrightarrow>
      handleRemoteCandidates L r =
        (Ok (), r\<lparr>ws := (ws r)\<lparr>ws_in := rest\<rparr>, trace := trace r @ [SealedRead],
                  remoteCandidate := True\<rparr>)) \<and>
   fst (handleRemoteCandidates L r) \<noteq> Err e"
  using nil_again [of c L] completion [of c cands L m n] run_count [of L c es]
    frame_reads_back [of L nonce ICECandidateInit_zero m k]
    sentinel_frame_ends_reading [of r f rest L] handleRemoteCandidates_no_Err [of L r e]
  by (simp add: ICECandidateInit_zero_def)

text \<open>
  The stand-in libraries: a candidate and two reports of completion on a socket that
  holds the counterpart's sealed empty candidate.
\<close>

lemma bytes_str_str_bytes: "bytes_str (str_bytes s) = s"
  by (induction s) (simp_all add: bytes_str_def str_bytes_def unat_of_nat)

lemma lib0_round_trip: "lib_round_trip lib0"
  by (simp add: lib_round_trip_def lib0_def toy_Seal_def toy_Open_def toy_Marshal_def
      toy_Unmarshal_candidate_def bytes_str_str_bytes)


lemma lib0_codec:
  "secretbox_Seal lib0 = toy_Seal" "json_Marshal lib0 = toy_Marshal"
  by (simp_all add: lib0_def)

theorem candidate_trickle_ends_witness:
  "ws_out (ws (fold (handleLocalCandidates lib0) [Some ''x'', None, None] trickle0)) =
     [Sent (base64_EncodeToString
              (replicate 24 7 @ toy_Seal (2 # str_bytes ''candidate:x'') (replicate 24 7) key0)),
      Sent (base64_EncodeToString (replicate 24 7 @ toy_Seal [2] (replicate 24 7) key0))] \<and>
   length (filter (is_sentinel_frame lib0 key0)
             (ws_out (ws (fold (handleLocalCandidates lib0) [Some ''x'', None, None] trickle0)))) = 1 \<and>
   handleRemoteCandidates lib0 trickle0 =
     (Ok (), trickle0\<lparr>ws := ws0, trace := [SealedRead], remoteCandidate := True\<rparr>)"
  using candidate_trickle_ends [where c = trickle0 and L = lib0 and cands = "[''x'']"
      and m = "[2]" and n = 1 and es = "[Some ''x'', None, None]" and nonce = "replicate 24 9"
      and k = key0 and r = trickle0 and f = "peer_frame (JCandidate ICECandidateInit_zero)"
      and rest = "[]"]
  by (simp add: lib0_round_trip str_bytes_def trickle0_def wormhole0_def ws0_def lib0_codec peer_frame_def toy_Marshal_def
      ICECandidateInit_zero_def handleLocalCandidates_def call_writeEncJSON_def writeEncJSON_def
      io_ReadFull_def ws_Write_def ToJSON_def Let_def)

subsection \<open>A key that does not open a frame\<close>

text \<open>
  C1, as the claim states it, fails for the Go client. A joiner whose key does not
  open the offer closes the socket with 4005 and reason \<^verbatim>\<open>bad key\<close> and has sent
  nothing but its message of the key exchange: no sealed \<^verbatim>\<open>bye\<close>. An initiator
  whose key does not open the answer returns \<^verbatim>\<open>ErrBadKey\<close> and leaves the socket
  open. The browser client, told of a close with 4005, fails with the text it has for
  any other close.
\<close>

theorem finishJoin_closes_without_bye:
  "fst (finishJoin lib0 ''xx'' (join0\<lparr>pc := Some pc0\<rparr>)) = Err ErrBadKey \<and>
   ws_out (ws (snd (finishJoin lib0 ''xx'' (join0\<lparr>pc := Some pc0\<rparr>)))) =
     [Sent (base64_EncodeToString (str_bytes ''A'')), Closed 4005 ''bad key''] \<and>
   fst (finishNew lib0 ''xx'' (new0\<lparr>pc := Some pc0\<rparr>)) = Err ErrBadKey \<and>
   \<not> ws_closed (ws (snd (finishNew lib0 ''xx'' (new0\<lparr>pc := Some pc0\<rparr>)))) \<and>
   length (ws_out (ws (snd (finishNew lib0 ''xx'' (new0\<lparr>pc := Some pc0\<rparr>))))) = 2 \<and>
   j_failed (onclose jslib0 4005 ''bad key'' (js_new St_wait_for_webtc_answer (JStr ''pw''))) =
     [''websocket session closed: bad key'']"
  by (simp add: run_defs CloseBadKey_def onclose_def js_fail_def js_new_def jslib0_def)

lemma js_bad_key:
  assumes "j_state w = St_wait_for_webtc_offer \<or> j_state w = St_wait_for_webtc_answer \<or>
           j_state w = St_wait_for_candidates"
    and "truthy (j_key w)" "j_pc w = Some p"
    and "JSON_parse J (ww_open J (j_key w) data) = Some msg" "\<not> truthy msg"
  shows "onmessage J data w =
           w\<lparr>j_calls := j_calls w @ [OpenCall (j_key w), SealCall (j_key w)],
             j_failed := j_failed w @ [''bad key''], j_state := St_error,
             j_sent := j_sent w @ [WsSend (ww_seal J (j_key w) (JStr ''bye'')), WsClose 4005]\<rparr>"
  using assms
  by (auto simp: onmessage_def parse_opened_def bad_key_def send_sealed_def ws_send_def
      ws_close_def js_fail_def closeBadKey_def)

lemma readEncJSON_bad_key:
  assumes "\<not> ws_closed (ws c)" "ws_in (ws c) = Frame f # rest"
    and "base64_DecodeString f = Inr encrypted" "24 \<le> length encrypted"
    and "secretbox_Open L (drop 24 encrypted) (take 24 encrypted) (key c) = None"
  shows "call_readEncJSON L unmarshal c =
           (Err ErrBadKey, c\<lparr>ws := (ws c)\<lparr>ws_in := rest\<rparr>, trace := trace c @ [SealedRead]\<rparr>)"
  using assms by (simp add: call_readEncJSON_def readEncJSON_def ws_Read_def)

lemma finishJoin_bad_key:
  assumes "cpace_Start L pass (cpace_NewContextInfo [] [] []) = Inr (msgA, st)"
    and "on_ws (\<lambda>w. writeBase64 w msgA) (callbacks L c) = (Ok (), c1)"
    and "on_ws readBase64 (callbacks L c1) = (Ok msgB, c2)"
    and "cpace_Finish L st msgB = Inr mk"
    and "32 \<le> length (hkdf_New_sha256 L mk [] [])"
    and "OnICECandidate (callbacks L (c2\<lparr>key := take 32 (hkdf_New_sha256 L mk [] []),
                                         trace := trace c2 @ [KeyDerived]\<rparr>)) = (Ok (), c3)"
    and "call_readEncJSON L (json_Unmarshal_description L) (callbacks L c3) = (Err e, c4)"
  shows "finishJoin L pass c =
           (Err e, if e = ErrBadKey
                   then c4\<lparr>ws := snd (ws_Close (ws c4) CloseBadKey ''bad key'')\<rparr> else c4)"
  using assms by (simp add: finishJoin_def io_ReadFull_def on_ws_def split_beta)

lemma finishNew_bad_key:
  assumes "on_ws readBase64 (callbacks L (c\<lparr>side := sideNone\<rparr>)) = (Ok msgA, c1)"
    and "cpace_Exchange L pass (cpace_NewContextInfo [] [] []) msgA = Inr (msgB, mk)"
    and "32 \<le> length (hkdf_New_sha256 L mk [] [])"
    and "on_ws (\<lambda>w. writeBase64 w msgB)
           (callbacks L (c1\<lparr>key := take 32 (hkdf_New_sha256 L mk [] []),
                             trace := trace c1 @ [KeyDerived]\<rparr>)) = (Ok (), c2)"
    and "OnICECandidate (callbacks L c2) = (Ok (), c3)"
    and "CreateOffer L (callbacks L c3) = (Ok offer, c4)"
    and "call_writeEncJSON L (JDescription offer) (callbacks L c4) = (Ok (), c5)"
    and "call_readEncJSON L (json_Unmarshal_description L) (callbacks L c5) = (Err e, c6)"
    and "CloseStatus (Some e) = CloseBadKey"
  shows "finishNew L pass c = (Err ErrBadKey, c6)"
  using assms by (simp add: finishNew_def io_ReadFull_def)


text \<open>
  C1, amended. The browser client, in the three states that read sealed frames, when
  the opened frame parses to a falsy value: fails with \<^verbatim>\<open>bad key\<close>, sends the
  sealed \<^verbatim>\<open>bye\<close> and closes with 4005. In the Go client \<^verbatim>\<open>readEncJSON\<close>
  returns \<^verbatim>\<open>ErrBadKey\<close> when \<^verbatim>\<open>secretbox.Open\<close> fails on a frame of at least
  24 bytes; \<^verbatim>\<open>finishJoin\<close>, when its read of the offer returns
  \<^verbatim>\<open>ErrBadKey\<close>, closes the socket with \<^verbatim>\<open>CloseBadKey\<close> and reason
  \<^verbatim>\<open>bad key\<close>, sends nothing and returns \<^verbatim>\<open>ErrBadKey\<close>, and returns any other
  error of that read unchanged, a close with 4005 included; \<^verbatim>\<open>finishNew\<close>, when
  its read of the answer fails with close status 4005, returns \<^verbatim>\<open>ErrBadKey\<close>.
  The browser's \<^verbatim>\<open>onclose\<close> fails for 4005 with the text it builds for any
  other close.
\<close>

theorem bad_key_handling:
  "((j_state w = St_wait_for_webtc_offer \<or> j_state w = St_wait_for_webtc_answer \<or>
     j_state w = St_wait_for_candidates) \<longrightarrow>
    truthy (j_key w) \<longrightarrow> j_pc w = Some jp \<longrightarrow>
    JSON_parse J (ww_open J (j_key w) data) = Some msg \<longrightarrow> \<not> truthy msg \<longrightarrow>
      onmessage J data w =
        w\<lparr>j_calls := j_calls w @ [OpenCall (j_key w), SealCall (j_key w)],
          j_failed := j_failed w @ [''bad key''], j_state := St_error,
          j_sent := j_sent w @ [WsSend (ww_seal J (j_key w) (JStr ''bye'')), WsClose 4005]\<rparr>) \<and>
   (\<not> ws_closed (ws c) \<longrightarrow> ws_in (ws c) = Frame f # rest \<longrightarrow>
    base64_DecodeString f = Inr encrypted \<longrightarrow> 24 \<le> length encrypted \<longrightarrow>
    secretbox_Open L (drop 24 encrypted) (take 24 encrypted) (key c) = None \<longrightarrow>
      call_readEncJSON L (json_Unmarshal_description L) c =
        (Err ErrBadKey, c\<lparr>ws := (ws c)\<lparr>ws_in := rest\<rparr>, trace := trace c @ [SealedRead]\<rparr>)) \<and>
   (cpace_Start L pass (cpace_NewContextInfo [] [] []) = Inr (msgA, st) \<longrightarrow>
    on_ws (\<lambda>w. writeBase64 w msgA) (callbacks L b) = (Ok (), b1) \<longrightarrow>
    on_ws readBase64 (callbacks L b1) = (Ok msgB, b2) \<longrightarrow>
    cpace_Finish L st msgB = Inr mk \<longrightarrow>
    32 \<le> length (hkdf_New_sha256 L mk [] []) \<longrightarrow>
    OnICECandidate (callbacks L (b2\<lparr>key := take 32 (hkdf_New_sha256 L mk [] []),
                                      trace := trace b2 @ [KeyDerived]\<rparr>)) = (Ok (), b3) \<longrightarrow>
    call_readEncJSON L (json_Unmarshal_description L) (callbacks L b3) = (Err e, b4) \<longrightarrow>
      finishJoin L pass b =
        (Err e, if e = ErrBadKey
                then b4\<lparr>ws := snd (ws_Close (ws b4) CloseBadKey ''bad key'')\<rparr> else b4)) \<and>
   (\<not> ws_closed s \<longrightarrow>
      snd (ws_Close s CloseBadKey ''bad key'') =
        s\<lparr>ws_out := ws_out s @ [Closed 4005 ''bad key''], ws_closed := True\<rparr>) \<and>
   (on_ws readBase64 (callbacks L (a\<lparr>side := sideNone\<rparr>)) = (Ok msgA', a1) \<longrightarrow>
    cpace_Exchange L pass' (cpace_NewContextInfo [] [] []) msgA' = Inr (msgB', mk') \<longrightarrow>
    32 \<le> length (hkdf_New_sha256 L mk' [] []) \<longrightarrow>
    on_ws (\<lambda>w. writeBase64 w msgB')
      (callbacks L (a1\<lparr>key := take 32 (hkdf_New_sha256 L mk' [] []),
                        trace := trace a1 @ [KeyDerived]\<rparr>)) = (Ok (), a2) \<longrightarrow>
    OnICECandidate (callbacks L a2) = (Ok (), a3) \<longrightarrow>
    CreateOffer L (callbacks L a3) = (Ok offer, a4) \<longrightarrow>
    call_writeEncJSON L (JDescription offer) (callbacks L a4) = (Ok (), a5) \<longrightarrow>
    call_readEncJSON L (json_Unmarshal_description L) (callbacks L a5) =
      (Err (CloseError CloseBadKey reason), a6) \<longrightarrow>
      finishNew L pass' a = (Err ErrBadKey, a6)) \<and>
   onclose J 4005 reason w = js_fail (js_template J reason 4005) w"
  using js_bad_key [of w jp J data msg]
    readEncJSON_bad_key [of c f rest encrypted L "json_Unmarshal_description L"]
    finishJoin_bad_key [of L pass msgA st b b1 msgB b2 mk b3 e b4]
    finishNew_bad_key [of L a msgA' a1 pass' msgB' mk' a2 a3 offer a4 a5
      "CloseError CloseBadKey reason" a6]
  by (simp add: ws_Close_def CloseBadKey_def onclose_def)

text \<open>
  A browser joiner and a Go joiner, each with a key from the password \<^verbatim>\<open>xx\<close>,
  reading an offer sealed under the key from \<^verbatim>\<open>pw\<close>.
\<close>

theorem bad_key_handling_witness:
  "j_sent (onmessage jslib0 (JArr [JStr ''pw'', JObj [(''type'', JStr ''offer'')]]) js_join0) =
     [WsSend (JArr [JStr ''xx'', JStr ''bye'']), WsClose 4005] \<and>
   j_failed (onmessage jslib0 (JArr [JStr ''pw'', JObj [(''type'', JStr ''offer'')]]) js_join0) =
     [''bad key''] \<and>
   fst (finishJoin lib0 ''xx'' (join0\<lparr>pc := Some pc0\<rparr>)) = Err ErrBadKey \<and>
   ws_out (ws (snd (finishJoin lib0 ''xx'' (join0\<lparr>pc := Some pc0\<rparr>)))) =
     [Sent (base64_EncodeToString (str_bytes ''A'')), Closed 4005 ''bad key'']"
  using bad_key_handling [where w = js_join0 and jp = relayed_pc and J = jslib0
      and data = "JArr [JStr ''pw'', JObj [(''type'', JStr ''offer'')]]" and msg = JNull
      and L = lib0 and pass = "''xx''" and msgA = "str_bytes ''A''" and st = "str_bytes ''xx''"
      and b = "join0\<lparr>pc := Some pc0\<rparr>"]
  by (simp add: run_defs CloseBadKey_def js_join0_def jslib0_def js_new_def js_fail_def)

subsection \<open>Sealed frames wait for the key\<close>

lemma keyed_append:
  "keyed c \<Longrightarrow> e \<noteq> KeyDerived \<Longrightarrow> trace c' = trace c @ [e] \<Longrightarrow> keyed c'"
  by (cases "trace c") (simp_all add: keyed_def)

lemma keyed_same: "trace c' = trace c \<Longrightarrow> keyed c' = keyed c"
  by (simp add: keyed_def)

lemma keyed_updates [simp]:
  "keyed (c\<lparr>spawned := b\<rparr>) = keyed c"
  "keyed (c\<lparr>remoteCandidate := b\<rparr>) = keyed c"
  "keyed (c\<lparr>localCandidate := b\<rparr>) = keyed c"
  "keyed (c\<lparr>ws := w\<rparr>) = keyed c"
  "keyed (c\<lparr>pc := x\<rparr>) = keyed c"
  by (simp_all add: keyed_def)

lemma keyed_write [simp]: "keyed c \<Longrightarrow> keyed (snd (call_writeEncJSON L v c))"
  by (erule keyed_append [where e = "SealedWrite v (fst (call_writeEncJSON L v c) = Ok ())"]) simp_all

lemma keyed_read [simp]: "keyed c \<Longrightarrow> keyed (snd (call_readEncJSON L u c))"
  by (erule keyed_append [where e = SealedRead]) simp_all

lemma keyed_handleLocalCandidates [simp]: "keyed c \<Longrightarrow> keyed (handleLocalCandidates L e c)"
  by (cases e) (simp_all add: handleLocalCandidates_def split_beta)

lemma keyed_fire [simp]: "keyed c \<Longrightarrow> keyed (fire L e c)"
  by (simp add: fire_def split: option.splits)

lemma keyed_fold_fire [simp]: "keyed c \<Longrightarrow> keyed (fold (fire L) es c)"
  by (induction es arbitrary: c) simp_all

lemma keyed_callbacks [simp]: "keyed c \<Longrightarrow> keyed (callbacks L c)"
  by (simp add: callbacks_def split: option.splits list.splits)

lemma keyed_callbacks_all [simp]: "keyed c \<Longrightarrow> keyed (callbacks_all L c)"
  by (simp add: callbacks_all_def split: option.splits)

lemma keyed_frames [simp]:
  "keyed (snd (on_ws f c)) = keyed c"
  "keyed (snd (OnICECandidate c)) = keyed c"
  "keyed (snd (CreateOffer L c)) = keyed c"
  "keyed (snd (CreateAnswer L c)) = keyed c"
  "keyed (snd (SetLocalDescription L sd c)) = keyed c"
  "keyed (snd (SetRemoteDescription L sd c)) = keyed c"
  "keyed (snd (AddICECandidate L ci c)) = keyed c"
  by (simp_all add: keyed_def)

lemma fire_unregistered: "\<not> registered c \<Longrightarrow> fire L e c = c"
  by (simp add: fire_def registered_def split: option.splits)

lemma fold_fire_unregistered: "\<not> registered c \<Longrightarrow> fold (fire L) es c = c"
  by (induction es) (simp_all add: fire_unregistered)

lemma callbacks_unregistered:
  assumes "\<not> registered c"
  shows "ws (callbacks L c) = ws c \<and> trace (callbacks L c) = trace c"
proof (cases "pc c")
  case None
  then show ?thesis by (simp add: callbacks_def)
next
  case (Some p)
  show ?thesis
  proof (cases "ice_events p")
    case Nil
    with Some show ?thesis by (simp add: callbacks_def)
  next
    case (Cons batch rest)
    from assms Some have "\<not> registered (c\<lparr>pc := Some (p\<lparr>ice_events := rest\<rparr>)\<rparr>)"
      by (simp add: registered_def)
    from fold_fire_unregistered [OF this] Some Cons show ?thesis
      by (simp add: callbacks_def)
  qed
qed

lemma before_key_callbacks [simp]: "before_key c \<Longrightarrow> before_key (callbacks L c)"
proof -
  assume b: "before_key c"
  show ?thesis
  proof (cases "pc c")
    case None
    with b show ?thesis by (simp add: callbacks_def)
  next
    case (Some p)
    show ?thesis
    proof (cases "ice_events p")
      case Nil
      with b Some show ?thesis by (simp add: callbacks_def)
    next
      case (Cons batch rest)
      from b Some have "\<not> registered (c\<lparr>pc := Some (p\<lparr>ice_events := rest\<rparr>)\<rparr>)"
        by (simp add: before_key_def registered_def)
      from fold_fire_unregistered [OF this] b Some Cons show ?thesis
        by (simp add: callbacks_def before_key_def registered_def)
    qed
  qed
qed

lemma before_key_callbacks_all [simp]: "before_key c \<Longrightarrow> before_key (callbacks_all L c)"
proof -
  assume b: "before_key c"
  show ?thesis
  proof (cases "pc c")
    case None
    with b show ?thesis by (simp add: callbacks_all_def)
  next
    case (Some p)
    from b Some have "\<not> registered (c\<lparr>pc := Some (p\<lparr>ice_events := []\<rparr>)\<rparr>)"
      by (simp add: before_key_def registered_def)
    from fold_fire_unregistered [OF this] b Some show ?thesis
      by (simp add: callbacks_all_def before_key_def registered_def)
  qed
qed

lemma before_key_frames [simp]:
  "before_key (snd (on_ws f c)) = before_key c"
  "before_key (c\<lparr>side := sd\<rparr>) = before_key c"
  "before_key (c\<lparr>key := k\<rparr>) = before_key c"
  "before_key (c\<lparr>ws := w\<rparr>) = before_key c"
  by (simp_all add: before_key_def registered_def)


lemma keyed_body [simp]: "keyed c \<Longrightarrow> keyed (snd (handleRemoteCandidates_body L c))"
  by (simp add: handleRemoteCandidates_body_def split_beta split: outcome.splits)

lemma keyed_loop [simp]: "keyed c \<Longrightarrow> keyed (snd (handleRemoteCandidates_loop L c))"
  by (rule loop_rule [where I = keyed and Q = "\<lambda>r x. keyed x"]) simp_all

lemma keyed_handleRemoteCandidates [simp]:
  "keyed c \<Longrightarrow> keyed (snd (handleRemoteCandidates L c))"
  by (simp add: handleRemoteCandidates_def split_beta split: outcome.splits)

lemma keyed_background [simp]: "keyed c \<Longrightarrow> keyed (snd (background L c))"
  by (simp add: background_def split_beta split: outcome.splits)

lemma before_key_background [simp]: "before_key c \<Longrightarrow> before_key (snd (background L c))"
  by (simp add: background_def before_key_def [of c])

lemmas keyed_steps =
  keyed_callbacks keyed_write keyed_read keyed_frames [THEN iffD2]

lemma finishNew_keyed:
  assumes "before_key c"
  shows "before_key (snd (finishNew L pass c)) \<or> keyed (snd (finishNew L pass c))"
proof -
  let ?c0 = "callbacks L (c\<lparr>side := sideNone\<rparr>)"
  obtain r cA where rd: "on_ws readBase64 ?c0 = (r, cA)" by fastforce
  from assms have "before_key (snd (on_ws readBase64 ?c0))" by simp
  with rd have bA: "before_key cA" by simp
  show ?thesis
  proof (cases r)
    case (Ok msgA)
    show ?thesis
    proof (cases "cpace_Exchange L pass (cpace_NewContextInfo [] [] []) msgA")
      case (Inl e)
      with rd Ok bA show ?thesis by (simp add: finishNew_def)
    next
      case (Inr x)
      obtain msgB mk where x: "x = (msgB, mk)" by (cases x)
      show ?thesis
      proof (cases "32 \<le> length (hkdf_New_sha256 L mk [] [])")
        case False
        with rd Ok Inr x bA show ?thesis by (simp add: finishNew_def io_ReadFull_def)
      next
        case True
        from bA have base: "keyed (cA\<lparr>key := take 32 (hkdf_New_sha256 L mk [] []),
                                      trace := trace cA @ [KeyDerived]\<rparr>)"
          by (simp add: keyed_def before_key_def)
        have "keyed (snd (finishNew L pass c))"
          unfolding finishNew_def
          apply (simp add: rd Ok Inr x io_ReadFull_def True)
          apply (intro allI impI conjI andThen_inv [where P = keyed]
              on_error_inv [where P = keyed] keyed_steps | simp add: base)+
          done
        then show ?thesis ..
      qed
    qed
  qed (use rd bA in \<open>simp_all add: finishNew_def\<close>)
qed

lemma finishJoin_keyed:
  assumes "before_key c"
  shows "before_key (snd (finishJoin L pass c)) \<or> keyed (snd (finishJoin L pass c))"
proof (cases "cpace_Start L pass (cpace_NewContextInfo [] [] [])")
  case (Inl e)
  with assms show ?thesis by (simp add: finishJoin_def)
next
  case (Inr y)
  obtain msgA st where y: "y = (msgA, st)" by (cases y)
  let ?c0 = "callbacks L c"
  obtain r0 cW where wr: "on_ws (\<lambda>w. writeBase64 w msgA) ?c0 = (r0, cW)" by fastforce
  from assms have "before_key (snd (on_ws (\<lambda>w. writeBase64 w msgA) ?c0))" by simp
  with wr have bW: "before_key cW" by simp
  obtain r cA where rd: "on_ws readBase64 (callbacks L cW) = (r, cA)" by fastforce
  from bW have "before_key (snd (on_ws readBase64 (callbacks L cW)))" by simp
  with rd have bA: "before_key cA" by simp
  show ?thesis
  proof (cases r0)
    case (Ok u)
    show ?thesis
    proof (cases r)
      case msgB: (Ok msgB)
      show ?thesis
      proof (cases "cpace_Finish L st msgB")
        case (Inl e)
        with Inr y wr Ok rd msgB bA show ?thesis by (simp add: finishJoin_def)
      next
        case mk: (Inr mk)
        show ?thesis
        proof (cases "32 \<le> length (hkdf_New_sha256 L mk [] [])")
          case False
          with Inr y wr Ok rd msgB mk bA show ?thesis
            by (simp add: finishJoin_def io_ReadFull_def)
        next
          case True
          from bA have base: "keyed (cA\<lparr>key := take 32 (hkdf_New_sha256 L mk [] []),
                                        trace := trace cA @ [KeyDerived]\<rparr>)"
            by (simp add: keyed_def before_key_def)
          have "keyed (snd (finishJoin L pass c))"
            unfolding finishJoin_def
            apply (simp add: Inr y wr Ok rd msgB mk io_ReadFull_def True)
            apply (intro allI impI conjI andThen_inv [where P = keyed]
                on_error_inv [where P = keyed] keyed_steps | simp add: base)+
            done
          then show ?thesis ..
        qed
      qed
    qed (use Inr y wr Ok rd bA in \<open>simp_all add: finishJoin_def\<close>)
  qed (use Inr y wr bW in \<open>simp_all add: finishJoin_def\<close>)
qed

lemma finish_keyed:
  "before_key c \<Longrightarrow> before_key (snd (finish L pass c)) \<or> keyed (snd (finish L pass c))"
  using finishNew_keyed [of c L pass] finishJoin_keyed [of c L pass]
  by (simp add: finish_def)

lemma Dial_keyed:
  assumes "trace c = []" "\<not> spawned c" "\<not> on_ice_candidate p"
  shows "before_key (snd (Dial L elapsed pass p c)) \<or> keyed (snd (Dial L elapsed pass p c))"
proof -
  from assms have b: "before_key (c\<lparr>pc := Some p\<rparr>)"
    by (simp add: before_key_def registered_def)
  have bg: "\<And>s. before_key s \<or> keyed s \<Longrightarrow>
      before_key (snd (background L s)) \<or> keyed (snd (background L s))"
    by auto
  show ?thesis
    unfolding Dial_def Let_def
    apply (simp add: b)
    apply (intro allI impI conjI andThen_inv [where P = "\<lambda>s. before_key s \<or> keyed s"]
        finish_keyed [OF b] bg | simp)+
    done
qed

lemma DialDataChannel_keyed:
  assumes "trace c = []" "\<not> spawned c" "\<not> registered c"
    and "\<And>q. NewPeerConnection L (ICEServers c) = Inr q \<Longrightarrow> \<not> on_ice_candidate q"
  shows "before_key (snd (DialDataChannel L opened pass c)) \<or>
         keyed (snd (DialDataChannel L opened pass c))"
proof -
  from assms have b0: "before_key c" by (simp add: before_key_def)
  have bg: "\<And>s. before_key s \<or> keyed s \<Longrightarrow>
      before_key (snd (background L s)) \<or> keyed (snd (background L s))"
    by auto
  show ?thesis
  proof (cases "NewPeerConnection L (ICEServers c)")
    case (Inl e)
    with assms show ?thesis by (simp add: DialDataChannel_def before_key_def registered_def)
  next
    case (Inr q)
    from assms Inr have b: "before_key (c\<lparr>pc := Some q\<rparr>)"
      by (simp add: before_key_def registered_def)
    show ?thesis
      unfolding DialDataChannel_def
      apply (simp add: b b0 Inr split: option.splits)
      apply (intro allI impI conjI andThen_inv [where P = "\<lambda>s. before_key s \<or> keyed s"]
          finish_keyed [OF b] bg | simp split: option.splits)+
      done
  qed
qed


lemma newWormhole_fresh:
  "newWormhole L sigserv slot sd = Ok c \<Longrightarrow> trace c = [] \<and> \<not> spawned c \<and> pc c = None"
  by (auto simp: newWormhole_def newWormhole_body_def Let_def
      split: outcome.splits sum.splits prod.splits option.splits)

lemma keyed_calls_simple [simp]:
  "keyed_calls (js_fail reason w) = keyed_calls w"
  "keyed_calls (js_throw w) = keyed_calls w"
  "keyed_calls (ws_send v w) = keyed_calls w"
  "keyed_calls (ws_close code w) = keyed_calls w"
  "keyed_calls (w\<lparr>j_state := st\<rparr>) = keyed_calls w"
  "keyed_calls (w\<lparr>j_pc := jp\<rparr>) = keyed_calls w"
  "keyed_calls (w\<lparr>j_slot := sl\<rparr>) = keyed_calls w"
  "keyed_calls (w\<lparr>j_resolved1 := b\<rparr>) = keyed_calls w"
  "keyed_calls (w\<lparr>j_resolved3 := r3\<rparr>) = keyed_calls w"
  "keyed_calls (w\<lparr>j_promise2 := b\<rparr>) = keyed_calls w"
  "keyed_calls (w\<lparr>j_pending := ps\<rparr>) = keyed_calls w"
  by (simp_all add: keyed_calls_def js_fail_def js_throw_def ws_send_def ws_close_def)

lemma keyed_calls_key [simp]: "keyed_calls (w\<lparr>j_key := k\<rparr>) = keyed_calls w"
  by (simp add: keyed_calls_def)

lemma send_sealed_keyed [simp]:
  "truthy (j_key w) \<Longrightarrow> keyed_calls w \<Longrightarrow> keyed_calls (send_sealed J v w)"
  by (simp add: send_sealed_def keyed_calls_def call_key_def ws_send_def)

lemma send_sealed_key [simp]: "j_key (send_sealed J v w) = j_key w"
  by (simp add: send_sealed_def ws_send_def)

lemma parse_opened_keyed [simp]:
  "truthy (j_key w) \<Longrightarrow> keyed_calls w \<Longrightarrow> keyed_calls (snd (parse_opened J data w))"
  "j_key (snd (parse_opened J data w)) = j_key w"
  "j_pc (snd (parse_opened J data w)) = j_pc w"
  by (simp_all add: parse_opened_def keyed_calls_def call_key_def)

lemma run_continuation_keyed [simp]:
  "keyed_calls w \<Longrightarrow> keyed_calls (run_continuation J k w)"
  by (simp add: run_continuation_def Let_def split: option.splits continuation.splits)

lemma then_promise2_keyed [simp]: "keyed_calls w \<Longrightarrow> keyed_calls (then_promise2 J k w)"
  by (simp add: then_promise2_def)

lemma fold_continuations_keyed:
  "keyed_calls w \<Longrightarrow> keyed_calls (fold (run_continuation J) ks w)"
  by (induction ks arbitrary: w) simp_all

lemma js_finish_keyed [simp]: "keyed_calls w \<Longrightarrow> keyed_calls (js_finish J w)"
  by (simp add: js_finish_def fold_continuations_keyed)

lemma makePeerConnection_keyed:
  "makePeerConnection J servers w = Some w1 \<Longrightarrow> keyed_calls w1 = keyed_calls w"
  by (auto simp: makePeerConnection_def split: option.splits)

lemma bad_key_keyed [simp]: "truthy (j_key w) \<Longrightarrow> keyed_calls w \<Longrightarrow> keyed_calls (bad_key J w)"
  by (simp add: bad_key_def js_fail_def keyed_calls_def send_sealed_def ws_send_def
      ws_close_def call_key_def)

lemma onicecandidate_keyed [simp]: "keyed_calls w \<Longrightarrow> keyed_calls (onicecandidate J cand w)"
  by (simp add: onicecandidate_def split: option.splits)

lemma js_close_keyed [simp]: "keyed_calls w \<Longrightarrow> keyed_calls (js_close w)"
  by (simp add: js_close_def split: option.splits)

lemma onclose_keyed [simp]: "keyed_calls w \<Longrightarrow> keyed_calls (onclose J code reason w)"
  by (simp add: onclose_def)


lemma onmessage_keyed [simp]:
  assumes "keyed_calls w"
  shows "keyed_calls (onmessage J data w)"
proof (cases "j_state w")
  case St_a
  with assms show ?thesis
    by (auto simp: onmessage_def makePeerConnection_keyed
        split: option.splits prod.splits)
next
  case St_b
  with assms show ?thesis
    by (auto simp: onmessage_def Let_def makePeerConnection_keyed
        split: option.splits prod.splits)
next
  case St_wait_for_pake_a
  with assms show ?thesis
    by (simp add: onmessage_def Let_def split_beta split: option.splits)
next
  case St_wait_for_pake_b
  with assms show ?thesis by (simp add: onmessage_def Let_def)
next
  case St_wait_for_webtc_offer
  with assms show ?thesis
    by (simp add: onmessage_def split_beta split: option.splits)
next
  case St_wait_for_webtc_answer
  with assms show ?thesis
    by (simp add: onmessage_def split_beta split: option.splits)
next
  case St_wait_for_candidates
  with assms show ?thesis
    by (simp add: onmessage_def split_beta split: option.splits)
qed (use assms in \<open>simp_all add: onmessage_def\<close>)

lemma js_step_keyed [simp]: "keyed_calls w \<Longrightarrow> keyed_calls (js_step J i w)"
  by (cases i) (simp_all add: onerror_def)

lemma js_run_keyed: "keyed_calls w \<Longrightarrow> keyed_calls (fold (js_step J) inputs w)"
  by (induction inputs arbitrary: w) simp_all


lemma derived_append: "derived c \<Longrightarrow> trace c' = trace c @ es \<Longrightarrow> derived c'"
  by (cases "trace c") (simp_all add: derived_def)

lemma derived_updates [simp]:
  "derived (c\<lparr>spawned := b\<rparr>) = derived c"
  "derived (c\<lparr>remoteCandidate := b\<rparr>) = derived c"
  "derived (c\<lparr>localCandidate := b\<rparr>) = derived c"
  "derived (c\<lparr>ws := w\<rparr>) = derived c"
  "derived (c\<lparr>pc := x\<rparr>) = derived c"
  "derived (c\<lparr>side := sd\<rparr>) = derived c"
  "derived (c\<lparr>key := k\<rparr>) = derived c"
  by (simp_all add: derived_def)

lemma derived_key [simp]: "derived c \<Longrightarrow> derived (d\<lparr>key := k, trace := trace c @ es\<rparr>)"
  by (erule derived_append [where es = es]) simp

lemma derived_write [simp]: "derived c \<Longrightarrow> derived (snd (call_writeEncJSON L v c))"
  by (erule derived_append [where es = "[SealedWrite v (fst (call_writeEncJSON L v c) = Ok ())]"])
     simp

lemma derived_read [simp]: "derived c \<Longrightarrow> derived (snd (call_readEncJSON L u c))"
  by (erule derived_append [where es = "[SealedRead]"]) simp

lemma derived_handleLocalCandidates [simp]: "derived c \<Longrightarrow> derived (handleLocalCandidates L e c)"
  by (cases e) (simp_all add: handleLocalCandidates_def split_beta)

lemma derived_fire [simp]: "derived c \<Longrightarrow> derived (fire L e c)"
  by (simp add: fire_def split: option.splits)

lemma derived_fold_fire [simp]: "derived c \<Longrightarrow> derived (fold (fire L) es c)"
  by (induction es arbitrary: c) simp_all

lemma derived_callbacks [simp]: "derived c \<Longrightarrow> derived (callbacks L c)"
  by (simp add: callbacks_def split: option.splits list.splits)

lemma derived_callbacks_all [simp]: "derived c \<Longrightarrow> derived (callbacks_all L c)"
  by (simp add: callbacks_all_def split: option.splits)

lemma derived_frames [simp]:
  "derived (snd (on_ws f c)) = derived c"
  "derived (snd (OnICECandidate c)) = derived c"
  "derived (snd (CreateOffer L c)) = derived c"
  "derived (snd (CreateAnswer L c)) = derived c"
  "derived (snd (SetLocalDescription L sd c)) = derived c"
  "derived (snd (SetRemoteDescription L sd c)) = derived c"
  "derived (snd (AddICECandidate L ci c)) = derived c"
  by (simp_all add: derived_def)

lemma derived_body [simp]: "derived c \<Longrightarrow> derived (snd (handleRemoteCandidates_body L c))"
  by (simp add: handleRemoteCandidates_body_def split_beta split: outcome.splits)

lemma derived_loop [simp]: "derived c \<Longrightarrow> derived (snd (handleRemoteCandidates_loop L c))"
  by (rule loop_rule [where I = derived and Q = "\<lambda>r x. derived x"]) simp_all

lemma derived_handleRemoteCandidates [simp]:
  "derived c \<Longrightarrow> derived (snd (handleRemoteCandidates L c))"
  by (simp add: handleRemoteCandidates_def split_beta split: outcome.splits)

lemma derived_background [simp]: "derived c \<Longrightarrow> derived (snd (background L c))"
  by (simp add: background_def split_beta split: outcome.splits)

lemmas derived_steps =
  derived_callbacks derived_write derived_read derived_frames [THEN iffD2] derived_key

lemma finishNew_derived: "derived c \<Longrightarrow> derived (snd (finishNew L pass c))"
  unfolding finishNew_def io_ReadFull_def
  by (intro allI impI conjI andThen_inv [where P = derived] on_error_inv [where P = derived]
        derived_steps
      | simp split: sum.splits option.splits prod.splits)+

lemma finishJoin_derived: "derived c \<Longrightarrow> derived (snd (finishJoin L pass c))"
  unfolding finishJoin_def io_ReadFull_def
  by (intro allI impI conjI andThen_inv [where P = derived] on_error_inv [where P = derived]
        derived_steps
      | simp split: sum.splits option.splits prod.splits)+

lemma finish_derived: "derived c \<Longrightarrow> derived (snd (finish L pass c))"
  by (simp add: finish_def finishNew_derived finishJoin_derived)

lemma Dial_derived: "derived c \<Longrightarrow> derived (snd (Dial L elapsed pass p c))"
  unfolding Dial_def Let_def
  by (intro allI impI conjI andThen_inv [where P = derived] finish_derived derived_background
      | simp)+

lemma DialDataChannel_derived:
  "derived c \<Longrightarrow> derived (snd (DialDataChannel L opened pass c))"
  unfolding DialDataChannel_def
  by (intro allI impI conjI andThen_inv [where P = derived] finish_derived derived_background
      | simp split: sum.splits option.splits)+

text \<open>
  C5. \<^verbatim>\<open>New\<close> and \<^verbatim>\<open>Join\<close> return a wormhole on which nothing has happened.
  On such a wormhole, with a peer connection that does not have the handler yet, every
  run of \<^verbatim>\<open>Dial\<close> and of \<^verbatim>\<open>DialDataChannel\<close>, whatever it returns and
  whenever the gatherer raises its candidates, ends in one of two ways: no sealed frame
  was written or read, the handler is not registered and the goroutine not started; or
  the first thing that happened is the derivation of the key, once, and every call of
  \<^verbatim>\<open>writeEncJSON\<close> and \<^verbatim>\<open>readEncJSON\<close>, those of the handler and of the
  goroutine included, came after it. A later call on the same wormhole keeps the
  derivation of a key as the first thing that happened, so in every call every sealed
  frame is written and read after a derivation of the key has completed. While the
  handler is not registered, what the gatherer raises writes nothing on the socket. In the browser client every call of
  \<^verbatim>\<open>seal\<close> and \<^verbatim>\<open>open\<close>, in every run, got a key that is truthy, and
  \<^verbatim>\<open>onicecandidate\<close> sends nothing while the key is not.
\<close>

theorem sealed_frames_wait_for_key:
  "(trace c = [] \<longrightarrow> \<not> spawned c \<longrightarrow> \<not> on_ice_candidate p \<longrightarrow>
      (let s = snd (Dial L elapsed pass p c)
       in (trace s = [] \<and> \<not> registered s \<and> \<not> spawned s) \<or>
          (trace s \<noteq> [] \<and> hd (trace s) = KeyDerived \<and> KeyDerived \<notin> set (tl (trace s))))) \<and>
   (trace c = [] \<longrightarrow> \<not> spawned c \<longrightarrow> \<not> registered c \<longrightarrow>
    (\<forall>q. NewPeerConnection L (ICEServers c) = Inr q \<longrightarrow> \<not> on_ice_candidate q) \<longrightarrow>
      (let s = snd (DialDataChannel L opened pass c)
       in (trace s = [] \<and> \<not> registered s \<and> \<not> spawned s) \<or>
          (trace s \<noteq> [] \<and> hd (trace s) = KeyDerived \<and> KeyDerived \<notin> set (tl (trace s))))) \<and>
   (trace c \<noteq> [] \<longrightarrow> hd (trace c) = KeyDerived \<longrightarrow>
      (let s = snd (Dial L elapsed pass p c) in trace s \<noteq> [] \<and> hd (trace s) = KeyDerived) \<and>
      (let s = snd (DialDataChannel L opened pass c)
       in trace s \<noteq> [] \<and> hd (trace s) = KeyDerived)) \<and>
   (New L sigserv = Ok a \<longrightarrow> trace a = [] \<and> \<not> spawned a \<and> \<not> registered a) \<and>
   (Join L sigserv slot = Ok b \<longrightarrow> trace b = [] \<and> \<not> spawned b \<and> \<not> registered b) \<and>
   (\<not> registered x \<longrightarrow> ws (callbacks L x) = ws x \<and> trace (callbacks L x) = trace x) \<and>
   list_all (\<lambda>k. truthy (call_key k)) (j_calls (fold (js_step J) inputs (js_new st jpass))) \<and>
   (\<not> truthy (j_key w) \<longrightarrow>
      j_sent (onicecandidate J cand w) = j_sent w \<and>
      j_calls (onicecandidate J cand w) = j_calls w)"
proof -
  have "keyed_calls (js_new st jpass)" by (simp add: keyed_calls_def js_new_def)
  from js_run_keyed [OF this, of J inputs]
  have js: "list_all (\<lambda>k. truthy (call_key k))
              (j_calls (fold (js_step J) inputs (js_new st jpass)))"
    by (simp add: keyed_calls_def)
  have n: "New L sigserv = Ok a \<longrightarrow> trace a = [] \<and> \<not> spawned a \<and> \<not> registered a"
    using newWormhole_fresh [of L sigserv "[]" sideNew a] by (simp add: New_def registered_def)
  have j: "Join L sigserv slot = Ok b \<longrightarrow> trace b = [] \<and> \<not> spawned b \<and> \<not> registered b"
    using newWormhole_fresh [of L sigserv slot sideJoin b] by (simp add: Join_def registered_def)
  have d: "trace c = [] \<longrightarrow> \<not> spawned c \<longrightarrow> \<not> on_ice_candidate p \<longrightarrow>
      (let s = snd (Dial L elapsed pass p c)
       in (trace s = [] \<and> \<not> registered s \<and> \<not> spawned s) \<or>
          (trace s \<noteq> [] \<and> hd (trace s) = KeyDerived \<and> KeyDerived \<notin> set (tl (trace s))))"
    using Dial_keyed [of c p L elapsed pass] by (simp add: Let_def before_key_def keyed_def)
  have dd: "trace c = [] \<longrightarrow> \<not> spawned c \<longrightarrow> \<not> registered c \<longrightarrow>
    (\<forall>q. NewPeerConnection L (ICEServers c) = Inr q \<longrightarrow> \<not> on_ice_candidate q) \<longrightarrow>
      (let s = snd (DialDataChannel L opened pass c)
       in (trace s = [] \<and> \<not> registered s \<and> \<not> spawned s) \<or>
          (trace s \<noteq> [] \<and> hd (trace s) = KeyDerived \<and> KeyDerived \<notin> set (tl (trace s))))"
    using DialDataChannel_keyed [of c L opened pass]
    by (simp add: Let_def before_key_def keyed_def)
  have g: "\<not> registered x \<longrightarrow> ws (callbacks L x) = ws x \<and> trace (callbacks L x) = trace x"
    using callbacks_unregistered [of x L] by simp
  have k: "\<not> truthy (j_key w) \<longrightarrow>
      j_sent (onicecandidate J cand w) = j_sent w \<and>
      j_calls (onicecandidate J cand w) = j_calls w"
    by (simp add: onicecandidate_def js_throw_def split: option.splits)
  have r: "trace c \<noteq> [] \<longrightarrow> hd (trace c) = KeyDerived \<longrightarrow>
      (let s = snd (Dial L elapsed pass p c) in trace s \<noteq> [] \<and> hd (trace s) = KeyDerived) \<and>
      (let s = snd (DialDataChannel L opened pass c)
       in trace s \<noteq> [] \<and> hd (trace s) = KeyDerived)"
    using Dial_derived [of c L elapsed pass p] DialDataChannel_derived [of c L opened pass]
    by (simp add: Let_def derived_def)
  from d dd r n j g js k show ?thesis by (intro conjI)
qed

text \<open>The runs of the stand-in peers.\<close>

lemma new0_trace:
  "trace (snd (Dial lib0 0 ''pw'' gatherer0 new0)) =
     [KeyDerived,
      SealedWrite (JCandidate (ToJSON ''x'')) True,
      SealedWrite (JCandidate ICECandidateInit_zero) True,
      SealedWrite (JDescription \<lparr>sd_type = ''offer'', sd_sdp = ''o''\<rparr>) True,
      SealedRead, SealedRead]"
  by (simp add: run_defs)

lemma js_calls0:
  "j_calls (fold (js_step jslib0) js_inputs0 (js_new St_b (JStr ''pw''))) =
     [OpenCall (JStr ''pw''), SealCall (JStr ''pw''), SealCall (JStr ''pw'')]"
  by (simp add: js_inputs0_def jslib0_def js_new_def onmessage_def makePeerConnection_def
      indexed_def ws_send_def Let_def onicecandidate_def parse_opened_def then_promise2_def
      js_finish_def run_continuation_def send_sealed_def)

theorem sealed_frames_wait_for_key_witness:
  "hd (trace (snd (Dial lib0 0 ''pw'' gatherer0 new0))) = KeyDerived \<and>
   KeyDerived \<notin> set (tl (trace (snd (Dial lib0 0 ''pw'' gatherer0 new0)))) \<and>
   length (trace (snd (Dial lib0 0 ''pw'' gatherer0 new0))) = 6 \<and>
   list_all (\<lambda>k. truthy (call_key k))
     (j_calls (fold (js_step jslib0) js_inputs0 (js_new St_b (JStr ''pw'')))) \<and>
   length (j_calls (fold (js_step jslib0) js_inputs0 (js_new St_b (JStr ''pw'')))) = 3"
  using sealed_frames_wait_for_key [where c = new0 and p = gatherer0 and L = lib0
      and elapsed = 0 and pass = "''pw''" and J = jslib0 and inputs = js_inputs0
      and st = St_b and jpass = "JStr ''pw''"]
    new0_trace js_calls0
  by (simp add: Let_def new0_def wormhole0_def gatherer0_def pc0_def)

end
